theory Spec2Isabelle
  imports Main "HOL-Library.AList"
begin

section \<open>Values, errors and effects of \<^verbatim>\<open>toil/cwl/cwltoil.py\<close>\<close>

text \<open>
  The CWL values that flow through the resolver are the JSON-like Python objects produced
  by the YAML loader, plus instances of the sentinel class \<^verbatim>\<open>SkipNull\<close>. Python
  dictionaries keep insertion order and have distinct keys; they are association lists
  updated with \<open>AList.update\<close> (replace in place, else append). Floating point
  numbers are not part of the model.
\<close>

datatype val =
    PyNone
  | SkipNull
  | PyBool bool
  | PyInt int
  | PyStr string
  | PyList "val list"
  | PyDict "(string \<times> val) list"

type_synonym dict = "(string \<times> val) list"

text \<open>The exceptions the modelled code raises, explicitly or through a failed lookup.\<close>

datatype error =
    ValidationException string
  | WorkflowException string
  | ExpressionError
  | IndexError
  | KeyError string
  | TypeError

text \<open>
  What a run leaves behind besides its value: warnings sent to \<^verbatim>\<open>cwllogger\<close> and
  executions of a wrapped tool.
\<close>

datatype event = Warning string | Executed dict

type_synonym 'a res = "error + 'a"
type_synonym 'a io = "(error + 'a) \<times> event list"

definition bind_res :: "'a res \<Rightarrow> ('a \<Rightarrow> 'b res) \<Rightarrow> 'b res" where
  "bind_res r f = (case r of Inl e \<Rightarrow> Inl e | Inr a \<Rightarrow> f a)"

definition return_io :: "'a \<Rightarrow> 'a io" where
  "return_io a = (Inr a, [])"

definition lift_io :: "'a res \<Rightarrow> 'a io" where
  "lift_io r = (r, [])"

definition bind_io :: "'a io \<Rightarrow> ('a \<Rightarrow> 'b io) \<Rightarrow> 'b io" where
  "bind_io m f =
     (case m of
        (Inl e, log) \<Rightarrow> (Inl e, log)
      | (Inr a, log) \<Rightarrow> (case f a of (r, log') \<Rightarrow> (r, log @ log')))"

text \<open>A comprehension or a loop body that can raise, run left to right.\<close>

fun map_res :: "('a \<Rightarrow> 'b res) \<Rightarrow> 'a list \<Rightarrow> 'b list res" where
  "map_res f [] = Inr []"
| "map_res f (x # xs) =
     (case f x of
        Inl e \<Rightarrow> Inl e
      | Inr y \<Rightarrow> (case map_res f xs of Inl e \<Rightarrow> Inl e | Inr ys \<Rightarrow> Inr (y # ys)))"

fun map_io :: "('a \<Rightarrow> 'b io) \<Rightarrow> 'a list \<Rightarrow> 'b list io" where
  "map_io f [] = return_io []"
| "map_io f (x # xs) =
     bind_io (f x) (\<lambda>y. bind_io (map_io f xs) (\<lambda>ys. return_io (y # ys)))"

fun fold_res :: "('a \<Rightarrow> 's \<Rightarrow> 's res) \<Rightarrow> 'a list \<Rightarrow> 's \<Rightarrow> 's res" where
  "fold_res f [] s = Inr s"
| "fold_res f (x # xs) s =
     (case f x s of Inl e \<Rightarrow> Inl e | Inr s' \<Rightarrow> fold_res f xs s')"

subsection \<open>Python primitives\<close>

text \<open>\<^verbatim>\<open>bool(v)\<close>: an instance of a plain class such as \<^verbatim>\<open>SkipNull\<close> is truthy.\<close>

fun truthy :: "val \<Rightarrow> bool" where
  "truthy PyNone = False"
| "truthy SkipNull = True"
| "truthy (PyBool b) = b"
| "truthy (PyInt n) = (n \<noteq> 0)"
| "truthy (PyStr s) = (s \<noteq> [])"
| "truthy (PyList vs) = (vs \<noteq> [])"
| "truthy (PyDict kvs) = (kvs \<noteq> [])"

text \<open>\<^verbatim>\<open>d[k]\<close>, \<^verbatim>\<open>d.get(k)\<close> and \<^verbatim>\<open>d[k] = v\<close> on a dictionary.\<close>

definition dict_item :: "(string \<times> 'a) list \<Rightarrow> string \<Rightarrow> 'a res" where
  "dict_item d k = (case map_of d k of None \<Rightarrow> Inl (KeyError k) | Some v \<Rightarrow> Inr v)"

definition dict_get :: "dict \<Rightarrow> string \<Rightarrow> val" where
  "dict_get d k = (case map_of d k of None \<Rightarrow> PyNone | Some v \<Rightarrow> v)"

definition dict_set :: "string \<Rightarrow> 'a \<Rightarrow> (string \<times> 'a) list \<Rightarrow> (string \<times> 'a) list" where
  "dict_set k v d = AList.update k v d"

text \<open>\<^verbatim>\<open>{f(k): v for k, v in d.items()}\<close>: a later item overwrites an equal key.\<close>

definition rekey :: "(string \<Rightarrow> string) \<Rightarrow> (string \<times> 'a) list \<Rightarrow> (string \<times> 'a) list" where
  "rekey f d = foldl (\<lambda>acc (k, v). dict_set (f k) v acc) [] d"

text \<open>\<^verbatim>\<open>len(v)\<close> and \<^verbatim>\<open>v[i]\<close> for a natural number \<open>i\<close>.\<close>

fun py_len :: "val \<Rightarrow> nat res" where
  "py_len (PyList vs) = Inr (length vs)"
| "py_len (PyStr s) = Inr (length s)"
| "py_len (PyDict kvs) = Inr (length kvs)"
| "py_len v = Inl TypeError"

fun py_index :: "val \<Rightarrow> nat \<Rightarrow> val res" where
  "py_index (PyList vs) i = (if i < length vs then Inr (vs ! i) else Inl IndexError)"
| "py_index (PyStr s) i = (if i < length s then Inr (PyStr [s ! i]) else Inl IndexError)"
| "py_index (PyDict kvs) i = Inl (KeyError [])"
| "py_index v i = Inl TypeError"

text \<open>\<^verbatim>\<open>cwltool.utils.aslist\<close> on a field that holds one identifier or a list of them.\<close>

datatype ids = One string | Many "string list"

fun aslist :: "ids \<Rightarrow> string list" where
  "aslist (One s) = [s]"
| "aslist (Many ss) = ss"

section \<open>\<^verbatim>\<open>filter_skip_null\<close>\<close>

definition quote :: "string \<Rightarrow> string" where
  "quote s = [CHR 0x27] @ s @ [CHR 0x27]"

definition skip_null_warning :: "string \<Rightarrow> string" where
  "skip_null_warning name =
     ''In '' @ name @ '', SkipNull result found and cast to None. '' @ [CHR 0x0A] @
     ''You had a conditional step that did not run, '' @
     ''but you did not use pickValue to handle the skipped input.''"

text \<open>
  \<^verbatim>\<open>_filter_skip_null(name, value, err_flag)\<close>: the one-element list \<^verbatim>\<open>err_flag\<close> is a
  boolean passed by reference, here passed in and returned.
\<close>

fun filter_skip_null_rec :: "string \<Rightarrow> val \<Rightarrow> bool \<Rightarrow> val \<times> bool"
  and filter_skip_null_list :: "string \<Rightarrow> val list \<Rightarrow> bool \<Rightarrow> val list \<times> bool"
  and filter_skip_null_items :: "string \<Rightarrow> dict \<Rightarrow> bool \<Rightarrow> dict \<times> bool"
where
  "filter_skip_null_rec name SkipNull err_flag = (PyNone, True)"
| "filter_skip_null_rec name (PyList vs) err_flag =
     (case filter_skip_null_list name vs err_flag of (vs', flag) \<Rightarrow> (PyList vs', flag))"
| "filter_skip_null_rec name (PyDict kvs) err_flag =
     (case filter_skip_null_items name kvs err_flag of (kvs', flag) \<Rightarrow> (PyDict kvs', flag))"
| "filter_skip_null_rec name PyNone err_flag = (PyNone, err_flag)"
| "filter_skip_null_rec name (PyBool b) err_flag = (PyBool b, err_flag)"
| "filter_skip_null_rec name (PyInt n) err_flag = (PyInt n, err_flag)"
| "filter_skip_null_rec name (PyStr s) err_flag = (PyStr s, err_flag)"
| "filter_skip_null_list name [] err_flag = ([], err_flag)"
| "filter_skip_null_list name (v # vs) err_flag =
     (case filter_skip_null_rec name v err_flag of
        (v', flag) \<Rightarrow>
          (case filter_skip_null_list name vs flag of (vs', flag') \<Rightarrow> (v' # vs', flag')))"
| "filter_skip_null_items name [] err_flag = ([], err_flag)"
| "filter_skip_null_items name ((k, v) # kvs) err_flag =
     (case filter_skip_null_rec name v err_flag of
        (v', flag) \<Rightarrow>
          (case filter_skip_null_items name kvs flag of
             (kvs', flag') \<Rightarrow> ((k, v') # kvs', flag')))"

definition filter_skip_null :: "string \<Rightarrow> val \<Rightarrow> val io" where
  "filter_skip_null name value =
     (case filter_skip_null_rec name value False of
        (value', err_flag) \<Rightarrow>
          (Inr value', if err_flag then [Warning (skip_null_warning name)] else []))"

section \<open>\<^verbatim>\<open>ResolveSource\<close>: linkMerge and pickValue\<close>

text \<open>
  A CWL input object (a step input or a workflow output) with the fields the resolver and
  the unroller read. A field that is \<open>None\<close> is absent from the mapping.
\<close>

record port =
  p_id :: string
  p_source :: "ids option"
  p_outputSource :: "ids option"
  p_linkMerge :: "string option"
  p_pickValue :: "string option"
  p_default :: "val option"
  p_valueFrom :: "string option"

text \<open>\<^verbatim>\<open>self.input[self.source_key]\<close>, where the key is "source" or "outputSource".\<close>

definition input_item :: "port \<Rightarrow> string \<Rightarrow> ids res" where
  "input_item inp source_key =
     (case (if source_key = ''source'' then p_source inp
            else if source_key = ''outputSource'' then p_outputSource inp
            else None) of
        None \<Rightarrow> Inl (KeyError source_key)
      | Some raw \<Rightarrow> Inr raw)"

text \<open>\<^verbatim>\<open>input.get("linkMerge")\<close> used as a condition: absent and empty are both falsy.\<close>

definition str_truthy :: "string option \<Rightarrow> bool" where
  "str_truthy x = (case x of None \<Rightarrow> False | Some s \<Rightarrow> s \<noteq> [])"

text \<open>
  \<^verbatim>\<open>self.promise_tuples\<close> is a list of pairs or one pair. The second component is
  \<^verbatim>\<open>promises[s].rv()\<close>: a reference to the producing job while the graph is built (any
  type \<open>'p\<close>), and that job's output object once the consumer runs (\<open>'p = dict\<close>).
\<close>

datatype 'p promise_tuples = TupleList "(string \<times> 'p) list" | Tuple "string \<times> 'p"

record 'p ResolveSource =
  rs_name :: string
  rs_input :: port
  rs_source_key :: string
  rs_promise_tuples :: "'p promise_tuples"

definition promise_rv :: "(string \<rightharpoonup> 'p) \<Rightarrow> string \<Rightarrow> 'p res" where
  "promise_rv promises s = (case promises s of None \<Rightarrow> Inl (KeyError s) | Some p \<Rightarrow> Inr p)"

text \<open>\<^verbatim>\<open>ResolveSource.__init__\<close>; \<open>shortname\<close> is \<^verbatim>\<open>cwltool.process.shortname\<close>.\<close>

definition ResolveSource_init ::
  "(string \<Rightarrow> string) \<Rightarrow> string \<Rightarrow> port \<Rightarrow> string \<Rightarrow> (string \<rightharpoonup> 'p) \<Rightarrow> 'p ResolveSource res"
where
  "ResolveSource_init shortname name inp source_key promises =
     bind_res (input_item inp source_key) (\<lambda>raw.
       let source_names = aslist raw in
       if str_truthy (p_linkMerge inp) \<or> length source_names > 1 then
         bind_res
           (map_res (\<lambda>s. bind_res (promise_rv promises s) (\<lambda>p. Inr (shortname s, p)))
              source_names)
           (\<lambda>pts. Inr \<lparr>rs_name = name, rs_input = inp, rs_source_key = source_key,
                        rs_promise_tuples = TupleList pts\<rparr>)
       else
         (case source_names of
            [] \<Rightarrow> Inl IndexError
          | s # _ \<Rightarrow>
              bind_res (promise_rv promises s) (\<lambda>p.
                Inr \<lparr>rs_name = name, rs_input = inp, rs_source_key = source_key,
                      rs_promise_tuples = Tuple (shortname s, p)\<rparr>)))"

definition unsupported_linkMerge :: "string \<Rightarrow> string \<Rightarrow> error" where
  "unsupported_linkMerge link_merge_type name =
     ValidationException (''Unsupported linkMerge '' @ quote link_merge_type @ '' on '' @ name @ ''.'')"

text \<open>\<^verbatim>\<open>ResolveSource.link_merge\<close>; the loop extends or appends to \<^verbatim>\<open>result\<close>.\<close>

definition link_merge :: "'p ResolveSource \<Rightarrow> val list \<Rightarrow> val list res" where
  "link_merge self values =
     (let link_merge_type =
        (case p_linkMerge (rs_input self) of None \<Rightarrow> ''merge_nested'' | Some t \<Rightarrow> t)
      in
        if link_merge_type = ''merge_nested'' then Inr values
        else if link_merge_type = ''merge_flattened'' then
          Inr (foldl (\<lambda>result v. case v of PyList xs \<Rightarrow> result @ xs | _ \<Rightarrow> result @ [v])
                 [] values)
        else Inl (unsupported_linkMerge link_merge_type (rs_name self)))"

definition first_none_found :: "string \<Rightarrow> error" where
  "first_none_found name =
     WorkflowException (name @ '': first_non_null operator found no non-null values'')"

definition only_none_found :: "string \<Rightarrow> error" where
  "only_none_found name =
     WorkflowException (name @ '': only_non_null operator found no non-null values'')"

definition only_many_found :: "string \<Rightarrow> error" where
  "only_many_found name =
     WorkflowException (name @ '': only_non_null operator found more than one non-null values'')"

definition unsupported_pickValue :: "string \<Rightarrow> string \<Rightarrow> error" where
  "unsupported_pickValue pick_value_type name =
     WorkflowException (''Unsupported pickValue '' @ quote pick_value_type @ '' on '' @ name)"

definition not_a_list_warning :: "string \<Rightarrow> event" where
  "not_a_list_warning name = Warning (''pickValue used but input '' @ name @ '' is not a list.'')"

text \<open>\<^verbatim>\<open>ResolveSource.pick_value\<close>.\<close>

definition pick_value :: "'p ResolveSource \<Rightarrow> val \<Rightarrow> val io" where
  "pick_value self values =
     (case p_pickValue (rs_input self) of
        None \<Rightarrow> return_io values
      | Some pick_value_type \<Rightarrow>
          (case values of
             PyList vs \<Rightarrow>
               (let result = filter (\<lambda>v. v \<noteq> SkipNull \<and> v \<noteq> PyNone) vs in
                  if pick_value_type = ''first_non_null'' then
                    (if length result < 1 then lift_io (Inl (first_none_found (rs_name self)))
                     else return_io (result ! 0))
                  else if pick_value_type = ''only_non_null'' then
                    (if length result = 0 then lift_io (Inl (only_none_found (rs_name self)))
                     else if length result > 1 then
                       lift_io (Inl (only_many_found (rs_name self)))
                     else return_io (result ! 0))
                  else if pick_value_type = ''all_non_null'' then return_io (PyList result)
                  else lift_io (Inl (unsupported_pickValue pick_value_type (rs_name self))))
           | _ \<Rightarrow> (Inr values, [not_a_list_warning (rs_name self)])))"

text \<open>
  \<^verbatim>\<open>ResolveSource.resolve\<close>, run by the consumer, when every promise has been replaced
  by the output object of its job.
\<close>

definition merged_value :: "dict ResolveSource \<Rightarrow> val res" where
  "merged_value self =
     (case rs_promise_tuples self of
        TupleList pts \<Rightarrow>
          bind_res (map_res (\<lambda>(k, d). dict_item d k) pts) (\<lambda>values.
            bind_res (link_merge self values) (\<lambda>result. Inr (PyList result)))
      | Tuple (k, d) \<Rightarrow> Inr (dict_get d k))"

definition ResolveSource_resolve :: "dict ResolveSource \<Rightarrow> val io" where
  "ResolveSource_resolve self =
     bind_io (lift_io (merged_value self)) (\<lambda>result.
       bind_io (pick_value self result) (\<lambda>result.
         filter_skip_null (rs_name self) result))"

section \<open>Deferred step inputs and \<^verbatim>\<open>resolve_indirect\<close>\<close>

text \<open>
  \<^verbatim>\<open>cwltool.expression.do_eval(expression, inputs, requirements, None, None, {}, context)\<close>,
  the external expression evaluator: \<open>None\<close> when it raises.
\<close>

type_synonym evaluator = "string \<Rightarrow> dict \<Rightarrow> val \<Rightarrow> val \<Rightarrow> val option"

definition eval_res :: "val option \<Rightarrow> val res" where
  "eval_res r = (case r of None \<Rightarrow> Inl ExpressionError | Some v \<Rightarrow> Inr v)"

text \<open>
  The objects with a \<^verbatim>\<open>resolve\<close> method that a job object holds: \<^verbatim>\<open>ResolveSource\<close>,
  \<^verbatim>\<open>StepValueFrom(expr, source, req)\<close>, \<^verbatim>\<open>DefaultWithSource(default, source)\<close>, whose source
  may be \<^verbatim>\<open>None\<close>, and \<^verbatim>\<open>JustAValue(val)\<close>.
\<close>

datatype 'p indirect =
    OfResolveSource "'p ResolveSource"
  | StepValueFrom string "'p indirect" val
  | DefaultWithSource val "'p indirect option"
  | JustAValue val

text \<open>
  The \<^verbatim>\<open>resolve\<close> methods. In \<^verbatim>\<open>DefaultWithSource.resolve\<close> the test \<^verbatim>\<open>if self.source\<close>
  only separates \<^verbatim>\<open>None\<close> from an object, and \<^verbatim>\<open>if result\<close> is Python truthiness.
\<close>

fun resolve :: "dict indirect \<Rightarrow> val io" where
  "resolve (OfResolveSource rs) = ResolveSource_resolve rs"
| "resolve (StepValueFrom expr source req) = resolve source"
| "resolve (DefaultWithSource dflt None) = return_io dflt"
| "resolve (DefaultWithSource dflt (Some source)) =
     bind_io (resolve source) (\<lambda>result.
       if truthy result then return_io result else return_io dflt)"
| "resolve (JustAValue v) = return_io v"

text \<open>A job object: an \<^verbatim>\<open>IndirectDict\<close> of resolvable objects, or a plain dictionary.\<close>

datatype 'p pdict = IndirectDict "(string \<times> 'p indirect) list" | PlainDict dict

text \<open>
  \<^verbatim>\<open>resolve_indirect\<close>. The context of a \<^verbatim>\<open>StepValueFrom\<close> is the value its own
  \<^verbatim>\<open>resolve\<close> stored in the first pass, which is the first-pass result under its key.
  A plain dictionary holds no \<^verbatim>\<open>StepValueFrom\<close> and is copied.
\<close>

definition second_pass :: "evaluator \<Rightarrow> dict \<Rightarrow> string \<times> dict indirect \<Rightarrow> (string \<times> val) res" where
  "second_pass do_eval first_pass_results item =
     (case item of (k, v) \<Rightarrow>
        bind_res (dict_item first_pass_results k) (\<lambda>r.
          case v of
            StepValueFrom expr source req \<Rightarrow>
              bind_res (eval_res (do_eval expr first_pass_results req r)) (\<lambda>x. Inr (k, x))
          | _ \<Rightarrow> Inr (k, r)))"

definition resolve_indirect :: "evaluator \<Rightarrow> dict pdict \<Rightarrow> dict io" where
  "resolve_indirect do_eval pdict =
     (case pdict of
        PlainDict d \<Rightarrow> return_io d
      | IndirectDict items \<Rightarrow>
          bind_io (map_io (\<lambda>(k, v). bind_io (resolve v) (\<lambda>r. return_io (k, r))) items)
            (\<lambda>first_pass_results.
               lift_io (map_res (second_pass do_eval first_pass_results) items)))"

section \<open>\<^verbatim>\<open>Conditional\<close>\<close>

text \<open>
  An entry of a step's \<^verbatim>\<open>out\<close> list: a string, or a mapping with an \<^verbatim>\<open>id\<close>.
  \<^verbatim>\<open>Conditional()\<close> with no arguments has no expression and no outputs.
\<close>

datatype out_port = OutStr string | OutMapping string

record Conditional =
  c_expression :: "string option"
  c_outputs :: "out_port list option"
  c_requirements :: val

definition non_boolean :: "string \<Rightarrow> error" where
  "non_boolean expression =
     WorkflowException (quote expression @ '' evaluated to a non-boolean value'')"

definition is_false :: "(string \<Rightarrow> string) \<Rightarrow> evaluator \<Rightarrow> Conditional \<Rightarrow> dict \<Rightarrow> bool io" where
  "is_false shortname do_eval self job =
     (case c_expression self of
        None \<Rightarrow> return_io False
      | Some expression \<Rightarrow>
          bind_io (resolve_indirect do_eval (PlainDict job)) (\<lambda>resolved.
            lift_io
              (bind_res
                 (eval_res (do_eval expression (rekey shortname resolved)
                    (c_requirements self) PyNone))
                 (\<lambda>expr_is_true.
                    case expr_is_true of
                      PyBool b \<Rightarrow> Inr (\<not> b)
                    | _ \<Rightarrow> Inl (non_boolean expression)))))"

fun sn :: "(string \<Rightarrow> string) \<Rightarrow> out_port \<Rightarrow> string" where
  "sn shortname (OutMapping ident) = shortname ident"
| "sn shortname (OutStr n) = shortname n"

definition skipped_outputs :: "(string \<Rightarrow> string) \<Rightarrow> Conditional \<Rightarrow> dict res" where
  "skipped_outputs shortname self =
     (case c_outputs self of
        None \<Rightarrow> Inl TypeError
      | Some outs \<Rightarrow>
          Inr (foldl (\<lambda>outobj k. dict_set k SkipNull outobj) [] (map (sn shortname) outs)))"

section \<open>\<^verbatim>\<open>CWLJob.run\<close> and \<^verbatim>\<open>CWLJobWrapper.run\<close>\<close>

text \<open>
  A job holds its job object and its conditional. What \<^verbatim>\<open>CWLJob.run\<close> does after the
  conditional gate (dropping undeclared inputs, running the tool with cwltool's
  \<^verbatim>\<open>SingleJobExecutor\<close>, raising on a status other than success, uploading the output
  files) belongs to the execution collaborator: it is the function \<open>execute\<close>, and every
  call of it is recorded as an \<open>Executed\<close> event. \<^verbatim>\<open>cwltool.process.fill_in_defaults\<close>
  is external too.
\<close>

record 'p job_spec =
  j_cwljob :: "'p pdict"
  j_conditional :: Conditional

definition CWLJob_run ::
  "(string \<Rightarrow> string) \<Rightarrow> evaluator \<Rightarrow> (dict \<Rightarrow> dict res) \<Rightarrow> (dict \<Rightarrow> dict res)
     \<Rightarrow> dict job_spec \<Rightarrow> dict io"
where
  "CWLJob_run shortname do_eval fill_in_defaults execute self =
     bind_io (resolve_indirect do_eval (j_cwljob self)) (\<lambda>cwljob.
       bind_io (lift_io (fill_in_defaults cwljob)) (\<lambda>cwljob.
         bind_io (is_false shortname do_eval (j_conditional self) cwljob) (\<lambda>skip.
           if skip then lift_io (skipped_outputs shortname (j_conditional self))
           else (execute cwljob, [Executed cwljob]))))"

text \<open>
  \<^verbatim>\<open>CWLJobWrapper.run\<close> resolves the job object, adds a \<^verbatim>\<open>CWLJob\<close> over it as a child
  and returns that child's return value.
\<close>

definition CWLJobWrapper_run ::
  "(string \<Rightarrow> string) \<Rightarrow> evaluator \<Rightarrow> (dict \<Rightarrow> dict res) \<Rightarrow> (dict \<Rightarrow> dict res)
     \<Rightarrow> dict job_spec \<Rightarrow> dict io"
where
  "CWLJobWrapper_run shortname do_eval fill_in_defaults execute self =
     bind_io (resolve_indirect do_eval (j_cwljob self)) (\<lambda>cwljob.
       bind_io (lift_io (fill_in_defaults cwljob)) (\<lambda>cwljob.
         CWLJob_run shortname do_eval fill_in_defaults execute
           \<lparr>j_cwljob = PlainDict cwljob, j_conditional = j_conditional self\<rparr>))"

section \<open>Workflow steps and \<^verbatim>\<open>makeJob\<close>\<close>

text \<open>
  What \<^verbatim>\<open>makeJob\<close> reads of a step's embedded tool: whether its class is
  \<^verbatim>\<open>Workflow\<close> and, if not, whether a resource requirement is an expression.
\<close>

datatype unit_class = WorkflowClass | DynamicResources | CommandLine

datatype job_class =
  CWLWorkflowJob | ResolveIndirectJob | CWLJobWrapperJob | CWLJobJob | CWLScatterJob | CWLGatherJob

text \<open>
  \<^verbatim>\<open>step.tool\<close> with the fields the scatter and the unroller read; \<open>st_outputs\<close> are the
  identifiers of \<^verbatim>\<open>step.tool["outputs"]\<close>.
\<close>

record step =
  st_id :: string
  st_inputs :: "port list"
  st_outputs :: "string list"
  st_out :: "out_port list"
  st_when :: "string option"
  st_scatter :: "ids option"
  st_scatterMethod :: "string option"
  st_requirements :: val
  st_embedded_tool :: unit_class

text \<open>The classes of the pair \<^verbatim>\<open>(job, followOn)\<close> that \<^verbatim>\<open>makeJob\<close> returns.\<close>

fun makeJob :: "unit_class \<Rightarrow> job_class \<times> job_class" where
  "makeJob WorkflowClass = (CWLWorkflowJob, ResolveIndirectJob)"
| "makeJob DynamicResources = (CWLJobWrapperJob, CWLJobWrapperJob)"
| "makeJob CommandLine = (CWLJobJob, CWLJobJob)"

section \<open>\<^verbatim>\<open>CWLScatter\<close>\<close>

record CWLScatter =
  sc_step :: step
  sc_cwljob :: "dict pdict"
  sc_conditional :: Conditional

text \<open>
  A sub-job made for one parameterization: the class \<^verbatim>\<open>makeJob\<close> chose, its input object
  and the conditional it shares with the step. An element of \<^verbatim>\<open>outputs\<close> stands for the
  return value of the sub-job's follow-on; nested cross products nest the lists.
\<close>

record sub_job =
  sub_class :: job_class
  sub_cwljob :: dict
  sub_conditional :: Conditional

datatype 'a nest = Leaf 'a | Nest "'a nest list"

definition make_sub_job :: "CWLScatter \<Rightarrow> dict \<Rightarrow> sub_job" where
  "make_sub_job self jo =
     \<lparr>sub_class = fst (makeJob (st_embedded_tool (sc_step self))), sub_cwljob = jo,
      sub_conditional = sc_conditional self\<rparr>"

text \<open>
  The state of a scatter: the children added with \<^verbatim>\<open>self.addChild\<close> and the list
  \<^verbatim>\<open>outputs\<close>.
\<close>

type_synonym scatter_state = "sub_job list \<times> sub_job nest list"

primrec flat_crossproduct_scatter ::
  "(string \<Rightarrow> string) \<Rightarrow> CWLScatter \<Rightarrow> (dict \<Rightarrow> dict res) \<Rightarrow> string list \<Rightarrow> dict
     \<Rightarrow> scatter_state \<Rightarrow> scatter_state res"
where
  "flat_crossproduct_scatter shortname self postScatterEval [] joborder st = Inl IndexError"
| "flat_crossproduct_scatter shortname self postScatterEval (key # rest) joborder st =
     (let scatter_key = shortname key in
      bind_res (dict_item joborder scatter_key) (\<lambda>arr.
      bind_res (py_len arr) (\<lambda>len.
        fold_res
          (\<lambda>n (children, outputs).
             bind_res (py_index arr n) (\<lambda>x.
               let jo = dict_set scatter_key x joborder in
               if rest = [] then
                 bind_res (postScatterEval jo) (\<lambda>jo.
                   Inr (children @ [make_sub_job self jo],
                        outputs @ [Leaf (make_sub_job self jo)]))
               else
                 flat_crossproduct_scatter shortname self postScatterEval rest jo
                   (children, outputs)))
          [0..<len] st)))"

primrec nested_crossproduct_scatter ::
  "(string \<Rightarrow> string) \<Rightarrow> CWLScatter \<Rightarrow> (dict \<Rightarrow> dict res) \<Rightarrow> string list \<Rightarrow> dict
     \<Rightarrow> sub_job list \<Rightarrow> scatter_state res"
where
  "nested_crossproduct_scatter shortname self postScatterEval [] joborder added = Inl IndexError"
| "nested_crossproduct_scatter shortname self postScatterEval (key # rest) joborder added =
     (let scatter_key = shortname key in
      bind_res (dict_item joborder scatter_key) (\<lambda>arr.
      bind_res (py_len arr) (\<lambda>len.
        fold_res
          (\<lambda>n (children, outputs).
             bind_res (py_index arr n) (\<lambda>x.
               let jo = dict_set scatter_key x joborder in
               if rest = [] then
                 bind_res (postScatterEval jo) (\<lambda>jo.
                   Inr (children @ [make_sub_job self jo],
                        outputs @ [Leaf (make_sub_job self jo)]))
               else
                 bind_res
                   (nested_crossproduct_scatter shortname self postScatterEval rest jo children)
                   (\<lambda>(children', inner). Inr (children', outputs @ [Nest inner]))))
          [0..<len] (added, []))))"

text \<open>The \<^verbatim>\<open>dotproduct\<close> branch of \<^verbatim>\<open>CWLScatter.run\<close>.\<close>

definition dotproduct_scatter ::
  "(string \<Rightarrow> string) \<Rightarrow> CWLScatter \<Rightarrow> (dict \<Rightarrow> dict res) \<Rightarrow> string list \<Rightarrow> dict
     \<Rightarrow> scatter_state res"
where
  "dotproduct_scatter shortname self postScatterEval scatter cwljob =
     (case scatter of
        [] \<Rightarrow> Inl IndexError
      | first # _ \<Rightarrow>
          bind_res (dict_item cwljob (shortname first)) (\<lambda>arr.
          bind_res (py_len arr) (\<lambda>len.
            fold_res
              (\<lambda>i (children, outputs).
                 bind_res
                   (fold_res
                      (\<lambda>sc copyjob.
                         bind_res (dict_item cwljob sc) (\<lambda>a.
                         bind_res (py_index a i) (\<lambda>x. Inr (dict_set sc x copyjob))))
                      (map shortname scatter) cwljob)
                   (\<lambda>copyjob.
                      bind_res (postScatterEval copyjob) (\<lambda>copyjob.
                        Inr (children @ [make_sub_job self copyjob],
                             outputs @ [Leaf (make_sub_job self copyjob)]))))
              [0..<len] ([], []))))"

text \<open>
  The dictionary \<^verbatim>\<open>valueFrom\<close> of \<^verbatim>\<open>CWLScatter.run\<close> and its closure
  \<^verbatim>\<open>postScatterEval\<close>: \<^verbatim>\<open>shortio\<close> is taken before \<^verbatim>\<open>setdefault\<close> adds the missing
  \<^verbatim>\<open>valueFrom\<close> ports, and every port with a \<^verbatim>\<open>valueFrom\<close> is replaced by the value of
  its expression, evaluated with the port's value as context.
\<close>

definition valueFrom_dict :: "(string \<Rightarrow> string) \<Rightarrow> port list \<Rightarrow> (string \<times> string) list" where
  "valueFrom_dict shortname inputs =
     foldl (\<lambda>acc i. case p_valueFrom i of
                       None \<Rightarrow> acc
                     | Some e \<Rightarrow> dict_set (shortname (p_id i)) e acc) [] inputs"

definition setdefault :: "string \<Rightarrow> val \<Rightarrow> dict \<Rightarrow> dict" where
  "setdefault k v d = (case map_of d k of None \<Rightarrow> dict_set k v d | Some _ \<Rightarrow> d)"

definition postScatterEval ::
  "(string \<Rightarrow> string) \<Rightarrow> evaluator \<Rightarrow> CWLScatter \<Rightarrow> dict \<Rightarrow> dict res"
where
  "postScatterEval shortname do_eval self io =
     (let valueFrom = valueFrom_dict shortname (st_inputs (sc_step self));
          shortio = rekey shortname io;
          io' = foldl (\<lambda>d k. setdefault k PyNone d) io (map fst valueFrom)
      in map_res
           (\<lambda>(k, v). case map_of valueFrom k of
                        None \<Rightarrow> Inr (k, v)
                      | Some e \<Rightarrow>
                          bind_res
                            (eval_res (do_eval e shortio (st_requirements (sc_step self)) v))
                            (\<lambda>r. Inr (k, r)))
           io')"

definition unsupported_scatter :: "string \<Rightarrow> error" where
  "unsupported_scatter scatterMethod =
     ValidationException (''Unsupported complex scatter type '' @ quote scatterMethod)"

definition missing_scatterMethod :: error where
  "missing_scatterMethod =
     ValidationException ''Must provide scatterMethod to scatter over multiple inputs.''"

text \<open>
  \<^verbatim>\<open>CWLScatter.run\<close> after the job object is resolved: the choice of the method and its
  branch.
\<close>

definition scatter_resolved ::
  "(string \<Rightarrow> string) \<Rightarrow> evaluator \<Rightarrow> CWLScatter \<Rightarrow> dict \<Rightarrow> scatter_state res"
where
  "scatter_resolved shortname do_eval self cwljob =
     bind_res
       (case st_scatter (sc_step self) of
          None \<Rightarrow> Inl (KeyError ''scatter'')
        | Some s \<Rightarrow> Inr (aslist s))
       (\<lambda>scatter.
          let scatterMethod =
                (if length scatter = 1 then Some ''dotproduct''
                 else st_scatterMethod (sc_step self));
              pse = postScatterEval shortname do_eval self
          in
            if scatterMethod = Some ''dotproduct'' then
              dotproduct_scatter shortname self pse scatter cwljob
            else if scatterMethod = Some ''nested_crossproduct'' then
              nested_crossproduct_scatter shortname self pse scatter cwljob []
            else if scatterMethod = Some ''flat_crossproduct'' then
              flat_crossproduct_scatter shortname self pse scatter cwljob ([], [])
            else if str_truthy scatterMethod then
              Inl (unsupported_scatter (the scatterMethod))
            else Inl missing_scatterMethod)"

definition CWLScatter_run ::
  "(string \<Rightarrow> string) \<Rightarrow> evaluator \<Rightarrow> CWLScatter \<Rightarrow> scatter_state io"
where
  "CWLScatter_run shortname do_eval self =
     bind_io (resolve_indirect do_eval (sc_cwljob self)) (\<lambda>cwljob.
       lift_io (scatter_resolved shortname do_eval self cwljob))"

section \<open>\<^verbatim>\<open>CWLWorkflow.run\<close>: unrolling the workflow graph\<close>

text \<open>
  The jobs of the graph: \<^verbatim>\<open>SelfJob\<close>, which stands for the workflow's own job and its
  resolved inputs, and the jobs made for a step, named by their class and the step.
  \<^verbatim>\<open>addChild\<close> and \<^verbatim>\<open>addFollowOn\<close> add edges.
\<close>

datatype job = SelfJob | StepJob job_class string

datatype edge = Child job job | FollowOn job job

record workflow =
  wf_inputs :: "string list"
  wf_steps :: "step list"
  wf_outputs :: "port list"
  wf_requirements :: val

text \<open>
  The dictionaries \<^verbatim>\<open>promises\<close> and \<^verbatim>\<open>jobs\<close>, the edges added so far and the jobs
  constructed so far, each with its job object and conditional.
\<close>

record unroll_state =
  u_promises :: "(string \<times> job) list"
  u_jobs :: "(string \<times> job) list"
  u_edges :: "edge list"
  u_made :: "(job \<times> job job_spec) list"

definition sources :: "port \<Rightarrow> string list" where
  "sources inp = (case p_source inp of None \<Rightarrow> [] | Some src \<Rightarrow> aslist src)"

definition in_dict :: "string \<Rightarrow> (string \<times> 'a) list \<Rightarrow> bool" where
  "in_dict k d = (map_of d k \<noteq> None)"

text \<open>The flag \<^verbatim>\<open>stepinputs_fufilled\<close>: every source of every input is a key of \<^verbatim>\<open>promises\<close>.\<close>

definition stepinputs_fufilled :: "(string \<times> job) list \<Rightarrow> step \<Rightarrow> bool" where
  "stepinputs_fufilled promises st =
     list_all (\<lambda>inp. list_all (\<lambda>s. in_dict s promises) (sources inp)) (st_inputs st)"

text \<open>The three assignments to \<^verbatim>\<open>jobobj[key]\<close> for one input of a ready step.\<close>

definition build_input ::
  "(string \<Rightarrow> string) \<Rightarrow> workflow \<Rightarrow> (string \<times> job) list \<Rightarrow> step \<Rightarrow> port
     \<Rightarrow> (string \<times> job indirect) list \<Rightarrow> (string \<times> job indirect) list res"
where
  "build_input shortname cwlwf promises st inp jobobj =
     (let key = shortname (p_id inp) in
      bind_res
        (case p_source inp of
           None \<Rightarrow> Inr jobobj
         | Some _ \<Rightarrow>
             bind_res
               (ResolveSource_init shortname (st_id st @ ''/'' @ key) inp ''source''
                  (map_of promises))
               (\<lambda>rs. Inr (dict_set key (OfResolveSource rs) jobobj)))
        (\<lambda>jobobj.
           let jobobj =
                 (case p_default inp of
                    None \<Rightarrow> jobobj
                  | Some d \<Rightarrow> dict_set key (DefaultWithSource d (map_of jobobj key)) jobobj);
               jobobj =
                 (case p_valueFrom inp of
                    None \<Rightarrow> jobobj
                  | Some e \<Rightarrow>
                      if st_scatter st = None then
                        dict_set key
                          (StepValueFrom e
                             (case map_of jobobj key of
                                None \<Rightarrow> JustAValue PyNone
                              | Some x \<Rightarrow> x)
                             (wf_requirements cwlwf))
                          jobobj
                      else jobobj)
           in Inr jobobj))"

definition is_wrapper_or_gather :: "job \<Rightarrow> bool" where
  "is_wrapper_or_gather j =
     (case j of
        StepJob c _ \<Rightarrow> c = CWLJobWrapperJob \<or> c = CWLGatherJob
      | SelfJob \<Rightarrow> False)"

text \<open>One source \<^verbatim>\<open>s\<close> of the wiring loop: the pair is the edges and \<^verbatim>\<open>connected\<close>.\<close>

definition connect ::
  "(string \<times> job) list \<Rightarrow> job \<Rightarrow> string \<Rightarrow> edge list \<times> bool \<Rightarrow> (edge list \<times> bool) res"
where
  "connect promises wfjob s ec =
     (case ec of (edges, connected) \<Rightarrow>
        bind_res (dict_item promises s) (\<lambda>p.
          if is_wrapper_or_gather p then
            (if FollowOn p wfjob \<in> set edges then Inr (edges, connected)
             else Inr (edges @ [FollowOn p wfjob], True))
          else
            (if Child p wfjob \<in> set edges then Inr (edges, connected)
             else Inr (edges @ [Child p wfjob], True))))"

text \<open>The body of \<^verbatim>\<open>if stepinputs_fufilled\<close>: the step is materialized.\<close>

definition schedule_step ::
  "(string \<Rightarrow> string) \<Rightarrow> workflow \<Rightarrow> step \<Rightarrow> unroll_state \<Rightarrow> unroll_state res"
where
  "schedule_step shortname cwlwf st state =
     bind_res
       (fold_res (build_input shortname cwlwf (u_promises state) st) (st_inputs st) [])
       (\<lambda>jobobj.
          let conditional =
                \<lparr>c_expression = st_when st, c_outputs = Some (st_out st),
                 c_requirements = wf_requirements cwlwf\<rparr>;
              classes =
                (if st_scatter st \<noteq> None then (CWLScatterJob, CWLGatherJob)
                 else makeJob (st_embedded_tool st));
              wfjob = StepJob (fst classes) (st_id st);
              followOn = StepJob (snd classes) (st_id st);
              edges0 =
                (if st_scatter st \<noteq> None \<or> st_embedded_tool st = WorkflowClass
                 then u_edges state @ [FollowOn wfjob followOn]
                 else u_edges state)
          in
            bind_res
              (fold_res (connect (u_promises state) wfjob)
                 (concat (map sources (st_inputs st))) (edges0, False))
              (\<lambda>(edges, connected).
                 Inr \<lparr>u_promises =
                        foldl (\<lambda>promises out. dict_set out followOn promises)
                          (u_promises state) (st_outputs st),
                      u_jobs = dict_set (st_id st) followOn (u_jobs state),
                      u_edges = (if connected then edges else edges @ [Child SelfJob wfjob]),
                      u_made =
                        u_made state @
                          [(wfjob, \<lparr>j_cwljob = IndirectDict jobobj,
                                    j_conditional = conditional\<rparr>)]\<rparr>))"

text \<open>
  The body of \<^verbatim>\<open>for step in self.cwlwf.steps\<close>; the flag is \<^verbatim>\<open>all_outputs_fulfilled\<close>.
\<close>

definition visit_step ::
  "(string \<Rightarrow> string) \<Rightarrow> workflow \<Rightarrow> step \<Rightarrow> unroll_state \<times> bool
     \<Rightarrow> (unroll_state \<times> bool) res"
where
  "visit_step shortname cwlwf st sf =
     (case sf of (state, all_outputs_fulfilled) \<Rightarrow>
        bind_res
          (if \<not> in_dict (st_id st) (u_jobs state) \<and> stepinputs_fufilled (u_promises state) st
           then schedule_step shortname cwlwf st state
           else Inr state)
          (\<lambda>state'.
             Inr (state',
                  all_outputs_fulfilled \<and> stepinputs_fufilled (u_promises state') st)))"

text \<open>
  The test on the workflow outputs reads the key \<^verbatim>\<open>source\<close>; a list there cannot be
  looked up in a dictionary.
\<close>

definition visit_output :: "port \<Rightarrow> unroll_state \<times> bool \<Rightarrow> (unroll_state \<times> bool) res" where
  "visit_output out sf =
     (case sf of (state, all_outputs_fulfilled) \<Rightarrow>
        (case p_source out of
           None \<Rightarrow> Inr (state, all_outputs_fulfilled)
         | Some (One s) \<Rightarrow> Inr (state, all_outputs_fulfilled \<and> in_dict s (u_promises state))
         | Some (Many ss) \<Rightarrow> Inl TypeError))"

text \<open>One iteration of the \<^verbatim>\<open>while\<close> loop, started with the flag set.\<close>

definition unroll_pass ::
  "(string \<Rightarrow> string) \<Rightarrow> workflow \<Rightarrow> unroll_state \<Rightarrow> (unroll_state \<times> bool) res"
where
  "unroll_pass shortname cwlwf state =
     bind_res (fold_res (visit_step shortname cwlwf) (wf_steps cwlwf) (state, True))
       (fold_res visit_output (wf_outputs cwlwf))"

text \<open>
  \<^verbatim>\<open>while not all_outputs_fulfilled\<close>. The loop has no other exit, so a run that never
  leaves it has the value \<open>None\<close>.
\<close>

partial_function (option) unroll ::
  "(string \<Rightarrow> string) \<Rightarrow> workflow \<Rightarrow> unroll_state \<Rightarrow> unroll_state res option"
where
  "unroll shortname cwlwf state =
     (case unroll_pass shortname cwlwf state of
        Inl e \<Rightarrow> Some (Inl e)
      | Inr (state', all_outputs_fulfilled) \<Rightarrow>
          if all_outputs_fulfilled then Some (Inr state') else unroll shortname cwlwf state')"

definition initial_state :: "workflow \<Rightarrow> unroll_state" where
  "initial_state cwlwf =
     \<lparr>u_promises = foldl (\<lambda>promises inp. dict_set inp SelfJob promises) [] (wf_inputs cwlwf),
      u_jobs = [], u_edges = [], u_made = []\<rparr>"

text \<open>The workflow output object built after the loop.\<close>

definition build_output ::
  "(string \<Rightarrow> string) \<Rightarrow> (string \<times> job) list \<Rightarrow> port
     \<Rightarrow> (string \<times> job indirect) list \<Rightarrow> (string \<times> job indirect) list res"
where
  "build_output shortname promises out outobj =
     (let key = shortname (p_id out) in
      bind_res
        (ResolveSource_init shortname (''Workflow output '' @ quote key) out ''outputSource''
           (map_of promises))
        (\<lambda>rs. Inr (dict_set key (OfResolveSource rs) outobj)))"

record CWLWorkflow =
  w_cwlwf :: workflow
  w_cwljob :: "dict pdict"
  w_conditional :: Conditional

datatype wf_return =
    SkippedOutputs dict
  | Unrolled unroll_state "(string \<times> job indirect) list"

definition CWLWorkflow_run ::
  "(string \<Rightarrow> string) \<Rightarrow> evaluator \<Rightarrow> CWLWorkflow \<Rightarrow> wf_return io option"
where
  "CWLWorkflow_run shortname do_eval self =
     (case bind_io (resolve_indirect do_eval (w_cwljob self))
             (is_false shortname do_eval (w_conditional self)) of
        (Inl e, log) \<Rightarrow> Some (Inl e, log)
      | (Inr True, log) \<Rightarrow>
          Some (bind_res (skipped_outputs shortname (w_conditional self))
                  (\<lambda>outobj. Inr (SkippedOutputs outobj)), log)
      | (Inr False, log) \<Rightarrow>
          (case unroll shortname (w_cwlwf self) (initial_state (w_cwlwf self)) of
             None \<Rightarrow> None
           | Some (Inl e) \<Rightarrow> Some (Inl e, log)
           | Some (Inr state) \<Rightarrow>
               Some (bind_res
                       (fold_res (build_output shortname (u_promises state))
                          (wf_outputs (w_cwlwf self)) [])
                       (\<lambda>outobj. Inr (Unrolled state outobj)), log)))"

section \<open>\<^verbatim>\<open>CWLGather\<close>\<close>

text \<open>
  The follow-on of a scatter. When it runs, every promise in \<^verbatim>\<open>outputs\<close> has been replaced
  by the return value of its sub-job, so \<^verbatim>\<open>outputs\<close> is a list, nested for a nested cross
  product, of output objects.
\<close>

record CWLGather =
  g_step :: step
  g_outputs :: val

text \<open>
  \<^verbatim>\<open>CWLGather.extract\<close>: \<^verbatim>\<open>obj.get(k)\<close> of a mapping, element by element through a list,
  and the empty list for anything else.
\<close>

fun CWLGather_extract :: "val \<Rightarrow> string \<Rightarrow> val" where
  "CWLGather_extract (PyDict obj) k = dict_get obj k"
| "CWLGather_extract (PyList obj) k = PyList (map (\<lambda>l. CWLGather_extract l k) obj)"
| "CWLGather_extract obj k = PyList []"

text \<open>\<^verbatim>\<open>CWLGather.run\<close>: one entry per short name of \<^verbatim>\<open>step.tool["out"]\<close>.\<close>

definition CWLGather_run :: "(string \<Rightarrow> string) \<Rightarrow> CWLGather \<Rightarrow> dict" where
  "CWLGather_run shortname self =
     foldl (\<lambda>outobj k. dict_set k (CWLGather_extract (g_outputs self) k) outobj) []
       (map (sn shortname) (st_out (g_step self)))"

text \<open>
  The job object and the conditional that \<^verbatim>\<open>makeJob\<close> hands to the constructor of a
  sub-job.
\<close>

definition sub_job_spec :: "sub_job \<Rightarrow> dict job_spec" where
  "sub_job_spec j = \<lparr>j_cwljob = PlainDict (sub_cwljob j), j_conditional = sub_conditional j\<rparr>"

text \<open>
  A scattered step from its scatter to its gather. The batch system runs the children the
  scatter added, here by \<open>run\<close> and in the order of \<^verbatim>\<open>outputs\<close>; the return value of each
  takes the place of its promise, and the gather runs on the result.
\<close>

primrec promised :: "(sub_job \<Rightarrow> dict io) \<Rightarrow> sub_job nest \<Rightarrow> val io" where
  "promised run (Leaf j) = bind_io (run j) (\<lambda>d. return_io (PyDict d))"
| "promised run (Nest ts) =
     bind_io (map_io (\<lambda>m. m) (map (promised run) ts)) (\<lambda>vs. return_io (PyList vs))"

definition scattered_step_run ::
  "(sub_job \<Rightarrow> dict io) \<Rightarrow> (string \<Rightarrow> string) \<Rightarrow> evaluator \<Rightarrow> CWLScatter \<Rightarrow> dict io"
where
  "scattered_step_run run shortname do_eval self =
     bind_io (CWLScatter_run shortname do_eval self) (\<lambda>(children, outputs).
       bind_io (map_io (promised run) outputs) (\<lambda>vs.
         return_io
           (CWLGather_run shortname \<lparr>g_step = sc_step self, g_outputs = PyList vs\<rparr>)))"

section \<open>Notions of the specification\<close>

text \<open>A value with a \<^verbatim>\<open>SkipNull\<close> somewhere inside, and the value with each one replaced by null.\<close>

fun contains_skip :: "val \<Rightarrow> bool" where
  "contains_skip SkipNull = True"
| "contains_skip (PyList vs) = list_ex contains_skip vs"
| "contains_skip (PyDict kvs) = list_ex (\<lambda>kv. contains_skip (snd kv)) kvs"
| "contains_skip v = False"

fun null_skips :: "val \<Rightarrow> val" where
  "null_skips SkipNull = PyNone"
| "null_skips (PyList vs) = PyList (map null_skips vs)"
| "null_skips (PyDict kvs) = PyDict (map (\<lambda>kv. (fst kv, null_skips (snd kv))) kvs)"
| "null_skips v = v"

text \<open>What one source contributes to a flattened merge, and the elements pickValue keeps.\<close>

definition splice :: "val \<Rightarrow> val list" where
  "splice v = (case v of PyList xs \<Rightarrow> xs | _ \<Rightarrow> [v])"

definition survivors :: "val list \<Rightarrow> val list" where
  "survivors vs = filter (\<lambda>v. v \<noteq> SkipNull \<and> v \<noteq> PyNone) vs"

text \<open>An input port \<^verbatim>\<open>step/in\<close> and a resolver for it, used in the examples.\<close>

definition example_port :: "ids \<Rightarrow> string option \<Rightarrow> string option \<Rightarrow> port" where
  "example_port src lm pv =
     \<lparr>p_id = ''step/in'', p_source = Some src, p_outputSource = None, p_linkMerge = lm,
      p_pickValue = pv, p_default = None, p_valueFrom = None\<rparr>"

definition example_rs :: "string option \<Rightarrow> string option \<Rightarrow> dict ResolveSource" where
  "example_rs lm pv =
     \<lparr>rs_name = ''step/in'', rs_input = example_port (Many [''a'', ''b'']) lm pv,
      rs_source_key = ''source'', rs_promise_tuples = TupleList []\<rparr>"

text \<open>An event that is a warning, not a tool execution.\<close>

definition is_warning :: "event \<Rightarrow> bool" where
  "is_warning ev = (case ev of Warning _ \<Rightarrow> True | Executed _ \<Rightarrow> False)"

text \<open>
  Example collaborators: the last segment of an identifier as short name, an evaluator
  that knows two expressions, a conditional step with two outputs, and a tool.
\<close>

definition example_source:: "val \<Rightarrow> dict indirect" where
  "example_source v =
     OfResolveSource \<lparr>rs_name = ''step/in'', rs_input = example_port (One ''a'') None None,
        rs_source_key = ''source'', rs_promise_tuples = Tuple (''a'', [(''a'', v)])\<rparr>"

definition last_segment :: "string \<Rightarrow> string" where
  "last_segment s = rev (takeWhile (\<lambda>c. c \<noteq> CHR ''/'') (rev s))"

definition example_eval :: evaluator where
  "example_eval expr inputs req context =
     (if expr = ''$(inputs.flag)'' then Some (dict_get inputs ''flag'')
      else if expr = ''$(self)'' then Some context
      else None)"

definition example_conditional :: Conditional where
  "example_conditional =
     \<lparr>c_expression = Some ''$(inputs.flag)'',
      c_outputs = Some [OutStr ''step/out1'', OutMapping ''step/out2''],
      c_requirements = PyList []\<rparr>"

definition example_job :: "val \<Rightarrow> dict job_spec" where
  "example_job flag =
     \<lparr>j_cwljob = PlainDict [(''flag'', flag), (''x'', PyInt 1)],
      j_conditional = example_conditional\<rparr>"

definition example_execute :: "dict \<Rightarrow> dict res" where
  "example_execute cwljob = Inr [(''out1'', dict_get cwljob ''x''), (''out2'', PyNone)]"

text \<open>A result that is a validation error, and a result that is anything else.\<close>

definition is_validation :: "'a res \<Rightarrow> bool" where
  "is_validation r = (case r of Inl (ValidationException _) \<Rightarrow> True | _ \<Rightarrow> False)"

definition other_outcome :: "'a res \<Rightarrow> bool" where
  "other_outcome r = (case r of Inl (ValidationException _) \<Rightarrow> False | _ \<Rightarrow> True)"

text \<open>
  An example scatter step over a command line tool: its scattered ports, its scatterMethod,
  its inputs and its resolved job object; and the sub-job it makes for an input object.
\<close>

definition plain_port :: "string \<Rightarrow> string option \<Rightarrow> port" where
  "plain_port ident vf =
     \<lparr>p_id = ident, p_source = None, p_outputSource = None, p_linkMerge = None,
      p_pickValue = None, p_default = None, p_valueFrom = vf\<rparr>"

definition example_scatter :: "ids \<Rightarrow> string option \<Rightarrow> port list \<Rightarrow> dict \<Rightarrow> CWLScatter" where
  "example_scatter sc m inputs cwljob =
     \<lparr>sc_step =
        \<lparr>st_id = ''step'', st_inputs = inputs, st_outputs = [''step/out1'', ''step/out2''],
         st_out = [OutStr ''step/out1'', OutMapping ''step/out2''], st_when = None,
         st_scatter = Some sc, st_scatterMethod = m, st_requirements = PyList [],
         st_embedded_tool = CommandLine\<rparr>,
      sc_cwljob = PlainDict cwljob,
      sc_conditional = example_conditional\<lparr>c_expression := None\<rparr>\<rparr>"

definition example_sub :: "dict \<Rightarrow> sub_job" where
  "example_sub jo =
     \<lparr>sub_class = CWLJobJob, sub_cwljob = jo,
      sub_conditional = example_conditional\<lparr>c_expression := None\<rparr>\<rparr>"

section \<open>Notions of the specification: deadlock of the unrolling\<close>

text \<open>
  A list \<open>U\<close> of identifiers is deadlocked in a workflow when none of them is a workflow
  input, every step that produces one of them consumes one of them, and some step consumes
  one of them: a dependency cycle, or a source that nothing produces. A state leaves \<open>U\<close>
  unpromised when none of them is a key of the promise table.
\<close>

definition consumes :: "string list \<Rightarrow> step \<Rightarrow> bool" where
  "consumes U st = list_ex (\<lambda>inp. list_ex (\<lambda>s. s \<in> set U) (sources inp)) (st_inputs st)"

definition produces :: "string list \<Rightarrow> step \<Rightarrow> bool" where
  "produces U st = list_ex (\<lambda>out. out \<in> set U) (st_outputs st)"

definition deadlocked :: "string list \<Rightarrow> workflow \<Rightarrow> bool" where
  "deadlocked U cwlwf \<longleftrightarrow>
     list_all (\<lambda>i. i \<notin> set U) (wf_inputs cwlwf)
     \<and> list_all (\<lambda>st. produces U st \<longrightarrow> consumes U st) (wf_steps cwlwf)
     \<and> list_ex (consumes U) (wf_steps cwlwf)"

definition unpromised :: "string list \<Rightarrow> unroll_state \<Rightarrow> bool" where
  "unpromised U state = list_all (\<lambda>u. \<not> in_dict u (u_promises state)) U"

text \<open>
  A workflow on which no pass can raise: no input with an empty source list and no
  \<^verbatim>\<open>linkMerge\<close>, no workflow output whose \<^verbatim>\<open>source\<close> is a list. A step a pass would
  materialize in a state: not yet in \<^verbatim>\<open>jobs\<close>, with every source promised.
\<close>

definition well_formed :: "workflow \<Rightarrow> bool" where
  "well_formed cwlwf \<longleftrightarrow>
     list_all
       (\<lambda>st. list_all
          (\<lambda>inp. p_source inp = None \<or> str_truthy (p_linkMerge inp) \<or> sources inp \<noteq> [])
          (st_inputs st))
       (wf_steps cwlwf)
     \<and> list_all (\<lambda>out. case p_source out of Some (Many ss) \<Rightarrow> False | _ \<Rightarrow> True)
         (wf_outputs cwlwf)"

definition schedulable :: "unroll_state \<Rightarrow> step \<Rightarrow> bool" where
  "schedulable state st \<longleftrightarrow>
     \<not> in_dict (st_id st) (u_jobs state) \<and> stepinputs_fufilled (u_promises state) st"

text \<open>
  Example workflows: steps A and B that source each other's output, and steps B and A
  where A sources the workflow input and B sources A; and the keys a pass leaves in
  \<^verbatim>\<open>jobs\<close> and \<^verbatim>\<open>promises\<close> with its flag.
\<close>

definition source_port :: "string \<Rightarrow> string \<Rightarrow> port" where
  "source_port ident src =
     \<lparr>p_id = ident, p_source = Some (One src), p_outputSource = None, p_linkMerge = None,
      p_pickValue = None, p_default = None, p_valueFrom = None\<rparr>"

definition tool_step :: "string \<Rightarrow> port list \<Rightarrow> string list \<Rightarrow> step" where
  "tool_step ident inputs outputs =
     \<lparr>st_id = ident, st_inputs = inputs, st_outputs = outputs,
      st_out = map OutStr outputs, st_when = None, st_scatter = None,
      st_scatterMethod = None, st_requirements = PyList [], st_embedded_tool = CommandLine\<rparr>"

definition cyclic_workflow :: workflow where
  "cyclic_workflow =
     \<lparr>wf_inputs = [''x''],
      wf_steps = [tool_step ''A'' [source_port ''A/in'' ''B/out''] [''A/out''],
                  tool_step ''B'' [source_port ''B/in'' ''A/out''] [''B/out'']],
      wf_outputs = [\<lparr>p_id = ''out'', p_source = None, p_outputSource = Some (One ''B/out''),
                     p_linkMerge = None, p_pickValue = None, p_default = None,
                     p_valueFrom = None\<rparr>],
      wf_requirements = PyList []\<rparr>"

definition cyclic_run :: CWLWorkflow where
  "cyclic_run =
     \<lparr>w_cwlwf = cyclic_workflow, w_cwljob = PlainDict [(''x'', PyInt 1)],
      w_conditional = \<lparr>c_expression = None, c_outputs = None, c_requirements = PyNone\<rparr>\<rparr>"

definition linear_workflow :: workflow where
  "linear_workflow =
     \<lparr>wf_inputs = [''x''],
      wf_steps = [tool_step ''B'' [source_port ''B/in'' ''A/out''] [''B/out''],
                  tool_step ''A'' [source_port ''A/in'' ''x''] [''A/out'']],
      wf_outputs = [\<lparr>p_id = ''out'', p_source = None, p_outputSource = Some (One ''B/out''),
                     p_linkMerge = None, p_pickValue = None, p_default = None,
                     p_valueFrom = None\<rparr>],
      wf_requirements = PyList []\<rparr>"

definition pass_summary ::
  "(unroll_state \<times> bool) res \<Rightarrow> (string list \<times> string list \<times> bool) res" where
  "pass_summary r =
     (case r of
        Inl e \<Rightarrow> Inl e
      | Inr (s, f) \<Rightarrow> Inr (map fst (u_jobs s), map fst (u_promises s), f))"

section \<open>Notions of the specification: parameterizations of a scatter\<close>

text \<open>
  The array a port holds in a job object. The Cartesian product over a list of ports, in
  port order: as one row-major list of input objects, and as a tree with one level per
  port. Every port visited on the way must hold a list.
\<close>

definition port_array :: "dict \<Rightarrow> string \<Rightarrow> val list" where
  "port_array jo k = (case map_of jo k of Some (PyList xs) \<Rightarrow> xs | _ \<Rightarrow> [])"

primrec cartesian :: "string list \<Rightarrow> dict \<Rightarrow> dict list" where
  "cartesian [] jo = [jo]"
| "cartesian (k # ks) jo =
     concat (map (\<lambda>x. cartesian ks (dict_set k x jo)) (port_array jo k))"

primrec cartesian_nest :: "string list \<Rightarrow> dict \<Rightarrow> dict nest" where
  "cartesian_nest [] jo = Leaf jo"
| "cartesian_nest (k # ks) jo =
     Nest (map (\<lambda>x. cartesian_nest ks (dict_set k x jo)) (port_array jo k))"

primrec all_arrays :: "string list \<Rightarrow> dict \<Rightarrow> bool" where
  "all_arrays [] jo = True"
| "all_arrays (k # ks) jo =
     (case map_of jo k of
        Some (PyList xs) \<Rightarrow> list_all (\<lambda>x. all_arrays ks (dict_set k x jo)) xs
      | _ \<Rightarrow> False)"

primrec leaves :: "'a nest \<Rightarrow> 'a list" where
  "leaves (Leaf a) = [a]"
| "leaves (Nest ts) = concat (map leaves ts)"

text \<open>
  The input object with two ports replaced by one element each, and the input object of
  the \<open>i\<close>-th parameterization of a dot product, before any \<^verbatim>\<open>valueFrom\<close> is evaluated.
\<close>

definition cross_input :: "string \<Rightarrow> string \<Rightarrow> dict \<Rightarrow> val \<Rightarrow> val \<Rightarrow> dict" where
  "cross_input kx ky jo x y = dict_set ky y (dict_set kx x jo)"

definition dot_input :: "dict \<Rightarrow> string list \<Rightarrow> nat \<Rightarrow> dict" where
  "dot_input cwljob keys i =
     foldl (\<lambda>d k. dict_set k (port_array cwljob k ! i) d) cwljob keys"

text \<open>
  Example scatters: over ports \<open>x\<close> and \<open>y\<close> with two and three elements, and over
  port \<open>x\<close> alone beside a port \<open>y\<close> that has a \<^verbatim>\<open>valueFrom\<close>.
\<close>

definition example_cross :: CWLScatter where
  "example_cross =
     example_scatter (Many [''step/x'', ''step/y'']) (Some ''flat_crossproduct'')
       [plain_port ''step/x'' None, plain_port ''step/y'' None]
       [(''x'', PyList [PyInt 1, PyInt 2]), (''y'', PyList [PyInt 10, PyInt 20, PyInt 30])]"

definition example_xy :: "int \<Rightarrow> int \<Rightarrow> sub_job" where
  "example_xy x y = example_sub [(''x'', PyInt x), (''y'', PyInt y)]"

definition example_dot :: CWLScatter where
  "example_dot =
     example_scatter (One ''step/x'') None
       [plain_port ''step/x'' None, plain_port ''step/y'' (Some ''$(inputs.flag)'')]
       [(''x'', PyList [PyInt 1, PyInt 2]), (''y'', PyInt 10), (''flag'', PyBool True)]"

section \<open>Notions of the specification: the result of a scattered step\<close>

text \<open>
  A value with the shape of an element of \<^verbatim>\<open>outputs\<close>: one list level per \<open>Nest\<close> and the
  value \<open>f j\<close> at the place of the sub-job \<open>j\<close>.
\<close>

primrec shape :: "('a \<Rightarrow> val) \<Rightarrow> 'a nest \<Rightarrow> val" where
  "shape f (Leaf j) = f j"
| "shape f (Nest ts) = PyList (map (shape f) ts)"

text \<open>
  An example step with a condition, scattered over port \<open>x\<close>: the condition reads the
  port \<open>flag\<close>, which is not scattered.
\<close>

definition example_when :: "val \<Rightarrow> CWLScatter" where
  "example_when flag =
     \<lparr>sc_step =
        \<lparr>st_id = ''step'',
         st_inputs = [plain_port ''step/x'' None, plain_port ''step/flag'' None],
         st_outputs = [''step/out1'', ''step/out2''],
         st_out = [OutStr ''step/out1'', OutMapping ''step/out2''],
         st_when = Some ''$(inputs.flag)'',
         st_scatter = Some (One ''step/x''), st_scatterMethod = None,
         st_requirements = PyList [], st_embedded_tool = CommandLine\<rparr>,
      sc_cwljob = PlainDict [(''x'', PyList [PyInt 1, PyInt 2]), (''flag'', flag)],
      sc_conditional = example_conditional\<rparr>"

definition example_run :: "sub_job \<Rightarrow> dict io" where
  "example_run j = CWLJob_run last_segment example_eval Inr example_execute (sub_job_spec j)"

definition example_when_sub :: "int \<Rightarrow> val \<Rightarrow> sub_job" where
  "example_when_sub x flag =
     \<lparr>sub_class = CWLJobJob, sub_cwljob = [(''x'', PyInt x), (''flag'', flag)],
      sub_conditional = example_conditional\<rparr>"

section \<open>Auxiliary facts\<close>

lemma filter_skip_null_rec_spec:
  "filter_skip_null_rec name v f = (null_skips v, f \<or> contains_skip v)"
  "filter_skip_null_list name vs f = (map null_skips vs, f \<or> list_ex contains_skip vs)"
  "filter_skip_null_items name kvs f =
     (map (\<lambda>kv. (fst kv, null_skips (snd kv))) kvs, f \<or> list_ex (\<lambda>kv. contains_skip (snd kv)) kvs)"
  by (induction name v f and name vs f and name kvs f rule: filter_skip_null_rec_filter_skip_null_list_filter_skip_null_items.induct) auto

lemma null_skips_clean: "\<not> contains_skip (null_skips v)"
  by (induction v rule: null_skips.induct) (auto simp: list_ex_iff)

lemma null_skips_id: "\<not> contains_skip v \<Longrightarrow> null_skips v = v"
  by (induction v rule: null_skips.induct) (auto simp: list_ex_iff intro: map_idI)

lemma flatten_loop: "foldl (\<lambda>result v. case v of PyList xs \<Rightarrow> result @ xs | _ \<Rightarrow> result @ [v]) acc vs = acc @ concat (map splice vs)"
  by (induction vs arbitrary: acc) (auto simp: splice_def split: val.splits)

lemma pick_first: "p_pickValue (rs_input self) = Some ''first_non_null'' \<Longrightarrow>
  pick_value self (PyList vs) = (case survivors vs of [] \<Rightarrow> (Inl (first_none_found (rs_name self)), []) | x # _ \<Rightarrow> (Inr x, []))"
  by (simp add: pick_value_def survivors_def return_io_def lift_io_def split: list.splits)

lemma pick_only: "p_pickValue (rs_input self) = Some ''only_non_null'' \<Longrightarrow>
  pick_value self (PyList vs) = (case survivors vs of [] \<Rightarrow> (Inl (only_none_found (rs_name self)), []) | [x] \<Rightarrow> (Inr x, []) | _ # _ # _ \<Rightarrow> (Inl (only_many_found (rs_name self)), []))"
  by (simp add: pick_value_def survivors_def return_io_def lift_io_def split: list.splits)

lemma pick_all: "p_pickValue (rs_input self) = Some ''all_non_null'' \<Longrightarrow>
  pick_value self (PyList vs) = (Inr (PyList (survivors vs)), [])"
  by (simp add: pick_value_def survivors_def return_io_def lift_io_def split: list.splits)

lemma pick_none: "p_pickValue (rs_input self) = None \<Longrightarrow> pick_value self v = (Inr v, [])"
  by (simp add: pick_value_def return_io_def)

lemma map_res_promises:
  "map_res (promise_rv promises) srcs = Inr ds \<Longrightarrow>
   map_res (\<lambda>s. bind_res (promise_rv promises s) (\<lambda>p. Inr (f s, p))) srcs
     = Inr (zip (map f srcs) ds)"
  by (induction srcs arbitrary: ds) (auto simp: bind_res_def split: sum.splits)

lemma map_res_length: "map_res f xs = Inr ys \<Longrightarrow> length ys = length xs"
  by (induction xs arbitrary: ys) (auto split: sum.splits)

lemma map_res_items:
  "length srcs = length ds \<Longrightarrow>
   map_res (\<lambda>(k, d). dict_item d k) (zip (map f srcs) ds)
     = map_res (\<lambda>(s, d). dict_item d (f s)) (zip srcs ds)"
  by (induction srcs ds rule: list_induct2) (auto split: sum.splits)

lemma filter_skip_null_spec:
  "filter_skip_null name v =
     (Inr (null_skips v), if contains_skip v then [Warning (skip_null_warning name)] else [])"
  by (simp add: filter_skip_null_def filter_skip_null_rec_spec)

lemma is_false_plain:
  "is_false shortname do_eval self job =
     (case c_expression self of
        None \<Rightarrow> (Inr False, [])
      | Some e \<Rightarrow>
          (case do_eval e (rekey shortname job) (c_requirements self) PyNone of
             None \<Rightarrow> (Inl ExpressionError, [])
           | Some v \<Rightarrow> (case v of PyBool b \<Rightarrow> (Inr (\<not> b), []) | _ \<Rightarrow> (Inl (non_boolean e), []))))"
  by (simp add: is_false_def resolve_indirect_def return_io_def bind_io_def lift_io_def
      bind_res_def eval_res_def split: option.splits val.splits)

lemma bind_io_warnings:
  "list_all is_warning (snd m) \<Longrightarrow> (\<And>a. list_all is_warning (snd (f a))) \<Longrightarrow>
   list_all is_warning (snd (bind_io m f))"
  by (cases m) (auto simp: bind_io_def split: sum.splits prod.splits, metis snd_conv)

lemma pick_value_warnings: "list_all is_warning (snd (pick_value rs v))"
  by (auto simp: pick_value_def return_io_def lift_io_def is_warning_def not_a_list_warning_def
      Let_def split: option.splits val.splits)

lemma filter_skip_null_warnings: "list_all is_warning (snd (filter_skip_null name v))"
  by (simp add: filter_skip_null_spec is_warning_def)

lemma ResolveSource_resolve_warnings: "list_all is_warning (snd (ResolveSource_resolve rs))"
  unfolding ResolveSource_resolve_def
  by (intro bind_io_warnings pick_value_warnings filter_skip_null_warnings) (simp add: lift_io_def)

lemma resolve_warnings: "list_all is_warning (snd (resolve x))"
  by (induction x rule: resolve.induct)
     (auto simp: ResolveSource_resolve_warnings return_io_def intro!: bind_io_warnings)

lemma map_io_warnings:
  "(\<And>x. list_all is_warning (snd (f x))) \<Longrightarrow> list_all is_warning (snd (map_io f xs))"
  by (induction xs) (auto simp: return_io_def intro!: bind_io_warnings)

lemma resolve_indirect_warnings: "list_all is_warning (snd (resolve_indirect do_eval pd))"
  by (cases pd)
     (auto simp: resolve_indirect_def return_io_def lift_io_def resolve_warnings
       intro!: bind_io_warnings map_io_warnings split: prod.splits)

lemma map_of_fold_set:
  "map_of (foldl (\<lambda>outobj k. dict_set k v outobj) acc ks) k =
     (if k \<in> set ks then Some v else map_of acc k)"
  by (induction ks arbitrary: acc) (auto simp: dict_set_def update_conv')

lemma distinct_fold_set:
  "distinct (map fst acc) \<Longrightarrow> distinct (map fst (foldl (\<lambda>outobj k. dict_set k v outobj) acc ks))"
  by (induction ks arbitrary: acc) (auto simp: dict_set_def distinct_update)

lemma skipped_outputs_map:
  "c_outputs c = Some outs \<Longrightarrow>
   \<exists>d. skipped_outputs shortname c = Inr d \<and> distinct (map fst d)
     \<and> (\<forall>k. map_of d k = (if k \<in> set (map (sn shortname) outs) then Some SkipNull else None))"
  by (simp add: skipped_outputs_def map_of_fold_set distinct_fold_set)

lemma CWLJob_run_skipped:
  assumes "resolve_indirect do_eval (j_cwljob jb) = (Inr resolved, log)"
    and "fill_in_defaults resolved = Inr job"
    and "is_false shortname do_eval (j_conditional jb) job = (Inr True, [])"
  shows "CWLJob_run shortname do_eval fill_in_defaults execute jb =
           (skipped_outputs shortname (j_conditional jb), log)"
  using assms by (simp add: CWLJob_run_def bind_io_def lift_io_def)

lemma other_outcome_iff: "other_outcome r \<longleftrightarrow> \<not> is_validation r"
  by (simp add: other_outcome_def is_validation_def split: sum.splits error.splits)

lemma other_outcome_simps [simp]:
  "other_outcome (Inr x)"
  "\<not> other_outcome (Inl (ValidationException m))"
  "other_outcome (Inl IndexError)"
  "other_outcome (Inl TypeError)"
  "other_outcome (Inl ExpressionError)"
  "other_outcome (Inl (KeyError k))"
  "other_outcome (Inl (WorkflowException m))"
  by (simp_all add: other_outcome_def)

lemma oo_bind:
  "other_outcome r \<Longrightarrow> (\<And>a. other_outcome (f a)) \<Longrightarrow> other_outcome (bind_res r f)"
  by (cases r) (auto simp: bind_res_def other_outcome_def)

lemma oo_fold: "(\<And>x s. other_outcome (f x s)) \<Longrightarrow> other_outcome (fold_res f xs s)"
proof (induction xs arbitrary: s)
  case Nil
  then show ?case by simp
next
  case (Cons x xs)
  show ?case
  proof (cases "f x s")
    case (Inl e)
    then show ?thesis using Cons.prems[of x s] by simp
  next
    case (Inr s')
    then show ?thesis using Cons.IH[OF Cons.prems, of s'] by simp
  qed
qed

lemma oo_map: "(\<And>x. other_outcome (f x)) \<Longrightarrow> other_outcome (map_res f xs)"
proof (induction xs)
  case Nil
  then show ?case by simp
next
  case (Cons x xs)
  show ?case
  proof (cases "f x")
    case (Inl e)
    then show ?thesis using Cons.prems[of x] by (simp add: other_outcome_def)
  next
    case (Inr y)
    then show ?thesis using Cons.IH[OF Cons.prems] by (cases "map_res f xs") (simp_all add: other_outcome_def)
  qed
qed

lemma oo_dict_item: "other_outcome (dict_item d k)"
  by (simp add: dict_item_def split: option.splits)

lemma oo_py_len: "other_outcome (py_len v)"
  by (cases v) simp_all

lemma oo_py_index: "other_outcome (py_index v i)"
  by (cases v) simp_all

lemma oo_eval: "other_outcome (eval_res r)"
  by (simp add: eval_res_def split: option.splits)

lemmas oo_intros = oo_bind oo_fold oo_map oo_dict_item oo_py_len oo_py_index oo_eval

lemma oo_postScatterEval: "other_outcome (postScatterEval shortname do_eval self io)"
  unfolding postScatterEval_def Let_def
  by (auto split: option.splits intro!: oo_intros)

lemma oo_flat:
  "(\<And>jo. other_outcome (pse jo)) \<Longrightarrow>
   other_outcome (flat_crossproduct_scatter shortname self pse ks jo st)"
proof (induction ks arbitrary: jo st)
  case Nil
  then show ?case by simp
next
  case (Cons k ks)
  show ?case
    unfolding flat_crossproduct_scatter.simps Let_def
    by (auto split: prod.splits intro!: oo_intros Cons)
qed

lemma oo_nested:
  "(\<And>jo. other_outcome (pse jo)) \<Longrightarrow>
   other_outcome (nested_crossproduct_scatter shortname self pse ks jo ch)"
proof (induction ks arbitrary: jo ch)
  case Nil
  then show ?case by simp
next
  case (Cons k ks)
  show ?case
    unfolding nested_crossproduct_scatter.simps Let_def
    by (auto split: prod.splits intro!: oo_intros Cons)
qed

lemma oo_dot:
  "(\<And>jo. other_outcome (pse jo)) \<Longrightarrow>
   other_outcome (dotproduct_scatter shortname self pse scatter cwljob)"
  unfolding dotproduct_scatter_def
  by (auto split: prod.splits list.splits intro!: oo_intros simp del: fold_res.simps)


lemma scatter_resolved_cases:
  assumes "st_scatter (sc_step self) = Some sc"
  shows "scatter_resolved shortname do_eval self cwljob =
     (let m = st_scatterMethod (sc_step self); pse = postScatterEval shortname do_eval self in
      if length (aslist sc) = 1 \<or> m = Some ''dotproduct'' then
        dotproduct_scatter shortname self pse (aslist sc) cwljob
      else if m = Some ''nested_crossproduct'' then
        nested_crossproduct_scatter shortname self pse (aslist sc) cwljob []
      else if m = Some ''flat_crossproduct'' then
        flat_crossproduct_scatter shortname self pse (aslist sc) cwljob ([], [])
      else if str_truthy m then Inl (unsupported_scatter (the m))
      else Inl missing_scatterMethod)"
  using assms by (simp add: scatter_resolved_def bind_res_def Let_def)

lemma upt_2: "[0..<2] = [0, 1]"
  by (simp add: upt_rec)

lemma in_dict_Nil: "\<not> in_dict k []"
  by (simp add: in_dict_def)

lemma in_dict_set: "in_dict k (dict_set k' v d) \<longleftrightarrow> k = k' \<or> in_dict k d"
  by (simp add: in_dict_def dict_set_def update_conv')

lemma in_dict_fold_set:
  "in_dict k (foldl (\<lambda>p out. dict_set out v p) d outs) \<longleftrightarrow> k \<in> set outs \<or> in_dict k d"
  by (induction outs arbitrary: d) (auto simp: in_dict_set)

lemma schedule_step_promises:
  "schedule_step shortname cwlwf st state = Inr state' \<Longrightarrow>
   \<exists>j. u_promises state' = foldl (\<lambda>p out. dict_set out j p) (u_promises state) (st_outputs st)"
  by (auto simp: schedule_step_def bind_res_def Let_def split: sum.splits prod.splits)

lemma consumes_not_ready:
  "consumes U st \<Longrightarrow> unpromised U state \<Longrightarrow> \<not> stepinputs_fufilled (u_promises state) st"
  by (auto simp: consumes_def unpromised_def stepinputs_fufilled_def list_all_iff list_ex_iff)

lemma visit_step_deadlock:
  assumes "unpromised U state" "produces U st \<longrightarrow> consumes U st"
    and "visit_step shortname cwlwf st (state, f) = Inr (state', f')"
  shows "unpromised U state' \<and> (f' \<longrightarrow> f) \<and> (consumes U st \<longrightarrow> \<not> f')"
proof (cases "\<not> in_dict (st_id st) (u_jobs state) \<and> stepinputs_fufilled (u_promises state) st")
  case True
  then have nc: "\<not> consumes U st"
    using consumes_not_ready[OF _ assms(1)] by blast
  then have np: "\<not> produces U st" using assms(2) by blast
  from True assms(3) have s: "schedule_step shortname cwlwf st state = Inr state'"
    and f': "f' = (f \<and> stepinputs_fufilled (u_promises state') st)"
    by (auto simp: visit_step_def bind_res_def split: sum.splits)
  from schedule_step_promises[OF s] obtain j where
    p: "u_promises state' = foldl (\<lambda>p out. dict_set out j p) (u_promises state) (st_outputs st)"
    by blast
  have "unpromised U state'"
    using assms(1) np
    by (auto simp: unpromised_def p in_dict_fold_set produces_def list_all_iff list_ex_iff)
  then show ?thesis using nc f' by simp
next
  case False
  with assms(3) have e: "state' = state"
    and f': "f' = (f \<and> stepinputs_fufilled (u_promises state) st)"
    by (auto simp: visit_step_def bind_res_def split: if_splits)
  show ?thesis using assms(1) e f' consumes_not_ready[OF _ assms(1)] by auto
qed

lemma fold_visit_step_deadlock:
  assumes "list_all (\<lambda>st. produces U st \<longrightarrow> consumes U st) steps"
    and "unpromised U state"
    and "fold_res (visit_step shortname cwlwf) steps (state, f) = Inr (state', f')"
  shows "unpromised U state' \<and> (f' \<longrightarrow> f) \<and> (list_ex (consumes U) steps \<longrightarrow> \<not> f')"
  using assms
proof (induction steps arbitrary: state f)
  case Nil
  then show ?case by simp
next
  case (Cons st steps)
  from Cons.prems(3) obtain s1 f1 where
    v: "visit_step shortname cwlwf st (state, f) = Inr (s1, f1)"
    and r: "fold_res (visit_step shortname cwlwf) steps (s1, f1) = Inr (state', f')"
    by (auto split: sum.splits)
  from Cons.prems(1) have h: "produces U st \<longrightarrow> consumes U st"
    and t: "list_all (\<lambda>st. produces U st \<longrightarrow> consumes U st) steps" by simp_all
  note a = visit_step_deadlock[OF Cons.prems(2) h v]
  note b = Cons.IH[OF t _ r]
  show ?case using a b by auto
qed

lemma fold_visit_output_state:
  "fold_res visit_output outs (state, f) = Inr (state', f') \<Longrightarrow> state' = state \<and> (f' \<longrightarrow> f)"
proof (induction outs arbitrary: f)
  case Nil
  then show ?case by simp
next
  case (Cons out outs)
  then show ?case
    by (auto simp: visit_output_def split: sum.splits option.splits ids.splits)
qed

lemma unroll_pass_deadlock:
  assumes "deadlocked U cwlwf" "unpromised U state"
    and "unroll_pass shortname cwlwf state = Inr (state', f')"
  shows "unpromised U state' \<and> \<not> f'"
proof -
  from assms(3) obtain s1 f1 where
    a: "fold_res (visit_step shortname cwlwf) (wf_steps cwlwf) (state, True) = Inr (s1, f1)"
    and b: "fold_res visit_output (wf_outputs cwlwf) (s1, f1) = Inr (state', f')"
    by (auto simp: unroll_pass_def bind_res_def split: sum.splits)
  from assms(1) have d: "list_all (\<lambda>st. produces U st \<longrightarrow> consumes U st) (wf_steps cwlwf)"
    "list_ex (consumes U) (wf_steps cwlwf)"
    by (simp_all add: deadlocked_def)
  from fold_visit_step_deadlock[OF d(1) assms(2) a] d(2)
  have "unpromised U s1" "\<not> f1" by simp_all
  then show ?thesis using fold_visit_output_state[OF b] by simp
qed

lemma initial_unpromised:
  "deadlocked U cwlwf \<Longrightarrow> unpromised U (initial_state cwlwf)"
  by (auto simp: deadlocked_def unpromised_def initial_state_def in_dict_fold_set list_all_iff
      in_dict_Nil)

lemma unroll_deadlock_no_return:
  assumes "unroll shortname cwlwf state = Some r"
  shows "deadlocked U cwlwf \<and> unpromised U state \<longrightarrow> (\<exists>e. r = Inl e)"
proof (rule unroll.raw_induct
    [where P = "\<lambda>shortname cwlwf state r.
                  deadlocked U cwlwf \<and> unpromised U state \<longrightarrow> (\<exists>e. r = Inl e)",
     OF _ assms])
  fix unroll' :: "(string \<Rightarrow> string) \<Rightarrow> workflow \<Rightarrow> unroll_state \<Rightarrow> unroll_state res option"
  fix shortname cwlwf state r
  assume ih: "\<And>shortname cwlwf state r. unroll' shortname cwlwf state = Some r \<Longrightarrow>
                deadlocked U cwlwf \<and> unpromised U state \<longrightarrow> (\<exists>e. r = Inl e)"
  assume body: "(case unroll_pass shortname cwlwf state of
                   Inl e \<Rightarrow> Some (Inl e)
                 | Inr (state', all_outputs_fulfilled) \<Rightarrow>
                     if all_outputs_fulfilled then Some (Inr state')
                     else unroll' shortname cwlwf state') = Some r"
  show "deadlocked U cwlwf \<and> unpromised U state \<longrightarrow> (\<exists>e. r = Inl e)"
  proof
    assume h: "deadlocked U cwlwf \<and> unpromised U state"
    show "\<exists>e. r = Inl e"
    proof (cases "unroll_pass shortname cwlwf state")
      case (Inl e)
      with body show ?thesis by auto
    next
      case (Inr p)
      obtain state' f' where p: "p = (state', f')" by (cases p)
      from h have d: "deadlocked U cwlwf" and u0: "unpromised U state" by simp_all
      from unroll_pass_deadlock[OF d u0 Inr[unfolded p]]
      have u: "unpromised U state'" and f: "\<not> f'" by simp_all
      from body Inr p f have "unroll' shortname cwlwf state' = Some r" by simp
      from ih[OF this] h u show ?thesis by simp
    qed
  qed
qed

lemma bind_res_Inr: "bind_res (Inr a) f = f a"
  by (simp add: bind_res_def)

lemma bind_pair_total:
  "\<exists>x. r = Inr x \<Longrightarrow> \<exists>y. bind_res r (\<lambda>(a, b). Inr (g a b)) = Inr y"
  by (auto simp: bind_res_def split: prod.splits)

lemma map_res_total:
  "(\<And>x. x \<in> set xs \<Longrightarrow> \<exists>y. f x = Inr y) \<Longrightarrow> \<exists>ys. map_res f xs = Inr ys"
proof (induction xs)
  case Nil
  then show ?case by simp
next
  case (Cons x xs)
  from Cons.prems[of x] obtain y where y: "f x = Inr y" by auto
  from Cons.IH Cons.prems obtain ys where "map_res f xs = Inr ys" by auto
  with y show ?case by simp
qed

lemma fold_res_total:
  "(\<And>x s. x \<in> set xs \<Longrightarrow> \<exists>s'. f x s = Inr s') \<Longrightarrow> \<exists>s'. fold_res f xs s = Inr s'"
proof (induction xs arbitrary: s)
  case Nil
  then show ?case by simp
next
  case (Cons x xs)
  from Cons.prems[of x s] obtain s1 where s1: "f x s = Inr s1" by auto
  from Cons.IH[of s1] Cons.prems obtain s2 where "fold_res f xs s1 = Inr s2" by auto
  with s1 show ?case by simp
qed

lemma promise_rv_total: "in_dict s promises \<Longrightarrow> \<exists>p. promise_rv (map_of promises) s = Inr p"
  by (auto simp: in_dict_def promise_rv_def)

lemma ResolveSource_init_total:
  assumes "p_source inp = Some src" "list_all (\<lambda>s. in_dict s promises) (aslist src)"
    and "str_truthy (p_linkMerge inp) \<or> aslist src \<noteq> []"
  shows "\<exists>rs. ResolveSource_init shortname name inp ''source'' (map_of promises) = Inr rs"
proof (cases "str_truthy (p_linkMerge inp) \<or> length (aslist src) > 1")
  case True
  have "\<exists>pts. map_res (\<lambda>s. bind_res (promise_rv (map_of promises) s)
                 (\<lambda>p. Inr (shortname s, p))) (aslist src) = Inr pts"
  proof (rule map_res_total)
    fix s assume "s \<in> set (aslist src)"
    with assms(2) have "in_dict s promises" by (simp add: list_all_iff)
    from promise_rv_total[OF this]
    show "\<exists>y. bind_res (promise_rv (map_of promises) s) (\<lambda>p. Inr (shortname s, p)) = Inr y"
      by (auto simp: bind_res_def)
  qed
  then show ?thesis using True assms(1)
    by (auto simp: ResolveSource_init_def input_item_def bind_res_def)
next
  case False
  with assms(3) obtain s ss where c: "aslist src = s # ss" by (cases "aslist src") auto
  with assms(2) have "in_dict s promises" by simp
  from promise_rv_total[OF this] show ?thesis using False assms(1) c
    by (auto simp: ResolveSource_init_def input_item_def bind_res_def)
qed

lemma build_input_total:
  assumes "list_all (\<lambda>s. in_dict s promises) (sources inp)"
    and "p_source inp = None \<or> str_truthy (p_linkMerge inp) \<or> sources inp \<noteq> []"
  shows "\<exists>j. build_input shortname cwlwf promises st inp jobobj = Inr j"
proof (cases "p_source inp")
  case None
  then show ?thesis by (simp add: build_input_def bind_res_def Let_def)
next
  case (Some src)
  with assms have a: "list_all (\<lambda>s. in_dict s promises) (aslist src)"
    and b: "str_truthy (p_linkMerge inp) \<or> aslist src \<noteq> []"
    by (simp_all add: sources_def)
  from ResolveSource_init_total[OF Some a b] obtain rs where
    "ResolveSource_init shortname (st_id st @ ''/'' @ shortname (p_id inp)) inp ''source''
       (map_of promises) = Inr rs" by blast
  then show ?thesis using Some by (simp add: build_input_def bind_res_def Let_def)
qed

lemma connect_total:
  "in_dict s promises \<Longrightarrow> \<exists>ec'. connect promises wfjob s ec = Inr ec'"
  by (cases ec) (auto simp: connect_def dict_item_def bind_res_def in_dict_def)

lemma schedule_step_total:
  assumes "stepinputs_fufilled promises st" "u_promises state = promises"
    and "list_all
          (\<lambda>inp. p_source inp = None \<or> str_truthy (p_linkMerge inp) \<or> sources inp \<noteq> [])
          (st_inputs st)"
  shows "\<exists>state'. schedule_step shortname cwlwf st state = Inr state'"
proof -
  have "\<exists>j. fold_res (build_input shortname cwlwf promises st) (st_inputs st) [] = Inr j"
  proof (rule fold_res_total)
    fix inp jobobj assume i: "inp \<in> set (st_inputs st)"
    with assms(1) have a: "list_all (\<lambda>s. in_dict s promises) (sources inp)"
      by (simp add: stepinputs_fufilled_def list_all_iff)
    from i assms(3) have b:
      "p_source inp = None \<or> str_truthy (p_linkMerge inp) \<or> sources inp \<noteq> []"
      by (simp add: list_all_iff)
    from build_input_total[OF a b]
    show "\<exists>s'. build_input shortname cwlwf promises st inp jobobj = Inr s'" by blast
  qed
  then obtain jobobj where j:
    "fold_res (build_input shortname cwlwf promises st) (st_inputs st) [] = Inr jobobj" by blast
  have c: "\<exists>ec'. fold_res (connect promises wfjob) (concat (map sources (st_inputs st))) ec
             = Inr ec'" for wfjob ec
  proof (rule fold_res_total)
    fix s ec0 assume "s \<in> set (concat (map sources (st_inputs st)))"
    with assms(1) have "in_dict s promises"
      by (auto simp: stepinputs_fufilled_def list_all_iff)
    from connect_total[OF this] show "\<exists>s'. connect promises wfjob s ec0 = Inr s'" by blast
  qed
  show ?thesis
    unfolding schedule_step_def assms(2) j bind_res_Inr Let_def
    by (rule bind_pair_total) (rule c)
qed

lemma visit_step_total:
  assumes "list_all
          (\<lambda>inp. p_source inp = None \<or> str_truthy (p_linkMerge inp) \<or> sources inp \<noteq> [])
          (st_inputs st)"
  shows "\<exists>sf'. visit_step shortname cwlwf st sf = Inr sf'"
proof (cases sf)
  case (Pair state f)
  show ?thesis
  proof (cases "\<not> in_dict (st_id st) (u_jobs state) \<and> stepinputs_fufilled (u_promises state) st")
    case True
    then have "stepinputs_fufilled (u_promises state) st" by simp
    from schedule_step_total[OF this refl assms] obtain state' where
      "schedule_step shortname cwlwf st state = Inr state'" by blast
    then show ?thesis using True Pair by (simp add: visit_step_def bind_res_def)
  next
    case False
    then show ?thesis using Pair by (auto simp add: visit_step_def bind_res_def)
  qed
qed

lemma visit_output_total:
  "(case p_source out of Some (Many ss) \<Rightarrow> False | _ \<Rightarrow> True) \<Longrightarrow>
   \<exists>sf'. visit_output out sf = Inr sf'"
  by (cases sf) (auto simp: visit_output_def split: option.splits ids.splits)

lemma unroll_pass_total:
  assumes "well_formed cwlwf"
  shows "\<exists>sf'. unroll_pass shortname cwlwf state = Inr sf'"
proof -
  have "\<exists>sf'. fold_res (visit_step shortname cwlwf) (wf_steps cwlwf) (state, True) = Inr sf'"
  proof (rule fold_res_total)
    fix st sf assume "st \<in> set (wf_steps cwlwf)"
    with assms have "list_all
          (\<lambda>inp. p_source inp = None \<or> str_truthy (p_linkMerge inp) \<or> sources inp \<noteq> [])
          (st_inputs st)"
      by (simp add: well_formed_def list_all_iff)
    from visit_step_total[OF this] show "\<exists>s'. visit_step shortname cwlwf st sf = Inr s'"
      by blast
  qed
  then obtain sf1 where a:
    "fold_res (visit_step shortname cwlwf) (wf_steps cwlwf) (state, True) = Inr sf1" by blast
  have "\<exists>sf'. fold_res visit_output (wf_outputs cwlwf) sf1 = Inr sf'"
  proof (rule fold_res_total)
    fix out sf assume "out \<in> set (wf_outputs cwlwf)"
    with assms have "case p_source out of Some (Many ss) \<Rightarrow> False | _ \<Rightarrow> True"
      by (simp add: well_formed_def list_all_iff)
    from visit_output_total[OF this] show "\<exists>s'. visit_output out sf = Inr s'" by blast
  qed
  then show ?thesis by (simp add: unroll_pass_def a bind_res_Inr)
qed

lemma unroll_deadlock_diverges:
  assumes "deadlocked U cwlwf" "well_formed cwlwf" "unpromised U state"
  shows "unroll shortname cwlwf state = None"
proof (rule ccontr)
  assume "unroll shortname cwlwf state \<noteq> None"
  then obtain r where r: "unroll shortname cwlwf state = Some r" by auto
  have "deadlocked U cwlwf \<and> well_formed cwlwf \<and> unpromised U state \<longrightarrow> False"
  proof (rule unroll.raw_induct
      [where P = "\<lambda>shortname cwlwf state r.
                    deadlocked U cwlwf \<and> well_formed cwlwf \<and> unpromised U state \<longrightarrow> False",
       OF _ r])
    fix unroll' :: "(string \<Rightarrow> string) \<Rightarrow> workflow \<Rightarrow> unroll_state \<Rightarrow> unroll_state res option"
    fix shortname cwlwf state r
    assume ih: "\<And>shortname cwlwf state r. unroll' shortname cwlwf state = Some r \<Longrightarrow>
                  deadlocked U cwlwf \<and> well_formed cwlwf \<and> unpromised U state \<longrightarrow> False"
    assume body: "(case unroll_pass shortname cwlwf state of
                     Inl e \<Rightarrow> Some (Inl e)
                   | Inr (state', all_outputs_fulfilled) \<Rightarrow>
                       if all_outputs_fulfilled then Some (Inr state')
                       else unroll' shortname cwlwf state') = Some r"
    show "deadlocked U cwlwf \<and> well_formed cwlwf \<and> unpromised U state \<longrightarrow> False"
    proof
      assume h: "deadlocked U cwlwf \<and> well_formed cwlwf \<and> unpromised U state"
      then have d: "deadlocked U cwlwf" and w: "well_formed cwlwf"
        and u0: "unpromised U state" by simp_all
      from unroll_pass_total[OF w] obtain state' f' where
        p: "unroll_pass shortname cwlwf state = Inr (state', f')" by fastforce
      from unroll_pass_deadlock[OF d u0 p]
      have u: "unpromised U state'" and f: "\<not> f'" by simp_all
      from body p f have "unroll' shortname cwlwf state' = Some r" by simp
      from ih[OF this] d w u show False by simp
    qed
  qed
  with assms show False by simp
qed

lemma visit_step_not_schedulable:
  "\<not> schedulable state st \<Longrightarrow>
   visit_step shortname cwlwf st (state, f) =
     Inr (state, f \<and> stepinputs_fufilled (u_promises state) st)"
  by (auto simp: schedulable_def visit_step_def bind_res_def)

lemma fold_visit_step_stuck:
  "list_all (\<lambda>st. \<not> schedulable state st) steps \<Longrightarrow>
   \<exists>f'. fold_res (visit_step shortname cwlwf) steps (state, f) = Inr (state, f')"
  by (induction steps arbitrary: f) (auto simp: visit_step_not_schedulable)

lemma unroll_pass_stuck:
  assumes "list_all (\<lambda>st. \<not> schedulable state st) (wf_steps cwlwf)"
    and "unroll_pass shortname cwlwf state = Inr (state', f')"
  shows "state' = state"
proof -
  from fold_visit_step_stuck[OF assms(1)] obtain f1 where
    "fold_res (visit_step shortname cwlwf) (wf_steps cwlwf) (state, True) = Inr (state, f1)"
    by blast
  with assms(2) have "fold_res visit_output (wf_outputs cwlwf) (state, f1) = Inr (state', f')"
    by (simp add: unroll_pass_def bind_res_Inr)
  from fold_visit_output_state[OF this] show ?thesis by simp
qed

lemma unroll_fixed_pass_diverges:
  assumes "unroll_pass shortname cwlwf state = Inr (state, False)"
  shows "unroll shortname cwlwf state = None"
proof (rule ccontr)
  assume "unroll shortname cwlwf state \<noteq> None"
  then obtain r where r: "unroll shortname cwlwf state = Some r" by auto
  have "shortname = shortname \<and> cwlwf = cwlwf \<and> state = state \<longrightarrow> False"
  proof (rule unroll.raw_induct
      [where P = "\<lambda>sn' cwlwf' state' r.
                    sn' = shortname \<and> cwlwf' = cwlwf \<and> state' = state \<longrightarrow> False",
       OF _ r])
    fix unroll' :: "(string \<Rightarrow> string) \<Rightarrow> workflow \<Rightarrow> unroll_state \<Rightarrow> unroll_state res option"
    fix sn' cwlwf' state' r
    assume ih: "\<And>sn' cwlwf' state' r. unroll' sn' cwlwf' state' = Some r \<Longrightarrow>
                  sn' = shortname \<and> cwlwf' = cwlwf \<and> state' = state \<longrightarrow> False"
    assume body: "(case unroll_pass sn' cwlwf' state' of
                     Inl e \<Rightarrow> Some (Inl e)
                   | Inr (state'', all_outputs_fulfilled) \<Rightarrow>
                       if all_outputs_fulfilled then Some (Inr state'')
                       else unroll' sn' cwlwf' state'') = Some r"
    show "sn' = shortname \<and> cwlwf' = cwlwf \<and> state' = state \<longrightarrow> False"
    proof
      assume h: "sn' = shortname \<and> cwlwf' = cwlwf \<and> state' = state"
      with body assms have "unroll' shortname cwlwf state = Some r" by simp
      from ih[OF this] show False by simp
    qed
  qed
  then show False by simp
qed

lemma pass_summary_Inr:
  "pass_summary r = Inr (js, ps, f) \<Longrightarrow>
   \<exists>s. r = Inr (s, f) \<and> map fst (u_jobs s) = js \<and> map fst (u_promises s) = ps"
  by (auto simp: pass_summary_def split: sum.splits prod.splits)

lemma linear_first_pass:
  "pass_summary (unroll_pass last_segment linear_workflow (initial_state linear_workflow))
     = Inr ([''A''], [''x'', ''A/out''], False)"
  by code_simp

lemma linear_second_pass:
  "pass_summary
     (bind_res (unroll_pass last_segment linear_workflow (initial_state linear_workflow))
        (\<lambda>(s, f). unroll_pass last_segment linear_workflow s))
     = Inr ([''A'', ''B''], [''x'', ''A/out'', ''B/out''], True)"
  by code_simp

lemma cyclic_pass:
  "unroll_pass last_segment cyclic_workflow (initial_state cyclic_workflow)
     = Inr (initial_state cyclic_workflow, False)"
  by code_simp

lemma all_arrays_Cons:
  "all_arrays (k # ks) jo \<Longrightarrow>
   \<exists>xs. map_of jo k = Some (PyList xs) \<and> port_array jo k = xs
      \<and> (\<forall>x \<in> set xs. all_arrays ks (dict_set k x jo))"
  by (auto simp: port_array_def list_all_iff split: option.splits val.splits)

lemma fold_index_aux:
  "fold_res (\<lambda>n (c, outs). bind_res (py_index (PyList (ys @ xs)) n) (\<lambda>x. h x c outs))
     [length ys..<length ys + length xs] s
   = fold_res (\<lambda>x (c, outs). h x c outs) xs s"
proof (induction xs arbitrary: ys s)
  case Nil
  then show ?case by simp
next
  case (Cons x xs)
  obtain c outs where s: "s = (c, outs)" by (cases s)
  have u: "[length ys..<length ys + length (x # xs)]
             = length ys # [length (ys @ [x])..<length (ys @ [x]) + length xs]"
    by (subst upt_rec) simp
  have i: "py_index (PyList (ys @ x # xs)) (length ys) = Inr x" by simp
  show ?case
    unfolding u fold_res.simps s
    using Cons.IH[of "ys @ [x]"]
    by (simp add: i bind_res_Inr split: sum.splits)
qed

lemma fold_index:
  "fold_res (\<lambda>n (c, outs). bind_res (py_index (PyList xs) n) (\<lambda>x. h x c outs))
     [0..<length xs] s
   = fold_res (\<lambda>x (c, outs). h x c outs) xs s"
  using fold_index_aux[where ys = "[]" and xs = xs and h = h and s = s] by simp

lemma fold_append:
  "(\<And>x c outs. x \<in> set xs \<Longrightarrow> h x c outs = Inr (c @ A x, outs @ B x)) \<Longrightarrow>
   fold_res (\<lambda>x (c, outs). h x c outs) xs (c, outs)
     = Inr (c @ concat (map A xs), outs @ concat (map B xs))"
  by (induction xs arbitrary: c outs) simp_all

lemma flat_Cons_list:
  assumes "map_of jo (shortname k) = Some (PyList xs)"
  shows "flat_crossproduct_scatter shortname self pse (k # rest) jo st
    = fold_res
        (\<lambda>x (c, outs).
           if rest = [] then
             bind_res (pse (dict_set (shortname k) x jo))
               (\<lambda>j. Inr (c @ [make_sub_job self j], outs @ [Leaf (make_sub_job self j)]))
           else flat_crossproduct_scatter shortname self pse rest
                  (dict_set (shortname k) x jo) (c, outs))
        xs st"
  by (simp add: assms dict_item_def bind_res_Inr Let_def fold_index del: py_index.simps)

lemma nested_Cons_list:
  assumes "map_of jo (shortname k) = Some (PyList xs)"
  shows "nested_crossproduct_scatter shortname self pse (k # rest) jo added
    = fold_res
        (\<lambda>x (c, outs).
           if rest = [] then
             bind_res (pse (dict_set (shortname k) x jo))
               (\<lambda>j. Inr (c @ [make_sub_job self j], outs @ [Leaf (make_sub_job self j)]))
           else bind_res
                  (nested_crossproduct_scatter shortname self pse rest
                     (dict_set (shortname k) x jo) c)
                  (\<lambda>(c', inner). Inr (c', outs @ [Nest inner])))
        xs (added, [])"
  by (simp add: assms dict_item_def bind_res_Inr Let_def fold_index del: py_index.simps)

lemma flat_cartesian:
  assumes "keys \<noteq> []" "all_arrays (map shortname keys) jo"
    and "\<And>j. j \<in> set (cartesian (map shortname keys) jo) \<Longrightarrow> pse j = Inr (pe j)"
  shows "flat_crossproduct_scatter shortname self pse keys jo (c, outs)
    = Inr (c @ map (\<lambda>j. make_sub_job self (pe j)) (cartesian (map shortname keys) jo),
           outs @ map (\<lambda>j. Leaf (make_sub_job self (pe j)))
                    (cartesian (map shortname keys) jo))"
  using assms
proof (induction keys arbitrary: jo c outs)
  case Nil
  then show ?case by simp
next
  case (Cons k rest)
  from all_arrays_Cons[of "shortname k" "map shortname rest" jo] Cons.prems(2)
  obtain xs where xs: "map_of jo (shortname k) = Some (PyList xs)"
    "port_array jo (shortname k) = xs"
    "\<forall>x \<in> set xs. all_arrays (map shortname rest) (dict_set (shortname k) x jo)"
    by auto
  let ?A = "\<lambda>x. map (\<lambda>j. make_sub_job self (pe j))
                 (cartesian (map shortname rest) (dict_set (shortname k) x jo))"
  let ?B = "\<lambda>x. map (\<lambda>j. Leaf (make_sub_job self (pe j)))
                 (cartesian (map shortname rest) (dict_set (shortname k) x jo))"
  have step: "(if rest = [] then
             bind_res (pse (dict_set (shortname k) x jo))
               (\<lambda>j. Inr (c @ [make_sub_job self j], outs @ [Leaf (make_sub_job self j)]))
           else flat_crossproduct_scatter shortname self pse rest
                  (dict_set (shortname k) x jo) (c, outs))
         = Inr (c @ ?A x, outs @ ?B x)" if x: "x \<in> set xs" for x c outs
  proof (cases "rest = []")
    case True
    have "dict_set (shortname k) x jo \<in> set (cartesian (map shortname (k # rest)) jo)"
      using x xs(2) True by simp
    from Cons.prems(3)[OF this] show ?thesis using True by (simp add: bind_res_Inr)
  next
    case False
    have a: "all_arrays (map shortname rest) (dict_set (shortname k) x jo)"
      using xs(3) x by simp
    have p: "pse j = Inr (pe j)"
      if "j \<in> set (cartesian (map shortname rest) (dict_set (shortname k) x jo))" for j
      using Cons.prems(3)[of j] that x xs(2) by auto
    from Cons.IH[OF False a p] show ?thesis using False by simp
  qed
  show ?case
    unfolding flat_Cons_list[where shortname = shortname and k = k, OF xs(1)]
    using fold_append[where xs = xs and A = ?A and B = ?B and c = c and outs = outs, OF step]
    by (simp add: xs(2) map_concat comp_def)
qed

lemma nested_cartesian:
  assumes "all_arrays (map shortname (k # rest)) jo"
    and "\<And>j. j \<in> set (cartesian (map shortname (k # rest)) jo) \<Longrightarrow> pse j = Inr (pe j)"
  shows "nested_crossproduct_scatter shortname self pse (k # rest) jo c
    = Inr (c @ map (\<lambda>j. make_sub_job self (pe j)) (cartesian (map shortname (k # rest)) jo),
           map (\<lambda>x. map_nest (\<lambda>j. make_sub_job self (pe j))
                       (cartesian_nest (map shortname rest) (dict_set (shortname k) x jo)))
             (port_array jo (shortname k)))"
  using assms
proof (induction rest arbitrary: k jo c)
  case Nil
  from all_arrays_Cons[of "shortname k" "[]" jo] Nil.prems(1)
  obtain xs where xs: "map_of jo (shortname k) = Some (PyList xs)"
    "port_array jo (shortname k) = xs"
    by auto
  let ?A = "\<lambda>x. [make_sub_job self (pe (dict_set (shortname k) x jo))]"
  let ?B = "\<lambda>x. [Leaf (make_sub_job self (pe (dict_set (shortname k) x jo)))]"
  have step: "(if ([]::string list) = [] then
             bind_res (pse (dict_set (shortname k) x jo))
               (\<lambda>j. Inr (c @ [make_sub_job self j], outs @ [Leaf (make_sub_job self j)]))
           else bind_res
                  (nested_crossproduct_scatter shortname self pse []
                     (dict_set (shortname k) x jo) c)
                  (\<lambda>(c', inner). Inr (c', outs @ [Nest inner])))
         = Inr (c @ ?A x, outs @ ?B x)" if x: "x \<in> set xs" for x c outs
  proof -
    have "dict_set (shortname k) x jo \<in> set (cartesian (map shortname [k]) jo)"
      using x xs(2) by simp
    from Nil.prems(2)[OF this] show ?thesis by (simp add: bind_res_Inr)
  qed
  show ?case
    unfolding nested_Cons_list[where shortname = shortname and k = k, OF xs(1)]
    using fold_append[where xs = xs and A = ?A and B = ?B and c = c and outs = "[]", OF step]
    by (simp add: xs(2) map_concat comp_def)
next
  case (Cons k' rest)
  from all_arrays_Cons[of "shortname k" "map shortname (k' # rest)" jo] Cons.prems(1)
  obtain xs where xs: "map_of jo (shortname k) = Some (PyList xs)"
    "port_array jo (shortname k) = xs"
    "\<forall>x \<in> set xs. all_arrays (map shortname (k' # rest)) (dict_set (shortname k) x jo)"
    by auto
  let ?A = "\<lambda>x. map (\<lambda>j. make_sub_job self (pe j))
                 (cartesian (map shortname (k' # rest)) (dict_set (shortname k) x jo))"
  let ?B = "\<lambda>x. [map_nest (\<lambda>j. make_sub_job self (pe j))
                  (cartesian_nest (map shortname (k' # rest)) (dict_set (shortname k) x jo))]"
  have step: "(if k' # rest = [] then
             bind_res (pse (dict_set (shortname k) x jo))
               (\<lambda>j. Inr (c @ [make_sub_job self j], outs @ [Leaf (make_sub_job self j)]))
           else bind_res
                  (nested_crossproduct_scatter shortname self pse (k' # rest)
                     (dict_set (shortname k) x jo) c)
                  (\<lambda>(c', inner). Inr (c', outs @ [Nest inner])))
         = Inr (c @ ?A x, outs @ ?B x)" if x: "x \<in> set xs" for x c outs
  proof -
    have a: "all_arrays (map shortname (k' # rest)) (dict_set (shortname k) x jo)"
      using xs(3) x by simp
    have p: "pse j = Inr (pe j)"
      if "j \<in> set (cartesian (map shortname (k' # rest)) (dict_set (shortname k) x jo))" for j
      using Cons.prems(2)[of j] that x xs(2) by auto
    from Cons.IH[OF a p] show ?thesis by (simp add: bind_res_Inr)
  qed
  show ?case
    unfolding nested_Cons_list[where shortname = shortname and k = k, OF xs(1)]
    using fold_append[where xs = xs and A = ?A and B = ?B and c = c and outs = "[]", OF step]
    by (simp add: xs(2) map_concat comp_def)
qed

lemma map_of_dict_set: "map_of (dict_set k v d) k' = (if k' = k then Some v else map_of d k')"
  by (simp add: dict_set_def update_conv')

lemma port_array_dict_set: "k' \<noteq> k \<Longrightarrow> port_array (dict_set k v d) k' = port_array d k'"
  by (simp add: port_array_def map_of_dict_set)

lemma nth_concat_map:
  "i < length xs \<Longrightarrow> j < length ys \<Longrightarrow>
   concat (map (\<lambda>x. map (f x) ys) xs) ! (i * length ys + j) = f (xs ! i) (ys ! j)"
proof (induction xs arbitrary: i)
  case Nil
  then show ?case by simp
next
  case (Cons x xs)
  show ?case
  proof (cases i)
    case 0
    then show ?thesis using Cons.prems by (simp add: nth_append)
  next
    case (Suc i')
    then have "i' < length xs" using Cons.prems by simp
    from Cons.IH[OF this Cons.prems(2)] show ?thesis
      using Suc by (simp add: nth_append add.assoc)
  qed
qed

lemma length_concat_map:
  "length (concat (map (\<lambda>x. map (f x) ys) xs)) = length xs * length ys"
  by (induction xs) simp_all

lemma cartesian_arrays:
  assumes "distinct ks" "\<And>k. k \<in> set ks \<Longrightarrow> map_of jo k = Some (PyList (arr k))"
  shows "all_arrays ks jo \<and> length (cartesian ks jo) = prod_list (map (\<lambda>k. length (arr k)) ks)"
  using assms
proof (induction ks arbitrary: jo)
  case Nil
  then show ?case by simp
next
  case (Cons k ks)
  have a: "map_of jo k = Some (PyList (arr k))" using Cons.prems(2) by simp
  have ih: "all_arrays ks (dict_set k x jo)
      \<and> length (cartesian ks (dict_set k x jo)) = prod_list (map (\<lambda>k. length (arr k)) ks)"
    for x
  proof (rule Cons.IH)
    show "distinct ks" using Cons.prems(1) by simp
    fix k' assume "k' \<in> set ks"
    then show "map_of (dict_set k x jo) k' = Some (PyList (arr k'))"
      using Cons.prems by (auto simp: map_of_dict_set)
  qed
  have "length (cartesian (k # ks) jo)
          = sum_list (map (\<lambda>x. prod_list (map (\<lambda>k. length (arr k)) ks)) (arr k))"
    using a ih by (simp add: port_array_def length_concat comp_def)
  then show ?case using a ih by (simp add: list_all_iff sum_list_triv)
qed

lemma cartesian_two:
  assumes "kx \<noteq> ky" "map_of jo kx = Some (PyList xs)" "map_of jo ky = Some (PyList ys)"
  shows "cartesian [kx, ky] jo
           = concat (map (\<lambda>x. map (\<lambda>y. dict_set ky y (dict_set kx x jo)) ys) xs)"
    and "all_arrays [kx, ky] jo"
  using assms by (simp_all add: port_array_def map_of_dict_set list_all_iff)

lemma cartesian_leaves: "leaves (cartesian_nest ks jo) = cartesian ks jo"
  by (induction ks arbitrary: jo) (simp_all add: comp_def)

lemma leaves_map_nest: "leaves (map_nest f t) = map f (leaves t)"
  by (induction t) (simp_all add: map_concat comp_def cong: map_cong)

lemma cross_general:
  fixes self :: CWLScatter
  assumes "all_arrays (map shortname (k # rest)) jo"
    and "\<forall>j \<in> set (cartesian (map shortname (k # rest)) jo). pse j = Inr (pe j)"
  defines "subs \<equiv> map (\<lambda>j. make_sub_job self (pe j)) (cartesian (map shortname (k # rest)) jo)"
    and "tree \<equiv> map (\<lambda>x. map_nest (\<lambda>j. make_sub_job self (pe j))
                       (cartesian_nest (map shortname rest) (dict_set (shortname k) x jo)))
                  (port_array jo (shortname k))"
  shows "nested_crossproduct_scatter shortname self pse (k # rest) jo [] = Inr (subs, tree)"
    and "flat_crossproduct_scatter shortname self pse (k # rest) jo ([], [])
           = Inr (subs, map Leaf subs)"
    and "concat (map leaves tree) = subs"
proof -
  have p: "\<And>j. j \<in> set (cartesian (map shortname (k # rest)) jo) \<Longrightarrow> pse j = Inr (pe j)"
    using assms(2) by blast
  show "nested_crossproduct_scatter shortname self pse (k # rest) jo [] = Inr (subs, tree)"
    using nested_cartesian[OF assms(1) p, where self = self and c = "[]"] by (simp add: subs_def tree_def)
  show "flat_crossproduct_scatter shortname self pse (k # rest) jo ([], [])
           = Inr (subs, map Leaf subs)"
    using flat_cartesian[OF _ assms(1) p, where self = self and c = "[]" and outs = "[]"] by (simp add: subs_def)
  show "concat (map leaves tree) = subs"
    by (simp add: subs_def tree_def comp_def leaves_map_nest cartesian_leaves map_concat)
qed

lemma map_res_id: "map_res Inr io = Inr io"
  by (induction io) auto

lemma postScatterEval_plain:
  "valueFrom_dict shortname (st_inputs (sc_step self)) = [] \<Longrightarrow>
   postScatterEval shortname do_eval self io = Inr io"
  by (simp add: postScatterEval_def map_res_id)

lemma example_cross_plain:
  "postScatterEval last_segment example_eval example_cross io = Inr io"
  by (rule postScatterEval_plain)
     (simp add: example_cross_def example_scatter_def plain_port_def valueFrom_dict_def)

lemma map_of_foldl_set:
  "map_of (foldl (\<lambda>d k. dict_set k (g k) d) d ks) k
     = (if k \<in> set ks then Some (g k) else map_of d k)"
  by (induction ks arbitrary: d rule: rev_induct) (auto simp: map_of_dict_set)

lemma dot_fold:
  assumes "\<And>k. k \<in> set keys \<Longrightarrow> \<exists>xs. map_of cwljob k = Some (PyList xs) \<and> i < length xs"
  shows "fold_res
           (\<lambda>sc copyjob.
              bind_res (dict_item cwljob sc) (\<lambda>a.
              bind_res (py_index a i) (\<lambda>x. Inr (dict_set sc x copyjob))))
           keys d
         = Inr (foldl (\<lambda>d k. dict_set k (port_array cwljob k ! i) d) d keys)"
  using assms
proof (induction keys arbitrary: d)
  case Nil
  then show ?case by simp
next
  case (Cons k keys)
  from Cons.prems[of k] obtain xs where xs: "map_of cwljob k = Some (PyList xs)" "i < length xs"
    by auto
  have "bind_res (dict_item cwljob k) (\<lambda>a.
          bind_res (py_index a i) (\<lambda>x. Inr (dict_set k x d)))
        = Inr (dict_set k (port_array cwljob k ! i) d)"
    using xs by (simp add: dict_item_def bind_res_Inr port_array_def)
  then show ?case using Cons.IH[of "dict_set k (port_array cwljob k ! i) d"] Cons.prems
    by simp
qed

lemma fold_append_index:
  "(\<And>i c outs. i \<in> set ns \<Longrightarrow> h i c outs = Inr (c @ [A i], outs @ [B i])) \<Longrightarrow>
   fold_res (\<lambda>i (c, outs). h i c outs) ns (c, outs) = Inr (c @ map A ns, outs @ map B ns)"
  by (induction ns arbitrary: c outs) simp_all

lemma dotproduct_general:
  assumes "scatter = p0 # ps"
    and "\<forall>p \<in> set scatter. \<exists>xs. map_of cwljob (shortname p) = Some (PyList xs) \<and> length xs = N"
    and "\<forall>i < N. pse (dot_input cwljob (map shortname scatter) i) = Inr (pe i)"
  shows "dotproduct_scatter shortname self pse scatter cwljob
           = Inr (map (\<lambda>i. make_sub_job self (pe i)) [0..<N],
                  map (\<lambda>i. Leaf (make_sub_job self (pe i))) [0..<N])"
proof -
  from assms(1,2) obtain xs where xs: "map_of cwljob (shortname p0) = Some (PyList xs)"
    "length xs = N" by auto
  have step: "bind_res
                (fold_res
                   (\<lambda>sc copyjob.
                      bind_res (dict_item cwljob sc) (\<lambda>a.
                      bind_res (py_index a i) (\<lambda>x. Inr (dict_set sc x copyjob))))
                   (map shortname scatter) cwljob)
                (\<lambda>copyjob.
                   bind_res (pse copyjob) (\<lambda>copyjob.
                     Inr (c @ [make_sub_job self copyjob],
                          outs @ [Leaf (make_sub_job self copyjob)])))
              = Inr (c @ [make_sub_job self (pe i)], outs @ [Leaf (make_sub_job self (pe i))])"
    if i: "i \<in> set [0..<N]" for i c outs
  proof -
    have "\<exists>xs. map_of cwljob k = Some (PyList xs) \<and> i < length xs"
      if "k \<in> set (map shortname scatter)" for k
      using that assms(2) i by auto
    from dot_fold[of "map shortname scatter" cwljob i cwljob, OF this]
    show ?thesis using assms(3) i by (simp add: bind_res_Inr dot_input_def)
  qed
  show ?thesis
    unfolding dotproduct_scatter_def assms(1) list.case
    unfolding assms(1)[symmetric]
    using fold_append_index[where ns = "[0..<N]" and c = "[]" and outs = "[]",
        OF step]
    by (simp add: xs dict_item_def bind_res_Inr del: fold_res.simps upt.simps)
qed

lemma map_of_setdefault:
  "map_of (setdefault k v d) k' = (if k' = k \<and> map_of d k = None then Some v else map_of d k')"
  by (auto simp: setdefault_def map_of_dict_set split: option.splits)

lemma map_of_foldl_setdefault:
  "map_of (foldl (\<lambda>d k. setdefault k v d) d ks) k
     = (if k \<in> set ks \<and> map_of d k = None then Some v else map_of d k)"
  by (induction ks arbitrary: d) (auto simp: map_of_setdefault)

lemma map_res_items_of:
  assumes "map_res f xs = Inr ys" "\<And>k v y. f (k, v) = Inr y \<Longrightarrow> fst y = k"
  shows "map_of ys k =
           (case map_of xs k of
              None \<Rightarrow> None
            | Some v \<Rightarrow> (case f (k, v) of Inl e \<Rightarrow> None | Inr y \<Rightarrow> Some (snd y)))"
  using assms(1)
proof (induction xs arbitrary: ys)
  case Nil
  then show ?case by simp
next
  case (Cons kv xs)
  obtain k0 v0 where kv: "kv = (k0, v0)" by (cases kv)
  from Cons.prems obtain y ys' where y: "f (k0, v0) = Inr y" and r: "map_res f xs = Inr ys'"
    and ys: "ys = y # ys'"
    by (auto simp: kv split: sum.splits)
  from assms(2)[OF y] have k0: "fst y = k0" .
  show ?case
    using Cons.IH[OF r] y k0 by (cases y) (auto simp: kv ys)
qed

lemma in_keys_map_of: "map_of d k = Some v \<Longrightarrow> k \<in> set (map fst d)"
  by (metis map_of_eq_None_iff option.distinct(1) set_map)

lemma postScatterEval_ports:
  assumes "postScatterEval shortname do_eval self io = Inr io'"
  shows "map_of io' k =
           (case map_of (valueFrom_dict shortname (st_inputs (sc_step self))) k of
              None \<Rightarrow> map_of io k
            | Some e \<Rightarrow>
                do_eval e (rekey shortname io) (st_requirements (sc_step self)) (dict_get io k))"
proof -
  let ?vf = "valueFrom_dict shortname (st_inputs (sc_step self))"
  let ?io1 = "foldl (\<lambda>d k. setdefault k PyNone d) io (map fst ?vf)"
  let ?f = "\<lambda>(k, v). case map_of ?vf k of
                        None \<Rightarrow> Inr (k, v)
                      | Some e \<Rightarrow>
                          bind_res
                            (eval_res (do_eval e (rekey shortname io)
                               (st_requirements (sc_step self)) v))
                            (\<lambda>r. Inr (k, r))"
  from assms have m: "map_res ?f ?io1 = Inr io'"
    by (simp add: postScatterEval_def Let_def)
  have keys: "fst y = k" if "?f (k, v) = Inr y" for k v y
    using that by (auto simp: bind_res_def eval_res_def split: option.splits)
  note c = map_res_items_of[OF m keys, where k = k]
  show ?thesis
  proof (cases "map_of ?vf k")
    case None
    then have "k \<notin> set (map fst ?vf)" by (simp add: map_of_eq_None_iff)
    then have "map_of ?io1 k = map_of io k" by (simp add: map_of_foldl_setdefault)
    then show ?thesis using c None by (simp split: option.splits)
  next
    case (Some e)
    then have "k \<in> set (map fst ?vf)" by (rule in_keys_map_of)
    then have "map_of ?io1 k = Some (dict_get io k)"
      by (simp add: map_of_foldl_setdefault dict_get_def split: option.splits)
    then show ?thesis using c Some
      by (simp add: bind_res_def eval_res_def split: option.splits)
  qed
qed

subsection \<open>Re-keying by short names\<close>

lemma update_fresh: "k \<notin> fst ` set al \<Longrightarrow> AList.update k v al = al @ [(k, v)]"
  by (induction al) auto

lemma map_of_rekey_acc:
  "map_of (foldl (\<lambda>acc (k, v). dict_set (f k) v acc) acc d) k =
     (case map_of (rev (map (\<lambda>(k, v). (f k, v)) d)) k of Some v \<Rightarrow> Some v | None \<Rightarrow> map_of acc k)"
  by (induction d arbitrary: acc rule: rev_induct)
     (auto simp: dict_set_def update_conv' split: option.splits)

lemma map_of_rekey:
  "map_of (rekey f d) k = map_of (rev (map (\<lambda>(k, v). (f k, v)) d)) k"
  by (simp add: rekey_def map_of_rekey_acc split: option.splits)

lemma distinct_rekey_acc:
  "distinct (map fst acc) \<Longrightarrow> distinct (map fst (foldl (\<lambda>acc (k, v). dict_set (f k) v acc) acc d))"
  by (induction d arbitrary: acc) (auto simp: dict_set_def distinct_update)

lemma distinct_rekey: "distinct (map fst (rekey f d))"
  by (simp add: rekey_def distinct_rekey_acc)

lemma rekey_acc_distinct:
  "distinct (map fst acc @ map (\<lambda>kv. f (fst kv)) d) \<Longrightarrow>
   foldl (\<lambda>acc (k, v). dict_set (f k) v acc) acc d = acc @ map (\<lambda>(k, v). (f k, v)) d"
proof (induction d arbitrary: acc)
  case Nil
  then show ?case by simp
next
  case (Cons kv d)
  obtain k v where kv: "kv = (k, v)" by (cases kv)
  have fresh: "f k \<notin> fst ` set acc" using Cons.prems kv by auto
  have "distinct (map fst (acc @ [(f k, v)]) @ map (\<lambda>kv. f (fst kv)) d)"
    using Cons.prems kv by auto
  then show ?case
    using Cons.IH[of "acc @ [(f k, v)]"] fresh kv by (simp add: dict_set_def update_fresh)
qed

lemma rekey_distinct:
  "distinct (map (\<lambda>kv. f (fst kv)) d) \<Longrightarrow> rekey f d = map (\<lambda>(k, v). (f k, v)) d"
  using rekey_acc_distinct[of "[]" f d] by (simp add: rekey_def)

subsection \<open>The wrapper, the scatter and the gather\<close>

lemma CWLJobWrapper_run_skipped:
  assumes "resolve_indirect do_eval (j_cwljob jb) = (Inr resolved, log)"
    and "fill_in_defaults resolved = Inr filled"
    and "fill_in_defaults filled = Inr job"
    and "is_false shortname do_eval (j_conditional jb) job = (Inr True, [])"
  shows "CWLJobWrapper_run shortname do_eval fill_in_defaults execute jb =
           (skipped_outputs shortname (j_conditional jb), log)"
proof -
  have "CWLJob_run shortname do_eval fill_in_defaults execute
          \<lparr>j_cwljob = PlainDict filled, j_conditional = j_conditional jb\<rparr>
        = (skipped_outputs shortname (j_conditional jb), [])"
    using assms(3,4)
      CWLJob_run_skipped[of do_eval "\<lparr>j_cwljob = PlainDict filled, j_conditional = j_conditional jb\<rparr>"
        filled "[]" fill_in_defaults job shortname execute]
    by (simp add: resolve_indirect_def return_io_def)
  then show ?thesis
    using assms(1,2) by (simp add: CWLJobWrapper_run_def bind_io_def lift_io_def)
qed

lemma map_io_logs:
  "(\<And>x. x \<in> set xs \<Longrightarrow> f x = (Inr (g x), l x)) \<Longrightarrow>
   map_io f xs = (Inr (map g xs), concat (map l xs))"
  by (induction xs) (auto simp: bind_io_def return_io_def)

lemma concat_map_concat:
  "concat (map l (concat xss)) = concat (map (\<lambda>xs. concat (map l xs)) xss)"
  by (induction xss) auto

lemma map_io_map: "map_io (\<lambda>m. m) (map f xs) = map_io f xs"
  by (induction xs) auto

lemma promised_shape:
  "(\<And>j. j \<in> set (leaves t) \<Longrightarrow> run j = (Inr (D j), L j)) \<Longrightarrow>
   promised run t = (Inr (shape (\<lambda>j. PyDict (D j)) t), concat (map L (leaves t)))"
proof (induction t)
  case (Leaf j)
  then show ?case by (simp add: bind_io_def return_io_def)
next
  case (Nest ts)
  have "map_io (promised run) ts =
          (Inr (map (shape (\<lambda>j. PyDict (D j))) ts), concat (map (\<lambda>t. concat (map L (leaves t))) ts))"
    using Nest by (intro map_io_logs) auto
  then show ?case
    by (simp add: map_io_map bind_io_def return_io_def concat_map_concat o_def)
qed

lemma extract_shape:
  "CWLGather_extract (shape (\<lambda>j. PyDict (D j)) t) k = shape (\<lambda>j. dict_get (D j) k) t"
  by (induction t) auto

lemma shape_cong_leaves:
  "(\<And>j. j \<in> set (leaves t) \<Longrightarrow> f j = g j) \<Longrightarrow> shape f t = shape g t"
  by (induction t) auto

lemma map_of_gather:
  "map_of (CWLGather_run shortname self) k =
     (if k \<in> set (map (sn shortname) (st_out (g_step self)))
      then Some (CWLGather_extract (g_outputs self) k) else None)"
  unfolding CWLGather_run_def
  using map_of_foldl_set[of "\<lambda>k. CWLGather_extract (g_outputs self) k" "[]"
      "map (sn shortname) (st_out (g_step self))" k]
  by simp

lemma distinct_foldl_set:
  "distinct (map fst d) \<Longrightarrow> distinct (map fst (foldl (\<lambda>d k. dict_set k (g k) d) d ks))"
  by (induction ks arbitrary: d) (auto simp: dict_set_def distinct_update)

lemma distinct_gather: "distinct (map fst (CWLGather_run shortname self))"
  by (simp add: CWLGather_run_def distinct_foldl_set)

lemma scattered_step:
  assumes "CWLScatter_run shortname do_eval self = (Inr (children, outputs), log)"
    and "\<And>j. j \<in> set (concat (map leaves outputs)) \<Longrightarrow> run j = (Inr (D j), L j)"
  shows "scattered_step_run run shortname do_eval self =
           (Inr (CWLGather_run shortname
                   \<lparr>g_step = sc_step self,
                    g_outputs = PyList (map (shape (\<lambda>j. PyDict (D j))) outputs)\<rparr>),
            log @ concat (map L (concat (map leaves outputs))))"
proof -
  have "map_io (promised run) outputs =
          (Inr (map (shape (\<lambda>j. PyDict (D j))) outputs),
           concat (map (\<lambda>t. concat (map L (leaves t))) outputs))"
    using assms(2) by (intro map_io_logs promised_shape) auto
  then show ?thesis
    using assms(1)
    by (simp add: scattered_step_run_def bind_io_def return_io_def concat_map_concat o_def)
qed

section \<open>The claims\<close>


text \<open>
  Claim C1, as stated: on a workflow with a dependency cycle the unrolling loop of
  \<^verbatim>\<open>CWLWorkflow.run\<close> terminates and reports a deadlock. The loop has no such exit: on
  the workflow whose steps A and B source each other's output, neither the loop nor
  \<^verbatim>\<open>CWLWorkflow.run\<close> returns.
\<close>

theorem unroll_cycle_counterexample:
  "unroll last_segment cyclic_workflow (initial_state cyclic_workflow) = None
 \<and> CWLWorkflow_run last_segment example_eval cyclic_run = None"
proof -
  have d: "deadlocked [''A/out'', ''B/out''] cyclic_workflow"
    by (simp add: deadlocked_def cyclic_workflow_def tool_step_def source_port_def
        produces_def consumes_def sources_def)
  have w: "well_formed cyclic_workflow"
    by (simp add: well_formed_def cyclic_workflow_def tool_step_def source_port_def sources_def)
  have a: "unroll last_segment cyclic_workflow (initial_state cyclic_workflow) = None"
    by (rule unroll_deadlock_diverges[OF d w initial_unpromised[OF d]])
  have "CWLWorkflow_run last_segment example_eval cyclic_run = None"
    by (simp add: CWLWorkflow_run_def cyclic_run_def a resolve_indirect_def is_false_def
        return_io_def bind_io_def)
  with a show ?thesis by simp
qed

text \<open>
  Claim C1, amended. On a workflow with a deadlocked set of identifiers the loop never
  completes, from the initial promise table: it runs forever, unless a pass raises, and on
  a well-formed workflow no pass raises. Whenever a pass materializes no step and ends with
  \<^verbatim>\<open>all_outputs_fulfilled\<close> false, it leaves the state as it was and the loop repeats it
  forever. The loop returns exactly after a pass that ends with the flag true (or raises),
  and otherwise continues from the state the pass left.
\<close>

theorem unroll_deadlock_never_returns:
  "(deadlocked U cwlwf \<longrightarrow>
      (\<forall>state. unroll shortname cwlwf (initial_state cwlwf) \<noteq> Some (Inr state)))
 \<and> (deadlocked U cwlwf \<and> well_formed cwlwf \<longrightarrow>
      unroll shortname cwlwf (initial_state cwlwf) = None)
 \<and> (list_all (\<lambda>st. \<not> schedulable state st) (wf_steps cwlwf)
      \<and> unroll_pass shortname cwlwf state = Inr (state', False) \<longrightarrow>
      state' = state \<and> unroll shortname cwlwf state = None)
 \<and> (unroll_pass shortname cwlwf state = Inr (state', True) \<longrightarrow>
      unroll shortname cwlwf state = Some (Inr state'))
 \<and> (unroll_pass shortname cwlwf state = Inl e \<longrightarrow>
      unroll shortname cwlwf state = Some (Inl e))
 \<and> (unroll_pass shortname cwlwf state = Inr (state', False) \<longrightarrow>
      unroll shortname cwlwf state = unroll shortname cwlwf state')"
proof (intro conjI impI allI)
  fix st
  assume d: "deadlocked U cwlwf"
  show "unroll shortname cwlwf (initial_state cwlwf) \<noteq> Some (Inr st)"
  proof
    assume "unroll shortname cwlwf (initial_state cwlwf) = Some (Inr st)"
    from unroll_deadlock_no_return[OF this, of U] d initial_unpromised[OF d]
    show False by simp
  qed
next
  assume "deadlocked U cwlwf \<and> well_formed cwlwf"
  then show "unroll shortname cwlwf (initial_state cwlwf) = None"
    using unroll_deadlock_diverges initial_unpromised by blast
next
  assume h: "list_all (\<lambda>st. \<not> schedulable state st) (wf_steps cwlwf)
      \<and> unroll_pass shortname cwlwf state = Inr (state', False)"
  then show e: "state' = state" using unroll_pass_stuck by blast
  from h e show "unroll shortname cwlwf state = None"
    using unroll_fixed_pass_diverges by blast
next
  assume "unroll_pass shortname cwlwf state = Inr (state', True)"
  then show "unroll shortname cwlwf state = Some (Inr state')"
    by (subst unroll.simps) simp
next
  assume "unroll_pass shortname cwlwf state = Inl e"
  then show "unroll shortname cwlwf state = Some (Inl e)"
    by (subst unroll.simps) simp
next
  assume "unroll_pass shortname cwlwf state = Inr (state', False)"
  then show "unroll shortname cwlwf state = unroll shortname cwlwf state'"
    by (subst unroll.simps) simp
qed

theorem unroll_deadlock_never_returns_witness:
  "deadlocked [''A/out'', ''B/out''] cyclic_workflow
 \<and> well_formed cyclic_workflow
 \<and> unroll last_segment cyclic_workflow (initial_state cyclic_workflow) = None
 \<and> unroll_pass last_segment cyclic_workflow (initial_state cyclic_workflow)
      = Inr (initial_state cyclic_workflow, False)
 \<and> (\<exists>s1 s2. unroll_pass last_segment linear_workflow (initial_state linear_workflow)
               = Inr (s1, False)
        \<and> map fst (u_jobs s1) = [''A'']
        \<and> unroll_pass last_segment linear_workflow s1 = Inr (s2, True)
        \<and> map fst (u_jobs s2) = [''A'', ''B'']
        \<and> map fst (u_promises s2) = [''x'', ''A/out'', ''B/out'']
        \<and> unroll last_segment linear_workflow (initial_state linear_workflow)
             = Some (Inr s2))"
proof -
  have d: "deadlocked [''A/out'', ''B/out''] cyclic_workflow"
    by (simp add: deadlocked_def cyclic_workflow_def tool_step_def source_port_def
        produces_def consumes_def sources_def)
  have w: "well_formed cyclic_workflow"
    by (simp add: well_formed_def cyclic_workflow_def tool_step_def source_port_def sources_def)
  have a: "unroll last_segment cyclic_workflow (initial_state cyclic_workflow) = None"
    using d w unroll_deadlock_never_returns[where U = "[''A/out'', ''B/out'']"
        and cwlwf = cyclic_workflow and shortname = last_segment]
    by auto
  from pass_summary_Inr[OF linear_first_pass] obtain s1 where
    s1: "unroll_pass last_segment linear_workflow (initial_state linear_workflow)
           = Inr (s1, False)" "map fst (u_jobs s1) = [''A'']"
    by auto
  from linear_second_pass have
    "pass_summary (unroll_pass last_segment linear_workflow s1)
       = Inr ([''A'', ''B''], [''x'', ''A/out'', ''B/out''], True)"
    by (simp add: s1(1) bind_res_Inr)
  from pass_summary_Inr[OF this] obtain s2 where
    s2: "unroll_pass last_segment linear_workflow s1 = Inr (s2, True)"
    "map fst (u_jobs s2) = [''A'', ''B'']"
    "map fst (u_promises s2) = [''x'', ''A/out'', ''B/out'']"
    by auto
  have t1: "unroll last_segment linear_workflow (initial_state linear_workflow)
              = unroll last_segment linear_workflow s1"
    using s1(1) unroll_deadlock_never_returns[where cwlwf = linear_workflow
        and shortname = last_segment and state = "initial_state linear_workflow"
        and state' = s1]
    by auto
  have t2: "unroll last_segment linear_workflow s1 = Some (Inr s2)"
    using s2(1) unroll_deadlock_never_returns[where cwlwf = linear_workflow
        and shortname = last_segment and state = s1 and state' = s2]
    by auto
  show ?thesis using d w a cyclic_pass s1 s2 t1 t2 by auto
qed

text \<open>
  Claim C2. \<^verbatim>\<open>pick_value\<close> over a merged list keeps the elements that are neither
  \<^verbatim>\<open>SkipNull\<close> nor null. With no pickValue it returns its argument unchanged, whatever it is.
  Under \<^verbatim>\<open>first_non_null\<close> it returns the first survivor and raises when there is none;
  under \<^verbatim>\<open>only_non_null\<close> it returns the survivor when there is exactly one and raises
  when there is none or more than one; under \<^verbatim>\<open>all_non_null\<close> it returns the list of
  survivors. The three examples of the specification are the last three conjuncts.
\<close>

theorem pick_value_policies:
  "(p_pickValue (rs_input self) = None \<longrightarrow> pick_value self v = (Inr v, []))
 \<and> (p_pickValue (rs_input self) = Some ''first_non_null'' \<longrightarrow>
      pick_value self (PyList vs) =
        (case survivors vs of
           [] \<Rightarrow> (Inl (first_none_found (rs_name self)), [])
         | x # _ \<Rightarrow> (Inr x, [])))
 \<and> (p_pickValue (rs_input self) = Some ''only_non_null'' \<longrightarrow>
      pick_value self (PyList vs) =
        (case survivors vs of
           [] \<Rightarrow> (Inl (only_none_found (rs_name self)), [])
         | [x] \<Rightarrow> (Inr x, [])
         | _ # _ # _ \<Rightarrow> (Inl (only_many_found (rs_name self)), [])))
 \<and> (p_pickValue (rs_input self) = Some ''all_non_null'' \<longrightarrow>
      pick_value self (PyList vs) = (Inr (PyList (survivors vs)), []))
 \<and> pick_value (example_rs None (Some ''first_non_null''))
      (PyList [PyNone, SkipNull, PyInt 5, PyInt 6]) = (Inr (PyInt 5), [])
 \<and> pick_value (example_rs None (Some ''first_non_null'')) (PyList [PyNone, SkipNull]) =
      (Inl (first_none_found ''step/in''), [])
 \<and> pick_value (example_rs None (Some ''only_non_null'')) (PyList [PyNone, PyInt 7, PyInt 8]) =
      (Inl (only_many_found ''step/in''), [])"
  using pick_first[of self vs] pick_only[of self vs] pick_all[of self vs] pick_none[of self v]
  by (simp add: pick_value_def example_rs_def example_port_def return_io_def lift_io_def)

theorem pick_value_policies_witness:
  "p_pickValue (rs_input (example_rs None (Some ''only_non_null''))) = Some ''only_non_null''
 \<and> survivors [SkipNull, PyInt 7, PyNone] = [PyInt 7]
 \<and> pick_value (example_rs None (Some ''only_non_null'')) (PyList [SkipNull, PyInt 7, PyNone]) =
      (Inr (PyInt 7), [])
 \<and> p_pickValue (rs_input (example_rs None None)) = None
 \<and> pick_value (example_rs None None) (PyList [SkipNull, PyInt 7, PyNone]) =
      (Inr (PyList [SkipNull, PyInt 7, PyNone]), [])"
  using pick_value_policies[of "example_rs None (Some ''only_non_null'')" PyNone "[SkipNull, PyInt 7, PyNone]"]
    pick_value_policies[of "example_rs None None" "PyList [SkipNull, PyInt 7, PyNone]" "[]"]
  by (simp add: example_rs_def example_port_def survivors_def)

text \<open>
  Claim C3. \<^verbatim>\<open>link_merge\<close> returns the list of source values as it is under
  \<^verbatim>\<open>merge_nested\<close>, which is also the policy when \<^verbatim>\<open>linkMerge\<close> is absent; under
  \<^verbatim>\<open>merge_flattened\<close> it returns the concatenation in which a list-valued source
  contributes its elements and any other source contributes itself; any other policy
  string raises a validation error. The sources \<open>[[1,2], 3]\<close> flatten to \<open>[1,2,3]\<close> and
  nest to \<open>[[1,2], 3]\<close>.
\<close>

theorem link_merge_policies:
  "(p_linkMerge (rs_input self) = None \<or> p_linkMerge (rs_input self) = Some ''merge_nested''
      \<longrightarrow> link_merge self vs = Inr vs)
 \<and> (p_linkMerge (rs_input self) = Some ''merge_flattened''
      \<longrightarrow> link_merge self vs = Inr (concat (map splice vs)))
 \<and> (p_linkMerge (rs_input self) = Some t \<and> t \<noteq> ''merge_nested'' \<and> t \<noteq> ''merge_flattened''
      \<longrightarrow> link_merge self vs = Inl (unsupported_linkMerge t (rs_name self)))
 \<and> splice (PyList xs) = xs
 \<and> ((\<forall>xs. x \<noteq> PyList xs) \<longrightarrow> splice x = [x])
 \<and> link_merge (example_rs (Some ''merge_flattened'') None)
      [PyList [PyInt 1, PyInt 2], PyInt 3] = Inr [PyInt 1, PyInt 2, PyInt 3]
 \<and> link_merge (example_rs (Some ''merge_nested'') None)
      [PyList [PyInt 1, PyInt 2], PyInt 3] = Inr [PyList [PyInt 1, PyInt 2], PyInt 3]
 \<and> link_merge (example_rs None None)
      [PyList [PyInt 1, PyInt 2], PyInt 3] = Inr [PyList [PyInt 1, PyInt 2], PyInt 3]"
  by (auto simp: link_merge_def flatten_loop example_rs_def example_port_def splice_def split: val.splits)

theorem link_merge_policies_witness:
  "p_linkMerge (rs_input (example_rs (Some ''merge_flattened'') None)) = Some ''merge_flattened''
 \<and> link_merge (example_rs (Some ''merge_flattened'') None)
      [PyInt 0, PyList [PyList [PyInt 1], PyInt 2], PyList []] = Inr [PyInt 0, PyList [PyInt 1], PyInt 2]
 \<and> p_linkMerge (rs_input (example_rs (Some ''merge_sorted'') None)) = Some ''merge_sorted''
 \<and> link_merge (example_rs (Some ''merge_sorted'') None) [PyInt 0] =
      Inl (unsupported_linkMerge ''merge_sorted'' ''step/in'')
 \<and> splice (PyInt 0) = [PyInt 0]"
  using link_merge_policies[of "example_rs (Some ''merge_flattened'') None" "[PyInt 0, PyList [PyList [PyInt 1], PyInt 2], PyList []]" "''x''" "[]" "PyInt 0"]
    link_merge_policies[of "example_rs (Some ''merge_sorted'') None" "[PyInt 0]" "''merge_sorted''" "[]" "PyInt 0"]
  by (simp add: example_rs_def example_port_def splice_def)

text \<open>
  Claim C4, as stated: with exactly one source and no \<^verbatim>\<open>linkMerge\<close>, \<^verbatim>\<open>resolve\<close> returns
  the value of that source. It does not when the port has a pickValue and the value is a
  list: the source \<open>a\<close> holds \<^verbatim>\<open>[null, 5]\<close>, the port picks \<^verbatim>\<open>first_non_null\<close>, and \<^verbatim>\<open>resolve\<close>
  returns \<^verbatim>\<open>5\<close>. Nor when the value holds a \<^verbatim>\<open>SkipNull\<close>: without any pickValue, a
  source that holds the marker resolves to null, with a warning.
\<close>

theorem resolve_single_source_counterexample:
  "(\<exists>self. ResolveSource_init (\<lambda>s. s) ''step/in''
             (example_port (One ''a'') None (Some ''first_non_null'')) ''source''
             [''a'' \<mapsto> [(''a'', PyList [PyNone, PyInt 5])]] = Inr self
          \<and> rs_promise_tuples self = Tuple (''a'', [(''a'', PyList [PyNone, PyInt 5])])
          \<and> merged_value self = Inr (PyList [PyNone, PyInt 5])
          \<and> ResolveSource_resolve self = (Inr (PyInt 5), []))
 \<and> (\<exists>self. ResolveSource_init (\<lambda>s. s) ''step/in'' (example_port (One ''a'') None None)
             ''source'' [''a'' \<mapsto> [(''a'', SkipNull)]] = Inr self
          \<and> rs_promise_tuples self = Tuple (''a'', [(''a'', SkipNull)])
          \<and> merged_value self = Inr SkipNull
          \<and> ResolveSource_resolve self
                = (Inr PyNone, [Warning (skip_null_warning ''step/in'')]))"
  by (simp add: ResolveSource_init_def example_port_def input_item_def str_truthy_def
      promise_rv_def bind_res_def merged_value_def dict_get_def ResolveSource_resolve_def
      bind_io_def lift_io_def return_io_def pick_value_def filter_skip_null_spec)

text \<open>
  Claim C4, amended. For a port whose source field names exactly one identifier and whose
  \<^verbatim>\<open>linkMerge\<close> is absent (or empty), the resolver holds one pair, the merged value is the
  source's own value, not a one-element list, and \<^verbatim>\<open>resolve\<close> returns it after
  \<^verbatim>\<open>pick_value\<close> and \<^verbatim>\<open>filter_skip_null\<close>: without a pickValue the value with every
  \<^verbatim>\<open>SkipNull\<close> replaced by null, so the value itself when it holds none; with a pickValue
  and a list, the selection of that policy over the elements of the list, filtered in the
  same way; with a pickValue and anything else, the value, with a warning. With a
  \<^verbatim>\<open>linkMerge\<close> or more than one source, the values of all sources are collected into a
  list that goes through \<^verbatim>\<open>link_merge\<close> first.
\<close>

theorem resolve_single_source_direct:
  "(input_item inp source_key = Inr src \<and> aslist src = [s] \<and> \<not> str_truthy (p_linkMerge inp)
      \<and> promises s = Some d \<longrightarrow>
      (\<exists>self. ResolveSource_init shortname name inp source_key promises = Inr self
         \<and> rs_name self = name \<and> rs_input self = inp
         \<and> rs_promise_tuples self = Tuple (shortname s, d)
         \<and> merged_value self = Inr (dict_get d (shortname s))
         \<and> ResolveSource_resolve self =
             bind_io (pick_value self (dict_get d (shortname s))) (filter_skip_null name)
         \<and> (p_pickValue inp = None \<longrightarrow>
              ResolveSource_resolve self =
                (Inr (null_skips (dict_get d (shortname s))),
                 if contains_skip (dict_get d (shortname s)) then [Warning (skip_null_warning name)] else []))
         \<and> (p_pickValue inp = None \<and> \<not> contains_skip (dict_get d (shortname s)) \<longrightarrow>
              ResolveSource_resolve self = (Inr (dict_get d (shortname s)), []))
         \<and> (p_pickValue inp = Some ''first_non_null'' \<and> dict_get d (shortname s) = PyList xs \<longrightarrow>
              ResolveSource_resolve self =
                (case survivors xs of
                   [] \<Rightarrow> (Inl (first_none_found name), [])
                 | x # _ \<Rightarrow> filter_skip_null name x))
         \<and> (p_pickValue inp = Some ''only_non_null'' \<and> dict_get d (shortname s) = PyList xs \<longrightarrow>
              ResolveSource_resolve self =
                (case survivors xs of
                   [] \<Rightarrow> (Inl (only_none_found name), [])
                 | [x] \<Rightarrow> filter_skip_null name x
                 | _ # _ # _ \<Rightarrow> (Inl (only_many_found name), [])))
         \<and> (p_pickValue inp = Some ''all_non_null'' \<and> dict_get d (shortname s) = PyList xs \<longrightarrow>
              ResolveSource_resolve self = filter_skip_null name (PyList (survivors xs)))
         \<and> (p_pickValue inp = Some pv \<and> (\<forall>ys. dict_get d (shortname s) \<noteq> PyList ys) \<longrightarrow>
              ResolveSource_resolve self =
                (Inr (null_skips (dict_get d (shortname s))),
                 not_a_list_warning name #
                 (if contains_skip (dict_get d (shortname s)) then [Warning (skip_null_warning name)] else [])))))
 \<and> (input_item inp source_key = Inr src
      \<and> (str_truthy (p_linkMerge inp) \<or> length (aslist src) > 1)
      \<and> map_res (promise_rv promises) (aslist src) = Inr ds
      \<and> map_res (\<lambda>(s, d). dict_item d (shortname s)) (zip (aslist src) ds) = Inr vs \<longrightarrow>
      (\<exists>self. ResolveSource_init shortname name inp source_key promises = Inr self
         \<and> rs_name self = name \<and> rs_input self = inp
         \<and> rs_promise_tuples self = TupleList (zip (map shortname (aslist src)) ds)
         \<and> merged_value self = bind_res (link_merge self vs) (\<lambda>result. Inr (PyList result))
         \<and> ResolveSource_resolve self =
             bind_io (lift_io (bind_res (link_merge self vs) (\<lambda>result. Inr (PyList result))))
               (\<lambda>result. bind_io (pick_value self result) (filter_skip_null name))))"
proof (intro conjI impI)
  assume h: "input_item inp source_key = Inr src \<and> aslist src = [s] \<and> \<not> str_truthy (p_linkMerge inp)
      \<and> promises s = Some d"
  let ?self = "\<lparr>rs_name = name, rs_input = inp, rs_source_key = source_key,
                 rs_promise_tuples = Tuple (shortname s, d)\<rparr>"
  have i: "ResolveSource_init shortname name inp source_key promises = Inr ?self"
    using h by (simp add: ResolveSource_init_def bind_res_def promise_rv_def)
  have m: "merged_value ?self = Inr (dict_get d (shortname s))"
    by (simp add: merged_value_def)
  have r: "ResolveSource_resolve ?self =
             bind_io (pick_value ?self (dict_get d (shortname s))) (filter_skip_null name)"
    by (simp add: ResolveSource_resolve_def m lift_io_def bind_io_def split: prod.splits sum.splits)
  have p: "p_pickValue inp = None \<longrightarrow>
              ResolveSource_resolve ?self =
                (Inr (null_skips (dict_get d (shortname s))),
                 if contains_skip (dict_get d (shortname s)) then [Warning (skip_null_warning name)] else [])"
    by (simp add: r pick_none bind_io_def filter_skip_null_spec)
  have p0: "p_pickValue inp = None \<and> \<not> contains_skip (dict_get d (shortname s)) \<longrightarrow>
              ResolveSource_resolve ?self = (Inr (dict_get d (shortname s)), [])"
    by (simp add: r pick_none bind_io_def filter_skip_null_spec null_skips_id)
  have p1: "p_pickValue inp = Some ''first_non_null'' \<and> dict_get d (shortname s) = PyList xs \<longrightarrow>
              ResolveSource_resolve ?self =
                (case survivors xs of
                   [] \<Rightarrow> (Inl (first_none_found name), [])
                 | x # _ \<Rightarrow> filter_skip_null name x)"
    by (simp add: r pick_first bind_io_def split: list.splits prod.splits)
  have p2: "p_pickValue inp = Some ''only_non_null'' \<and> dict_get d (shortname s) = PyList xs \<longrightarrow>
              ResolveSource_resolve ?self =
                (case survivors xs of
                   [] \<Rightarrow> (Inl (only_none_found name), [])
                 | [x] \<Rightarrow> filter_skip_null name x
                 | _ # _ # _ \<Rightarrow> (Inl (only_many_found name), []))"
    by (simp add: r pick_only bind_io_def split: list.splits prod.splits)
  have p3: "p_pickValue inp = Some ''all_non_null'' \<and> dict_get d (shortname s) = PyList xs \<longrightarrow>
              ResolveSource_resolve ?self = filter_skip_null name (PyList (survivors xs))"
    by (simp add: r pick_all bind_io_def split: prod.splits)
  have p4: "p_pickValue inp = Some pv \<and> (\<forall>ys. dict_get d (shortname s) \<noteq> PyList ys) \<longrightarrow>
              ResolveSource_resolve ?self =
                (Inr (null_skips (dict_get d (shortname s))),
                 not_a_list_warning name #
                 (if contains_skip (dict_get d (shortname s)) then [Warning (skip_null_warning name)] else []))"
    by (cases "dict_get d (shortname s)")
       (simp_all add: r pick_value_def bind_io_def filter_skip_null_spec)
  show "\<exists>self. ResolveSource_init shortname name inp source_key promises = Inr self
         \<and> rs_name self = name \<and> rs_input self = inp
         \<and> rs_promise_tuples self = Tuple (shortname s, d)
         \<and> merged_value self = Inr (dict_get d (shortname s))
         \<and> ResolveSource_resolve self =
             bind_io (pick_value self (dict_get d (shortname s))) (filter_skip_null name)
         \<and> (p_pickValue inp = None \<longrightarrow>
              ResolveSource_resolve self =
                (Inr (null_skips (dict_get d (shortname s))),
                 if contains_skip (dict_get d (shortname s)) then [Warning (skip_null_warning name)] else []))
         \<and> (p_pickValue inp = None \<and> \<not> contains_skip (dict_get d (shortname s)) \<longrightarrow>
              ResolveSource_resolve self = (Inr (dict_get d (shortname s)), []))
         \<and> (p_pickValue inp = Some ''first_non_null'' \<and> dict_get d (shortname s) = PyList xs \<longrightarrow>
              ResolveSource_resolve self =
                (case survivors xs of
                   [] \<Rightarrow> (Inl (first_none_found name), [])
                 | x # _ \<Rightarrow> filter_skip_null name x))
         \<and> (p_pickValue inp = Some ''only_non_null'' \<and> dict_get d (shortname s) = PyList xs \<longrightarrow>
              ResolveSource_resolve self =
                (case survivors xs of
                   [] \<Rightarrow> (Inl (only_none_found name), [])
                 | [x] \<Rightarrow> filter_skip_null name x
                 | _ # _ # _ \<Rightarrow> (Inl (only_many_found name), [])))
         \<and> (p_pickValue inp = Some ''all_non_null'' \<and> dict_get d (shortname s) = PyList xs \<longrightarrow>
              ResolveSource_resolve self = filter_skip_null name (PyList (survivors xs)))
         \<and> (p_pickValue inp = Some pv \<and> (\<forall>ys. dict_get d (shortname s) \<noteq> PyList ys) \<longrightarrow>
              ResolveSource_resolve self =
                (Inr (null_skips (dict_get d (shortname s))),
                 not_a_list_warning name #
                 (if contains_skip (dict_get d (shortname s)) then [Warning (skip_null_warning name)] else [])))"
    using i m r p p0 p1 p2 p3 p4 by (intro exI[of _ ?self]) simp
next
  assume h: "input_item inp source_key = Inr src
      \<and> (str_truthy (p_linkMerge inp) \<or> length (aslist src) > 1)
      \<and> map_res (promise_rv promises) (aslist src) = Inr ds
      \<and> map_res (\<lambda>(s, d). dict_item d (shortname s)) (zip (aslist src) ds) = Inr vs"
  let ?self = "\<lparr>rs_name = name, rs_input = inp, rs_source_key = source_key,
                 rs_promise_tuples = TupleList (zip (map shortname (aslist src)) ds)\<rparr>"
  have len: "length (aslist src) = length ds"
    using h map_res_length[of "promise_rv promises" "aslist src" ds] by simp
  have i: "ResolveSource_init shortname name inp source_key promises = Inr ?self"
    using h map_res_promises[of promises "aslist src" ds shortname]
    by (auto simp add: ResolveSource_init_def bind_res_def)
  have m: "merged_value ?self = bind_res (link_merge ?self vs) (\<lambda>result. Inr (PyList result))"
    using h map_res_items[OF len, of shortname] by (simp add: merged_value_def bind_res_def)
  have r: "ResolveSource_resolve ?self =
             bind_io (lift_io (bind_res (link_merge ?self vs) (\<lambda>result. Inr (PyList result))))
               (\<lambda>result. bind_io (pick_value ?self result) (filter_skip_null name))"
    by (simp add: ResolveSource_resolve_def m)
  show "\<exists>self. ResolveSource_init shortname name inp source_key promises = Inr self
         \<and> rs_name self = name \<and> rs_input self = inp
         \<and> rs_promise_tuples self = TupleList (zip (map shortname (aslist src)) ds)
         \<and> merged_value self = bind_res (link_merge self vs) (\<lambda>result. Inr (PyList result))
         \<and> ResolveSource_resolve self =
             bind_io (lift_io (bind_res (link_merge self vs) (\<lambda>result. Inr (PyList result))))
               (\<lambda>result. bind_io (pick_value self result) (filter_skip_null name))"
    using i m r by (intro exI[of _ ?self]) simp
qed

theorem resolve_single_source_direct_witness:
  "(\<exists>self. ResolveSource_init (\<lambda>s. s) ''step/in'' (example_port (One ''a'') None None) ''source''
             [''a'' \<mapsto> [(''a'', PyInt 4)]] = Inr self
          \<and> rs_promise_tuples self = Tuple (''a'', [(''a'', PyInt 4)])
          \<and> ResolveSource_resolve self = (Inr (PyInt 4), []))
 \<and> (\<exists>self. ResolveSource_init (\<lambda>s. s) ''step/in''
             (example_port (One ''a'') None (Some ''first_non_null'')) ''source''
             [''a'' \<mapsto> [(''a'', PyList [PyNone, PyInt 5])]] = Inr self
          \<and> merged_value self = Inr (PyList [PyNone, PyInt 5])
          \<and> ResolveSource_resolve self = (Inr (PyInt 5), []))
 \<and> (\<exists>self. ResolveSource_init (\<lambda>s. s) ''step/in''
             (example_port (One ''a'') (Some ''merge_nested'') None) ''source''
             [''a'' \<mapsto> [(''a'', PyInt 4)]] = Inr self
          \<and> rs_promise_tuples self = TupleList [(''a'', [(''a'', PyInt 4)])]
          \<and> ResolveSource_resolve self = (Inr (PyList [PyInt 4]), []))"
proof -
  have a: "\<exists>self. ResolveSource_init (\<lambda>s. s) ''step/in'' (example_port (One ''a'') None None) ''source''
             [''a'' \<mapsto> [(''a'', PyInt 4)]] = Inr self
          \<and> rs_promise_tuples self = Tuple (''a'', [(''a'', PyInt 4)])
          \<and> ResolveSource_resolve self = (Inr (PyInt 4), [])"
    using resolve_single_source_direct
      [where inp = "example_port (One ''a'') None None" and source_key = "''source''"
         and src = "One ''a''" and s = "''a''" and promises = "[''a'' \<mapsto> [(''a'', PyInt 4)]]"
         and d = "[(''a'', PyInt 4)]" and shortname = "\<lambda>s. s" and name = "''step/in''"
         and ds = "[]" and vs = "[]" and xs = "[]" and pv = "[]"]
    by (auto simp: example_port_def input_item_def str_truthy_def dict_get_def)
  have c: "\<exists>self. ResolveSource_init (\<lambda>s. s) ''step/in''
             (example_port (One ''a'') None (Some ''first_non_null'')) ''source''
             [''a'' \<mapsto> [(''a'', PyList [PyNone, PyInt 5])]] = Inr self
          \<and> merged_value self = Inr (PyList [PyNone, PyInt 5])
          \<and> ResolveSource_resolve self = (Inr (PyInt 5), [])"
    using resolve_single_source_direct
      [where inp = "example_port (One ''a'') None (Some ''first_non_null'')"
         and source_key = "''source''" and src = "One ''a''" and s = "''a''"
         and promises = "[''a'' \<mapsto> [(''a'', PyList [PyNone, PyInt 5])]]"
         and d = "[(''a'', PyList [PyNone, PyInt 5])]" and shortname = "\<lambda>s. s"
         and name = "''step/in''" and ds = "[]" and vs = "[]" and xs = "[PyNone, PyInt 5]"
         and pv = "''first_non_null''"]
    by (auto simp: example_port_def input_item_def str_truthy_def dict_get_def survivors_def
        filter_skip_null_spec)
  have b: "\<exists>self. ResolveSource_init (\<lambda>s. s) ''step/in''
             (example_port (One ''a'') (Some ''merge_nested'') None) ''source''
             [''a'' \<mapsto> [(''a'', PyInt 4)]] = Inr self
          \<and> rs_promise_tuples self = TupleList [(''a'', [(''a'', PyInt 4)])]
          \<and> ResolveSource_resolve self = (Inr (PyList [PyInt 4]), [])"
    using resolve_single_source_direct
      [where inp = "example_port (One ''a'') (Some ''merge_nested'') None"
         and source_key = "''source''" and src = "One ''a''" and s = "''a''"
         and promises = "[''a'' \<mapsto> [(''a'', PyInt 4)]]" and d = "[]"
         and shortname = "\<lambda>s. s" and name = "''step/in''"
         and ds = "[[(''a'', PyInt 4)]]" and vs = "[PyInt 4]" and xs = "[]" and pv = "[]"]
    by (auto simp: example_port_def input_item_def str_truthy_def dict_get_def dict_item_def
        promise_rv_def bind_res_def bind_io_def lift_io_def return_io_def link_merge_def
        pick_value_def filter_skip_null_def)
  show ?thesis using a c b by simp
qed

text \<open>
  Claim C5. A conditional with no expression is never false, whatever the job object.
  With an expression, \<^verbatim>\<open>is_false\<close> evaluates it on the job object re-keyed by short
  names: a boolean result \<open>b\<close> gives \<open>\<not> b\<close>, so that true lets the job run the tool and
  false skips it, and any other result raises the non-boolean error. A failure of the
  evaluator itself is passed on. The re-keyed object holds under each short name the value
  of the last item of the job object whose key has that short name, and nothing else; it
  is the job object with every key replaced by its short name when no two keys share one.
\<close>

theorem conditional_gate:
  "(c_expression self = None \<longrightarrow> is_false shortname do_eval self job = (Inr False, []))
 \<and> (c_expression self = Some e
      \<and> do_eval e (rekey shortname job) (c_requirements self) PyNone = Some (PyBool b) \<longrightarrow>
      is_false shortname do_eval self job = (Inr (\<not> b), []))
 \<and> (c_expression self = Some e
      \<and> do_eval e (rekey shortname job) (c_requirements self) PyNone = Some v
      \<and> (\<forall>b. v \<noteq> PyBool b) \<longrightarrow>
      is_false shortname do_eval self job = (Inl (non_boolean e), []))
 \<and> (c_expression self = Some e
      \<and> do_eval e (rekey shortname job) (c_requirements self) PyNone = None \<longrightarrow>
      is_false shortname do_eval self job = (Inl ExpressionError, []))
 \<and> (resolve_indirect do_eval (j_cwljob jb) = (Inr resolved, log)
      \<and> fill_in_defaults resolved = Inr job
      \<and> is_false shortname do_eval (j_conditional jb) job = (Inr False, []) \<longrightarrow>
      CWLJob_run shortname do_eval fill_in_defaults execute jb =
        (execute job, log @ [Executed job]))
 \<and> (\<forall>k. map_of (rekey shortname job) k =
           map_of (rev (map (\<lambda>(k, v). (shortname k, v)) job)) k)
 \<and> distinct (map fst (rekey shortname job))
 \<and> (distinct (map (\<lambda>kv. shortname (fst kv)) job) \<longrightarrow>
      rekey shortname job = map (\<lambda>(k, v). (shortname k, v)) job)"
proof -
  have c1: "c_expression self = None \<longrightarrow> is_false shortname do_eval self job = (Inr False, [])"
    by (simp add: is_false_plain)
  have c2: "c_expression self = Some e
      \<and> do_eval e (rekey shortname job) (c_requirements self) PyNone = Some (PyBool b) \<longrightarrow>
      is_false shortname do_eval self job = (Inr (\<not> b), [])"
    by (simp add: is_false_plain)
  have c3: "c_expression self = Some e
      \<and> do_eval e (rekey shortname job) (c_requirements self) PyNone = Some v
      \<and> (\<forall>b. v \<noteq> PyBool b) \<longrightarrow>
      is_false shortname do_eval self job = (Inl (non_boolean e), [])"
    by (cases v) (auto simp: is_false_plain)
  have c4: "c_expression self = Some e
      \<and> do_eval e (rekey shortname job) (c_requirements self) PyNone = None \<longrightarrow>
      is_false shortname do_eval self job = (Inl ExpressionError, [])"
    by (simp add: is_false_plain)
  have c5: "resolve_indirect do_eval (j_cwljob jb) = (Inr resolved, log)
      \<and> fill_in_defaults resolved = Inr job
      \<and> is_false shortname do_eval (j_conditional jb) job = (Inr False, []) \<longrightarrow>
      CWLJob_run shortname do_eval fill_in_defaults execute jb =
        (execute job, log @ [Executed job])"
    by (simp add: CWLJob_run_def bind_io_def lift_io_def)
  have c6: "\<forall>k. map_of (rekey shortname job) k =
           map_of (rev (map (\<lambda>(k, v). (shortname k, v)) job)) k"
    by (simp add: map_of_rekey)
  have c7: "distinct (map fst (rekey shortname job))"
    by (rule distinct_rekey)
  have c8: "distinct (map (\<lambda>kv. shortname (fst kv)) job) \<longrightarrow>
      rekey shortname job = map (\<lambda>(k, v). (shortname k, v)) job"
    by (simp add: rekey_distinct)
  show ?thesis by (intro conjI c1 c2 c3 c4 c5 c6 c7 c8)
qed

theorem conditional_gate_witness:
  "is_false last_segment example_eval (example_conditional\<lparr>c_expression := None\<rparr>)
      [(''flag'', PyBool False)] = (Inr False, [])
 \<and> is_false last_segment example_eval example_conditional [(''flag'', PyBool True)]
      = (Inr False, [])
 \<and> is_false last_segment example_eval example_conditional [(''flag'', PyBool False)]
      = (Inr True, [])
 \<and> is_false last_segment example_eval example_conditional [(''flag'', PyInt 1)]
      = (Inl (non_boolean ''$(inputs.flag)''), [])
 \<and> CWLJob_run last_segment example_eval Inr example_execute (example_job (PyBool True))
      = (Inr [(''out1'', PyInt 1), (''out2'', PyNone)],
         [Executed [(''flag'', PyBool True), (''x'', PyInt 1)]])
 \<and> rekey last_segment [(''wf/step/flag'', PyBool False), (''wf/step/x'', PyInt 1)]
      = [(''flag'', PyBool False), (''x'', PyInt 1)]
 \<and> is_false last_segment example_eval example_conditional
      [(''wf/step/flag'', PyBool False), (''wf/step/x'', PyInt 1)] = (Inr True, [])
 \<and> is_false last_segment example_eval example_conditional
      [(''wf/step/flag'', PyBool True), (''other/flag'', PyInt 3)]
      = (Inl (non_boolean ''$(inputs.flag)''), [])"
proof -
  let ?long = "[(''wf/step/flag'', PyBool False), (''wf/step/x'', PyInt 1)]"
  let ?clash = "[(''wf/step/flag'', PyBool True), (''other/flag'', PyInt 3)]"
  have l1: "rekey last_segment ?long = [(''flag'', PyBool False), (''x'', PyInt 1)]"
    using conditional_gate[where shortname = last_segment and job = ?long
      and self = example_conditional and v = PyNone]
    by (simp add: last_segment_def)
  have l2: "is_false last_segment example_eval example_conditional ?long = (Inr True, [])"
    using conditional_gate[where self = example_conditional
      and shortname = last_segment and do_eval = example_eval
      and job = ?long and e = "''$(inputs.flag)''" and b = False and v = PyNone]
    by (simp add: l1 example_conditional_def example_eval_def dict_get_def)
  have m: "map_of (rekey last_segment ?clash) ''flag'' = Some (PyInt 3)"
    using conditional_gate[where shortname = last_segment and job = ?clash
      and self = example_conditional and v = PyNone]
    by (simp add: last_segment_def)
  have l3: "is_false last_segment example_eval example_conditional ?clash
      = (Inl (non_boolean ''$(inputs.flag)''), [])"
    using m conditional_gate[where self = example_conditional
      and shortname = last_segment and do_eval = example_eval
      and job = ?clash and e = "''$(inputs.flag)''" and v = "PyInt 3"]
    by (simp add: example_conditional_def example_eval_def dict_get_def)
  have k: "rekey last_segment [(''flag'', x)] = [(''flag'', x)]" for x :: val
    by (simp add: rekey_def dict_set_def last_segment_def)
  have k2: "rekey last_segment [(''flag'', x), (''x'', y)] = [(''flag'', x), (''x'', y)]"
    for x y :: val
    by (simp add: rekey_def dict_set_def last_segment_def)
  have a: "is_false last_segment example_eval (example_conditional\<lparr>c_expression := None\<rparr>)
      [(''flag'', PyBool False)] = (Inr False, [])"
    using conditional_gate[where self = "example_conditional\<lparr>c_expression := None\<rparr>"
      and shortname = last_segment and do_eval = example_eval
      and job = "[(''flag'', PyBool False)]" and v = PyNone]
    by simp
  have b: "is_false last_segment example_eval example_conditional [(''flag'', PyBool True)]
      = (Inr False, [])"
    using conditional_gate[where self = example_conditional
      and shortname = last_segment and do_eval = example_eval
      and job = "[(''flag'', PyBool True)]" and e = "''$(inputs.flag)''" and b = True
      and v = PyNone]
    by (simp add: k example_conditional_def example_eval_def dict_get_def)
  have c: "is_false last_segment example_eval example_conditional [(''flag'', PyBool False)]
      = (Inr True, [])"
    using conditional_gate[where self = example_conditional
      and shortname = last_segment and do_eval = example_eval
      and job = "[(''flag'', PyBool False)]" and e = "''$(inputs.flag)''" and b = False
      and v = PyNone]
    by (simp add: k example_conditional_def example_eval_def dict_get_def)
  have d: "is_false last_segment example_eval example_conditional [(''flag'', PyInt 1)]
      = (Inl (non_boolean ''$(inputs.flag)''), [])"
    using conditional_gate[where self = example_conditional
      and shortname = last_segment and do_eval = example_eval
      and job = "[(''flag'', PyInt 1)]" and e = "''$(inputs.flag)''" and v = "PyInt 1"]
    by (simp add: k example_conditional_def example_eval_def dict_get_def)
  have f0: "is_false last_segment example_eval example_conditional
      [(''flag'', PyBool True), (''x'', PyInt 1)] = (Inr False, [])"
    using conditional_gate[where self = example_conditional
      and shortname = last_segment and do_eval = example_eval
      and job = "[(''flag'', PyBool True), (''x'', PyInt 1)]" and e = "''$(inputs.flag)''"
      and b = True and v = PyNone]
    by (simp add: k2 example_conditional_def example_eval_def dict_get_def)
  have r: "resolve_indirect example_eval (j_cwljob (example_job (PyBool True)))
      = (Inr [(''flag'', PyBool True), (''x'', PyInt 1)], [])"
    by (simp add: example_job_def resolve_indirect_def return_io_def)
  have c0: "j_conditional (example_job (PyBool True)) = example_conditional"
    by (simp add: example_job_def)
  have g: "CWLJob_run last_segment example_eval Inr example_execute (example_job (PyBool True))
      = (example_execute [(''flag'', PyBool True), (''x'', PyInt 1)],
         [] @ [Executed [(''flag'', PyBool True), (''x'', PyInt 1)]])"
    using f0 r c0 conditional_gate[where shortname = last_segment and do_eval = example_eval
      and self = example_conditional and e = "''$(inputs.flag)''" and b = True
      and job = "[(''flag'', PyBool True), (''x'', PyInt 1)]"
      and v = PyNone and jb = "example_job (PyBool True)"
      and resolved = "[(''flag'', PyBool True), (''x'', PyInt 1)]" and log = "[]"
      and fill_in_defaults = Inr and execute = example_execute]
    by simp
  have f: "CWLJob_run last_segment example_eval Inr example_execute (example_job (PyBool True))
      = (Inr [(''out1'', PyInt 1), (''out2'', PyNone)],
         [Executed [(''flag'', PyBool True), (''x'', PyInt 1)]])"
    unfolding g by (simp add: example_execute_def dict_get_def)
  show ?thesis using a b c d f l1 l2 l3 by simp
qed

text \<open>
  Claim C6, as stated: the result of every step whose condition is false maps every
  declared output short name to a \<^verbatim>\<open>SkipNull\<close>. It does not for a scattered step. The
  step below is scattered over \<open>x = [1, 2]\<close> and its condition reads \<open>flag\<close>, which is
  false: the scatter makes two sub-jobs, the condition is false on the input object of
  each, either returns the markers without running the tool, and the gather returns for
  each output the list of the two markers, not a marker.
\<close>

theorem skipped_scatter_counterexample:
  "CWLScatter_run last_segment example_eval (example_when (PyBool False))
      = (Inr ([example_when_sub 1 (PyBool False), example_when_sub 2 (PyBool False)],
              [Leaf (example_when_sub 1 (PyBool False)),
               Leaf (example_when_sub 2 (PyBool False))]), [])
 \<and> is_false last_segment example_eval (sub_conditional (example_when_sub 1 (PyBool False)))
      (sub_cwljob (example_when_sub 1 (PyBool False))) = (Inr True, [])
 \<and> is_false last_segment example_eval (sub_conditional (example_when_sub 2 (PyBool False)))
      (sub_cwljob (example_when_sub 2 (PyBool False))) = (Inr True, [])
 \<and> example_run (example_when_sub 1 (PyBool False))
      = (Inr [(''out1'', SkipNull), (''out2'', SkipNull)], [])
 \<and> example_run (example_when_sub 2 (PyBool False))
      = (Inr [(''out1'', SkipNull), (''out2'', SkipNull)], [])
 \<and> scattered_step_run example_run last_segment example_eval (example_when (PyBool False))
      = (Inr [(''out1'', PyList [SkipNull, SkipNull]), (''out2'', PyList [SkipNull, SkipNull])],
         [])"
  by code_simp

text \<open>
  Claim C6, amended. When the conditional of a job evaluates to false, \<^verbatim>\<open>CWLJob.run\<close>,
  \<^verbatim>\<open>CWLJobWrapper.run\<close> (through the \<^verbatim>\<open>CWLJob\<close> it adds) and \<^verbatim>\<open>CWLWorkflow.run\<close> return,
  without any execution event and whatever the tool is, a dictionary that maps exactly the
  short names of the declared outputs to \<^verbatim>\<open>SkipNull\<close>; the follow-on of a skipped
  sub-workflow returns that dictionary unchanged. A scattered step returns what its gather
  makes of the return values of its sub-jobs: exactly the short names of the declared
  outputs, each mapped to the list, nested like \<^verbatim>\<open>outputs\<close>, of the values the sub-jobs
  return for it, so a \<^verbatim>\<open>SkipNull\<close> at the place of every sub-job that was skipped, and
  the events of the sub-jobs and no other. \<^verbatim>\<open>filter_skip_null\<close> replaces every \<^verbatim>\<open>SkipNull\<close>
  at any depth by null and logs one warning that names the port exactly when the value
  held one; a resolver without pickValue returns its merged value filtered in this way.
\<close>

theorem skipped_step_outputs:
  "(resolve_indirect do_eval (j_cwljob jb) = (Inr resolved, log)
      \<and> fill_in_defaults resolved = Inr job
      \<and> c_expression (j_conditional jb) = Some e
      \<and> do_eval e (rekey shortname job) (c_requirements (j_conditional jb)) PyNone
           = Some (PyBool False)
      \<and> c_outputs (j_conditional jb) = Some outs \<longrightarrow>
      (\<exists>d. CWLJob_run shortname do_eval fill_in_defaults execute jb = (Inr d, log)
         \<and> list_all is_warning log
         \<and> distinct (map fst d)
         \<and> (\<forall>k. map_of d k =
               (if k \<in> set (map (sn shortname) outs) then Some SkipNull else None))))
 \<and> (resolve_indirect do_eval (j_cwljob jb) = (Inr resolved, log)
      \<and> fill_in_defaults resolved = Inr filled
      \<and> fill_in_defaults filled = Inr job
      \<and> c_expression (j_conditional jb) = Some e
      \<and> do_eval e (rekey shortname job) (c_requirements (j_conditional jb)) PyNone
           = Some (PyBool False)
      \<and> c_outputs (j_conditional jb) = Some outs \<longrightarrow>
      (\<exists>d. CWLJobWrapper_run shortname do_eval fill_in_defaults execute jb = (Inr d, log)
         \<and> list_all is_warning log
         \<and> distinct (map fst d)
         \<and> (\<forall>k. map_of d k =
               (if k \<in> set (map (sn shortname) outs) then Some SkipNull else None))))
 \<and> (resolve_indirect do_eval (w_cwljob w) = (Inr job, log)
      \<and> c_expression (w_conditional w) = Some e
      \<and> do_eval e (rekey shortname job) (c_requirements (w_conditional w)) PyNone
           = Some (PyBool False)
      \<and> c_outputs (w_conditional w) = Some outs \<longrightarrow>
      (\<exists>d. CWLWorkflow_run shortname do_eval w = Some (Inr (SkippedOutputs d), log)
         \<and> list_all is_warning log
         \<and> distinct (map fst d)
         \<and> (\<forall>k. map_of d k =
               (if k \<in> set (map (sn shortname) outs) then Some SkipNull else None))))
 \<and> resolve_indirect do_eval (PlainDict outobj) = (Inr outobj, [])
 \<and> (CWLScatter_run shortname do_eval sc = (Inr (children, outputs), slog)
      \<and> (\<forall>j \<in> set (concat (map leaves outputs)). run j = (Inr (D j), L j)) \<longrightarrow>
      (\<exists>d. scattered_step_run run shortname do_eval sc
              = (Inr d, slog @ concat (map L (concat (map leaves outputs))))
         \<and> distinct (map fst d)
         \<and> (\<forall>k. map_of d k =
               (if k \<in> set (map (sn shortname) (st_out (sc_step sc)))
                then Some (PyList (map (shape (\<lambda>j. dict_get (D j) k)) outputs))
                else None))))
 \<and> ((\<forall>j \<in> set (concat (map leaves outputs)). map_of (D j) key = Some SkipNull) \<longrightarrow>
      map (shape (\<lambda>j. dict_get (D j) key)) outputs = map (shape (\<lambda>j. SkipNull)) outputs)
 \<and> filter_skip_null name v =
      (Inr (null_skips v), if contains_skip v then [Warning (skip_null_warning name)] else [])
 \<and> \<not> contains_skip (null_skips v)
 \<and> (\<not> contains_skip v \<longrightarrow> null_skips v = v)
 \<and> null_skips SkipNull = PyNone
 \<and> (\<exists>rest. skip_null_warning name = ''In '' @ name @ rest)
 \<and> (p_pickValue (rs_input rs) = None \<and> merged_value rs = Inr v \<longrightarrow>
      ResolveSource_resolve rs =
        (Inr (null_skips v),
         if contains_skip v then [Warning (skip_null_warning (rs_name rs))] else []))"
proof (intro conjI impI)
  assume h: "resolve_indirect do_eval (j_cwljob jb) = (Inr resolved, log)
      \<and> fill_in_defaults resolved = Inr job
      \<and> c_expression (j_conditional jb) = Some e
      \<and> do_eval e (rekey shortname job) (c_requirements (j_conditional jb)) PyNone
           = Some (PyBool False)
      \<and> c_outputs (j_conditional jb) = Some outs"
  then have f: "is_false shortname do_eval (j_conditional jb) job = (Inr True, [])"
    by (simp add: is_false_plain)
  have w: "list_all is_warning log"
    using h resolve_indirect_warnings[of do_eval "j_cwljob jb"] by simp
  from h obtain d where d: "skipped_outputs shortname (j_conditional jb) = Inr d"
    "distinct (map fst d)"
    "\<forall>k. map_of d k = (if k \<in> set (map (sn shortname) outs) then Some SkipNull else None)"
    using skipped_outputs_map[of "j_conditional jb" outs shortname] by blast
  have "CWLJob_run shortname do_eval fill_in_defaults execute jb = (Inr d, log)"
    using h f d(1) CWLJob_run_skipped[of do_eval jb resolved log fill_in_defaults job shortname execute]
    by simp
  then show "\<exists>d. CWLJob_run shortname do_eval fill_in_defaults execute jb = (Inr d, log)
         \<and> list_all is_warning log
         \<and> distinct (map fst d)
         \<and> (\<forall>k. map_of d k =
               (if k \<in> set (map (sn shortname) outs) then Some SkipNull else None))"
    using w d by blast
next
  assume h: "resolve_indirect do_eval (j_cwljob jb) = (Inr resolved, log)
      \<and> fill_in_defaults resolved = Inr filled
      \<and> fill_in_defaults filled = Inr job
      \<and> c_expression (j_conditional jb) = Some e
      \<and> do_eval e (rekey shortname job) (c_requirements (j_conditional jb)) PyNone
           = Some (PyBool False)
      \<and> c_outputs (j_conditional jb) = Some outs"
  then have f: "is_false shortname do_eval (j_conditional jb) job = (Inr True, [])"
    by (simp add: is_false_plain)
  have w: "list_all is_warning log"
    using h resolve_indirect_warnings[of do_eval "j_cwljob jb"] by simp
  from h obtain d where d: "skipped_outputs shortname (j_conditional jb) = Inr d"
    "distinct (map fst d)"
    "\<forall>k. map_of d k = (if k \<in> set (map (sn shortname) outs) then Some SkipNull else None)"
    using skipped_outputs_map[of "j_conditional jb" outs shortname] by blast
  have "CWLJobWrapper_run shortname do_eval fill_in_defaults execute jb = (Inr d, log)"
    using h f d(1)
      CWLJobWrapper_run_skipped[of do_eval jb resolved log fill_in_defaults filled job
        shortname execute]
    by simp
  then show "\<exists>d. CWLJobWrapper_run shortname do_eval fill_in_defaults execute jb = (Inr d, log)
         \<and> list_all is_warning log
         \<and> distinct (map fst d)
         \<and> (\<forall>k. map_of d k =
               (if k \<in> set (map (sn shortname) outs) then Some SkipNull else None))"
    using w d by blast
next
  assume h: "resolve_indirect do_eval (w_cwljob w) = (Inr job, log)
      \<and> c_expression (w_conditional w) = Some e
      \<and> do_eval e (rekey shortname job) (c_requirements (w_conditional w)) PyNone
           = Some (PyBool False)
      \<and> c_outputs (w_conditional w) = Some outs"
  then have f: "is_false shortname do_eval (w_conditional w) job = (Inr True, [])"
    by (simp add: is_false_plain)
  have wn: "list_all is_warning log"
    using h resolve_indirect_warnings[of do_eval "w_cwljob w"] by simp
  from h obtain d where d: "skipped_outputs shortname (w_conditional w) = Inr d"
    "distinct (map fst d)"
    "\<forall>k. map_of d k = (if k \<in> set (map (sn shortname) outs) then Some SkipNull else None)"
    using skipped_outputs_map[of "w_conditional w" outs shortname] by blast
  have "CWLWorkflow_run shortname do_eval w = Some (Inr (SkippedOutputs d), log)"
    using h f d(1) by (simp add: CWLWorkflow_run_def bind_io_def bind_res_def)
  then show "\<exists>d. CWLWorkflow_run shortname do_eval w = Some (Inr (SkippedOutputs d), log)
         \<and> list_all is_warning log
         \<and> distinct (map fst d)
         \<and> (\<forall>k. map_of d k =
               (if k \<in> set (map (sn shortname) outs) then Some SkipNull else None))"
    using wn d by blast
next
  show "resolve_indirect do_eval (PlainDict outobj) = (Inr outobj, [])"
    by (simp add: resolve_indirect_def return_io_def)
next
  assume h: "CWLScatter_run shortname do_eval sc = (Inr (children, outputs), slog)
      \<and> (\<forall>j \<in> set (concat (map leaves outputs)). run j = (Inr (D j), L j))"
  let ?g = "\<lparr>g_step = sc_step sc,
              g_outputs = PyList (map (shape (\<lambda>j. PyDict (D j))) outputs)\<rparr>"
  have r: "scattered_step_run run shortname do_eval sc
             = (Inr (CWLGather_run shortname ?g),
                slog @ concat (map L (concat (map leaves outputs))))"
    using h scattered_step[of shortname do_eval sc children outputs slog run D L] by blast
  have m: "\<forall>k. map_of (CWLGather_run shortname ?g) k =
               (if k \<in> set (map (sn shortname) (st_out (sc_step sc)))
                then Some (PyList (map (shape (\<lambda>j. dict_get (D j) k)) outputs))
                else None)"
    by (simp add: map_of_gather extract_shape o_def)
  show "\<exists>d. scattered_step_run run shortname do_eval sc
              = (Inr d, slog @ concat (map L (concat (map leaves outputs))))
         \<and> distinct (map fst d)
         \<and> (\<forall>k. map_of d k =
               (if k \<in> set (map (sn shortname) (st_out (sc_step sc)))
                then Some (PyList (map (shape (\<lambda>j. dict_get (D j) k)) outputs))
                else None))"
    using r m distinct_gather[of shortname ?g]
    by (intro exI[of _ "CWLGather_run shortname ?g"]) simp
next
  assume h: "\<forall>j \<in> set (concat (map leaves outputs)). map_of (D j) key = Some SkipNull"
  show "map (shape (\<lambda>j. dict_get (D j) key)) outputs = map (shape (\<lambda>j. SkipNull)) outputs"
  proof (rule map_cong[OF refl])
    fix t assume t: "t \<in> set outputs"
    show "shape (\<lambda>j. dict_get (D j) key) t = shape (\<lambda>j. SkipNull) t"
      using h t by (intro shape_cong_leaves) (auto simp: dict_get_def)
  qed
next
  show "filter_skip_null name v =
      (Inr (null_skips v), if contains_skip v then [Warning (skip_null_warning name)] else [])"
    by (rule filter_skip_null_spec)
next
  show "\<not> contains_skip (null_skips v)" by (rule null_skips_clean)
next
  assume "\<not> contains_skip v" then show "null_skips v = v" by (rule null_skips_id)
next
  show "null_skips SkipNull = PyNone" by simp
next
  show "\<exists>rest. skip_null_warning name = ''In '' @ name @ rest"
    by (simp add: skip_null_warning_def)
next
  assume "p_pickValue (rs_input rs) = None \<and> merged_value rs = Inr v"
  then show "ResolveSource_resolve rs =
        (Inr (null_skips v),
         if contains_skip v then [Warning (skip_null_warning (rs_name rs))] else [])"
    by (simp add: ResolveSource_resolve_def pick_value_def bind_io_def lift_io_def return_io_def
        filter_skip_null_spec)
qed

theorem skipped_step_outputs_witness:
  "(\<exists>d. CWLJob_run last_segment example_eval Inr example_execute (example_job (PyBool False))
          = (Inr d, [])
        \<and> map_of d ''out1'' = Some SkipNull \<and> map_of d ''out2'' = Some SkipNull
        \<and> map_of d ''flag'' = None)
 \<and> (\<exists>d. CWLJobWrapper_run last_segment example_eval Inr example_execute
            (example_job (PyBool False)) = (Inr d, [])
        \<and> map_of d ''out1'' = Some SkipNull \<and> map_of d ''out2'' = Some SkipNull
        \<and> map_of d ''flag'' = None)
 \<and> (\<exists>d. scattered_step_run example_run last_segment example_eval (example_when (PyBool False))
          = (Inr d, [])
        \<and> map_of d ''out1'' = Some (PyList [SkipNull, SkipNull])
        \<and> map_of d ''out2'' = Some (PyList [SkipNull, SkipNull])
        \<and> map_of d ''x'' = None)
 \<and> filter_skip_null ''step/in'' (PyList [SkipNull, PyInt 1, PyDict [(''a'', SkipNull)]])
      = (Inr (PyList [PyNone, PyInt 1, PyDict [(''a'', PyNone)]]),
         [Warning (skip_null_warning ''step/in'')])
 \<and> filter_skip_null ''step/in'' (PyList [PyInt 1]) = (Inr (PyList [PyInt 1]), [])"
proof -
  let ?job = "[(''flag'', PyBool False), (''x'', PyInt 1)]"
  have k: "rekey last_segment ?job = ?job"
    by (simp add: rekey_def dict_set_def last_segment_def)
  have r: "resolve_indirect example_eval (j_cwljob (example_job (PyBool False))) = (Inr ?job, [])"
    by (simp add: example_job_def resolve_indirect_def return_io_def)
  have c: "j_conditional (example_job (PyBool False)) = example_conditional"
    by (simp add: example_job_def)
  have e: "example_eval ''$(inputs.flag)'' ?job (c_requirements example_conditional) PyNone
            = Some (PyBool False)"
    by (simp add: example_eval_def dict_get_def)
  have s: "sn last_segment (OutStr ''step/out1'') = ''out1''"
    "sn last_segment (OutMapping ''step/out2'') = ''out2''"
    by (simp_all add: last_segment_def)
  have h: "resolve_indirect example_eval (j_cwljob (example_job (PyBool False))) = (Inr ?job, [])
      \<and> Inr ?job = Inr ?job
      \<and> c_expression (j_conditional (example_job (PyBool False))) = Some ''$(inputs.flag)''
      \<and> example_eval ''$(inputs.flag)'' (rekey last_segment ?job)
           (c_requirements (j_conditional (example_job (PyBool False)))) PyNone
           = Some (PyBool False)
      \<and> c_outputs (j_conditional (example_job (PyBool False)))
           = Some [OutStr ''step/out1'', OutMapping ''step/out2'']"
    using r e k unfolding c by (simp add: example_conditional_def)
  obtain d where d:
    "CWLJob_run last_segment example_eval Inr example_execute (example_job (PyBool False))
       = (Inr d, [])"
    "\<forall>k. map_of d k =
       (if k \<in> set (map (sn last_segment) [OutStr ''step/out1'', OutMapping ''step/out2''])
        then Some SkipNull else None)"
    using skipped_step_outputs[where do_eval = example_eval
        and jb = "example_job (PyBool False)" and resolved = ?job and log = "[]"
        and fill_in_defaults = Inr and job = ?job and e = "''$(inputs.flag)''"
        and shortname = last_segment
        and outs = "[OutStr ''step/out1'', OutMapping ''step/out2'']"
        and execute = example_execute, THEN conjunct1, rule_format, OF h]
    by blast
  have a: "\<exists>d. CWLJob_run last_segment example_eval Inr example_execute (example_job (PyBool False))
          = (Inr d, [])
        \<and> map_of d ''out1'' = Some SkipNull \<and> map_of d ''out2'' = Some SkipNull
        \<and> map_of d ''flag'' = None"
    using d s by (intro exI[of _ d]) simp
  have hw: "resolve_indirect example_eval (j_cwljob (example_job (PyBool False))) = (Inr ?job, [])
      \<and> Inr ?job = Inr ?job
      \<and> Inr ?job = Inr ?job
      \<and> c_expression (j_conditional (example_job (PyBool False))) = Some ''$(inputs.flag)''
      \<and> example_eval ''$(inputs.flag)'' (rekey last_segment ?job)
           (c_requirements (j_conditional (example_job (PyBool False)))) PyNone
           = Some (PyBool False)
      \<and> c_outputs (j_conditional (example_job (PyBool False)))
           = Some [OutStr ''step/out1'', OutMapping ''step/out2'']"
    using h by simp
  obtain dw where dw:
    "CWLJobWrapper_run last_segment example_eval Inr example_execute (example_job (PyBool False))
       = (Inr dw, [])"
    "\<forall>k. map_of dw k =
       (if k \<in> set (map (sn last_segment) [OutStr ''step/out1'', OutMapping ''step/out2''])
        then Some SkipNull else None)"
    using skipped_step_outputs[where do_eval = example_eval
        and jb = "example_job (PyBool False)" and resolved = ?job and log = "[]"
        and fill_in_defaults = Inr and filled = ?job and job = ?job
        and e = "''$(inputs.flag)''" and shortname = last_segment
        and outs = "[OutStr ''step/out1'', OutMapping ''step/out2'']"
        and execute = example_execute, THEN conjunct2, THEN conjunct1, rule_format, OF hw]
    by blast
  have aw: "\<exists>d. CWLJobWrapper_run last_segment example_eval Inr example_execute
            (example_job (PyBool False)) = (Inr d, [])
        \<and> map_of d ''out1'' = Some SkipNull \<and> map_of d ''out2'' = Some SkipNull
        \<and> map_of d ''flag'' = None"
    using dw s by (intro exI[of _ dw]) simp
  let ?j1 = "example_when_sub 1 (PyBool False)"
  let ?j2 = "example_when_sub 2 (PyBool False)"
  let ?D = "\<lambda>j :: sub_job. [(''out1'', SkipNull), (''out2'', SkipNull)]"
  let ?L = "\<lambda>j :: sub_job. [] :: event list"
  have sr: "CWLScatter_run last_segment example_eval (example_when (PyBool False))
      = (Inr ([?j1, ?j2], [Leaf ?j1, Leaf ?j2]), [])"
    by code_simp
  have r1: "example_run ?j1 = (Inr [(''out1'', SkipNull), (''out2'', SkipNull)], [])"
    by code_simp
  have r2: "example_run ?j2 = (Inr [(''out1'', SkipNull), (''out2'', SkipNull)], [])"
    by code_simp
  have hs: "CWLScatter_run last_segment example_eval (example_when (PyBool False))
      = (Inr ([?j1, ?j2], [Leaf ?j1, Leaf ?j2]), [])
      \<and> (\<forall>j \<in> set (concat (map leaves [Leaf ?j1, Leaf ?j2])). example_run j = (Inr (?D j), ?L j))"
    using sr r1 r2 by simp
  obtain ds where ds:
    "scattered_step_run example_run last_segment example_eval (example_when (PyBool False))
       = (Inr ds, [] @ concat (map ?L (concat (map leaves [Leaf ?j1, Leaf ?j2]))))"
    "\<forall>k. map_of ds k =
       (if k \<in> set (map (sn last_segment) (st_out (sc_step (example_when (PyBool False)))))
        then Some (PyList (map (shape (\<lambda>j. dict_get (?D j) k)) [Leaf ?j1, Leaf ?j2]))
        else None)"
    using skipped_step_outputs[where do_eval = example_eval and shortname = last_segment
        and sc = "example_when (PyBool False)" and children = "[?j1, ?j2]"
        and outputs = "[Leaf ?j1, Leaf ?j2]" and slog = "[]" and run = example_run
        and D = ?D and L = ?L,
        THEN conjunct2, THEN conjunct2, THEN conjunct2, THEN conjunct2, THEN conjunct1,
        rule_format, OF hs]
    by blast
  have so: "st_out (sc_step (example_when (PyBool False)))
              = [OutStr ''step/out1'', OutMapping ''step/out2'']"
    by (simp add: example_when_def)
  have as: "\<exists>d. scattered_step_run example_run last_segment example_eval
              (example_when (PyBool False)) = (Inr d, [])
        \<and> map_of d ''out1'' = Some (PyList [SkipNull, SkipNull])
        \<and> map_of d ''out2'' = Some (PyList [SkipNull, SkipNull])
        \<and> map_of d ''x'' = None"
    using ds s unfolding so by (intro exI[of _ ds]) (simp add: dict_get_def)
  have b: "filter_skip_null ''step/in'' (PyList [SkipNull, PyInt 1, PyDict [(''a'', SkipNull)]])
      = (Inr (PyList [PyNone, PyInt 1, PyDict [(''a'', PyNone)]]),
         [Warning (skip_null_warning ''step/in'')])"
    using skipped_step_outputs[where name = "''step/in''"
        and v = "PyList [SkipNull, PyInt 1, PyDict [(''a'', SkipNull)]]"]
    by simp
  have d: "filter_skip_null ''step/in'' (PyList [PyInt 1]) = (Inr (PyList [PyInt 1]), [])"
    using skipped_step_outputs[where name = "''step/in''" and v = "PyList [PyInt 1]"]
    by simp
  show ?thesis using a aw as b d by blast
qed

text \<open>
  Claim C7, as stated: in every sub-job of a dot product each scattered port holds its
  element and all other ports are unchanged. It fails for a port with a \<^verbatim>\<open>valueFrom\<close>:
  in the run below port \<open>y\<close> is not scattered, holds 10 in the job object and holds the
  value of its expression in both sub-jobs.
\<close>

theorem dotproduct_ports_counterexample:
  "st_scatter (sc_step example_dot) = Some (One ''step/x'')
 \<and> sc_cwljob example_dot
      = PlainDict [(''x'', PyList [PyInt 1, PyInt 2]), (''y'', PyInt 10), (''flag'', PyBool True)]
 \<and> CWLScatter_run last_segment example_eval example_dot
    = (Inr ([example_sub [(''x'', PyInt 1), (''y'', PyBool True), (''flag'', PyBool True)],
             example_sub [(''x'', PyInt 2), (''y'', PyBool True), (''flag'', PyBool True)]],
            [Leaf (example_sub [(''x'', PyInt 1), (''y'', PyBool True), (''flag'', PyBool True)]),
             Leaf (example_sub [(''x'', PyInt 2), (''y'', PyBool True), (''flag'', PyBool True)])]),
       [])"
  by (simp add: example_dot_def example_scatter_def plain_port_def example_sub_def
      CWLScatter_run_def resolve_indirect_def return_io_def bind_io_def lift_io_def
      scatter_resolved_def dotproduct_scatter_def bind_res_def dict_item_def last_segment_def
      upt_2 postScatterEval_def valueFrom_dict_def rekey_def dict_set_def make_sub_job_def
      setdefault_def example_eval_def eval_res_def dict_get_def)

text \<open>
  Claim C7, amended. When every scattered port holds an array of length \<open>N\<close> and the
  \<^verbatim>\<open>valueFrom\<close> expressions evaluate, the dot product makes exactly \<open>N\<close> sub-jobs, in
  index order, and returns them as its outputs. In the input object of the \<open>i\<close>-th one, a
  port without \<^verbatim>\<open>valueFrom\<close> holds the \<open>i\<close>-th element of its array if it is scattered
  and its value in the job object otherwise; a port with \<^verbatim>\<open>valueFrom\<close> holds the value
  of its expression, evaluated on the substituted input object with the port's substituted
  value (null if it has none) as context. With exactly one scattered port the run is the
  dot product, whatever scatterMethod is declared.
\<close>

theorem dotproduct_sub_jobs:
  "(scatter = p0 # ps
      \<and> (\<forall>p \<in> set scatter.
            \<exists>xs. map_of cwljob (shortname p) = Some (PyList xs) \<and> length xs = N)
      \<and> (\<forall>i < N. postScatterEval shortname do_eval self
                     (dot_input cwljob (map shortname scatter) i) = Inr (pe i)) \<longrightarrow>
      dotproduct_scatter shortname self (postScatterEval shortname do_eval self) scatter cwljob
        = Inr (map (\<lambda>i. make_sub_job self (pe i)) [0..<N],
               map (\<lambda>i. Leaf (make_sub_job self (pe i))) [0..<N])
      \<and> (\<forall>i < N. \<forall>k.
            map_of (pe i) k =
              (case map_of (valueFrom_dict shortname (st_inputs (sc_step self))) k of
                 None \<Rightarrow>
                   (if k \<in> set (map shortname scatter) then Some (port_array cwljob k ! i)
                    else map_of cwljob k)
               | Some e \<Rightarrow>
                   do_eval e (rekey shortname (dot_input cwljob (map shortname scatter) i))
                     (st_requirements (sc_step self))
                     (dict_get (dot_input cwljob (map shortname scatter) i) k))))
 \<and> sub_cwljob (make_sub_job self jo) = jo
 \<and> (st_scatter (sc_step self) = Some sc \<and> length (aslist sc) = 1 \<longrightarrow>
      scatter_resolved shortname do_eval self cwljob
        = dotproduct_scatter shortname self (postScatterEval shortname do_eval self)
            (aslist sc) cwljob)"
proof (intro conjI impI allI)
  assume h: "scatter = p0 # ps
      \<and> (\<forall>p \<in> set scatter.
            \<exists>xs. map_of cwljob (shortname p) = Some (PyList xs) \<and> length xs = N)
      \<and> (\<forall>i < N. postScatterEval shortname do_eval self
                     (dot_input cwljob (map shortname scatter) i) = Inr (pe i))"
  then show "dotproduct_scatter shortname self (postScatterEval shortname do_eval self)
               scatter cwljob
        = Inr (map (\<lambda>i. make_sub_job self (pe i)) [0..<N],
               map (\<lambda>i. Leaf (make_sub_job self (pe i))) [0..<N])"
    using dotproduct_general[where scatter = scatter and ?p0.0 = p0 and ps = ps
        and cwljob = cwljob and shortname = shortname and N = N
        and pse = "postScatterEval shortname do_eval self" and pe = pe and self = self]
    by blast
  fix i k
  assume i: "i < N"
  with h have "postScatterEval shortname do_eval self
                 (dot_input cwljob (map shortname scatter) i) = Inr (pe i)" by blast
  from postScatterEval_ports[OF this, of k]
  show "map_of (pe i) k =
              (case map_of (valueFrom_dict shortname (st_inputs (sc_step self))) k of
                 None \<Rightarrow>
                   (if k \<in> set (map shortname scatter) then Some (port_array cwljob k ! i)
                    else map_of cwljob k)
               | Some e \<Rightarrow>
                   do_eval e (rekey shortname (dot_input cwljob (map shortname scatter) i))
                     (st_requirements (sc_step self))
                     (dict_get (dot_input cwljob (map shortname scatter) i) k))"
    by (simp add: dot_input_def map_of_foldl_set split: option.splits)
next
  show "sub_cwljob (make_sub_job self jo) = jo" by (simp add: make_sub_job_def)
next
  assume "st_scatter (sc_step self) = Some sc \<and> length (aslist sc) = 1"
  then show "scatter_resolved shortname do_eval self cwljob
        = dotproduct_scatter shortname self (postScatterEval shortname do_eval self)
            (aslist sc) cwljob"
    using scatter_resolved_cases[of self sc shortname do_eval cwljob] by (simp add: Let_def)
qed

theorem dotproduct_sub_jobs_witness:
  "dotproduct_scatter last_segment example_dot
      (postScatterEval last_segment example_eval example_dot) [''step/x'']
      [(''x'', PyList [PyInt 1, PyInt 2]), (''y'', PyInt 10), (''flag'', PyBool True)]
    = Inr ([example_sub [(''x'', PyInt 1), (''y'', PyBool True), (''flag'', PyBool True)],
            example_sub [(''x'', PyInt 2), (''y'', PyBool True), (''flag'', PyBool True)]],
           [Leaf (example_sub [(''x'', PyInt 1), (''y'', PyBool True), (''flag'', PyBool True)]),
            Leaf (example_sub [(''x'', PyInt 2), (''y'', PyBool True), (''flag'', PyBool True)])])
 \<and> scatter_resolved last_segment example_eval example_dot
      [(''x'', PyList [PyInt 1, PyInt 2]), (''y'', PyInt 10), (''flag'', PyBool True)]
    = dotproduct_scatter last_segment example_dot
        (postScatterEval last_segment example_eval example_dot) [''step/x'']
        [(''x'', PyList [PyInt 1, PyInt 2]), (''y'', PyInt 10), (''flag'', PyBool True)]"
proof -
  let ?cw = "[(''x'', PyList [PyInt 1, PyInt 2]), (''y'', PyInt 10), (''flag'', PyBool True)]"
  let ?pe = "\<lambda>i. [(''x'', PyInt (int i + 1)), (''y'', PyBool True), (''flag'', PyBool True)]"
  have s: "last_segment ''step/x'' = ''x''" "last_segment ''step/y'' = ''y''"
    by (simp_all add: last_segment_def)
  have vf: "valueFrom_dict last_segment (st_inputs (sc_step example_dot))
              = [(''y'', ''$(inputs.flag)'')]"
    by (simp add: example_dot_def example_scatter_def plain_port_def valueFrom_dict_def s
        dict_set_def)
  have k: "rekey last_segment [(''x'', v), (''y'', PyInt 10), (''flag'', PyBool True)]
             = [(''x'', v), (''y'', PyInt 10), (''flag'', PyBool True)]" for v
    by (simp add: rekey_def dict_set_def last_segment_def)
  have e: "postScatterEval last_segment example_eval example_dot
             [(''x'', v), (''y'', PyInt 10), (''flag'', PyBool True)]
           = Inr [(''x'', v), (''y'', PyBool True), (''flag'', PyBool True)]" for v
    by (simp add: postScatterEval_def vf k setdefault_def example_eval_def eval_res_def
        dict_get_def bind_res_def)
  have d: "dot_input ?cw (map last_segment [''step/x'']) i
             = [(''x'', [PyInt 1, PyInt 2] ! i), (''y'', PyInt 10), (''flag'', PyBool True)]" for i
    by (simp add: dot_input_def s port_array_def dict_set_def)
  have h: "[''step/x''] = ''step/x'' # []
      \<and> (\<forall>p \<in> set [''step/x''].
            \<exists>xs. map_of ?cw (last_segment p) = Some (PyList xs) \<and> length xs = 2)
      \<and> (\<forall>i < 2. postScatterEval last_segment example_eval example_dot
                     (dot_input ?cw (map last_segment [''step/x'']) i) = Inr (?pe i))"
    unfolding d e by (auto simp: s less_2_cases_iff)
  have m: "make_sub_job example_dot jo = example_sub jo" for jo
    by (simp add: make_sub_job_def example_dot_def example_scatter_def example_sub_def)
  have a: "dotproduct_scatter last_segment example_dot
      (postScatterEval last_segment example_eval example_dot) [''step/x''] ?cw
    = Inr ([example_sub [(''x'', PyInt 1), (''y'', PyBool True), (''flag'', PyBool True)],
            example_sub [(''x'', PyInt 2), (''y'', PyBool True), (''flag'', PyBool True)]],
           [Leaf (example_sub [(''x'', PyInt 1), (''y'', PyBool True), (''flag'', PyBool True)]),
            Leaf (example_sub [(''x'', PyInt 2), (''y'', PyBool True), (''flag'', PyBool True)])])"
    using dotproduct_sub_jobs[where scatter = "[''step/x'']" and ?p0.0 = "''step/x''"
        and ps = "[]" and cwljob = ?cw and shortname = last_segment and N = 2
        and do_eval = example_eval and self = example_dot and pe = ?pe,
        THEN conjunct1, rule_format, OF h, THEN conjunct1]
    by (simp add: m upt_2)
  have sc: "st_scatter (sc_step example_dot) = Some (One ''step/x'')
      \<and> length (aslist (One ''step/x'')) = 1"
    by (simp add: example_dot_def example_scatter_def)
  have b: "scatter_resolved last_segment example_eval example_dot ?cw
    = dotproduct_scatter last_segment example_dot
        (postScatterEval last_segment example_eval example_dot) [''step/x''] ?cw"
    using dotproduct_sub_jobs[where sc = "One ''step/x''" and self = example_dot
        and shortname = last_segment and do_eval = example_eval and cwljob = ?cw,
        THEN conjunct2, THEN conjunct2, rule_format, OF sc]
    by simp
  show ?thesis using a b by simp
qed

text \<open>
  Claim C8. Over two ports with distinct short names that hold arrays of lengths \<open>a\<close> and
  \<open>b\<close>, when the \<^verbatim>\<open>valueFrom\<close> expressions evaluate: \<^verbatim>\<open>flat_crossproduct_scatter\<close> makes
  \<open>a * b\<close> sub-jobs and returns them as one flat list in row-major order, the sub-job of
  the pair \<open>(i, j)\<close> at index \<open>i * b + j\<close>; \<^verbatim>\<open>nested_crossproduct_scatter\<close> makes the
  same sub-jobs and returns an outer list of \<open>a\<close> lists of \<open>b\<close> leaves. For any number of
  ports: both make the sub-jobs of the Cartesian product in port order, the nested result
  is the product tree with one level per port, the flat result is the list of its leaves,
  and over distinct ports the number of sub-jobs is the product of the array lengths.
\<close>

theorem crossproduct_shapes:
  "(shortname kx \<noteq> shortname ky
      \<and> map_of jo (shortname kx) = Some (PyList xs)
      \<and> map_of jo (shortname ky) = Some (PyList ys)
      \<and> (\<forall>x \<in> set xs. \<forall>y \<in> set ys.
            pse (cross_input (shortname kx) (shortname ky) jo x y)
              = Inr (pe (cross_input (shortname kx) (shortname ky) jo x y))) \<longrightarrow>
      (\<exists>sub subs.
         sub = (\<lambda>x y. make_sub_job self
                        (pe (cross_input (shortname kx) (shortname ky) jo x y)))
         \<and> subs = concat (map (\<lambda>x. map (sub x) ys) xs)
         \<and> flat_crossproduct_scatter shortname self pse [kx, ky] jo ([], [])
             = Inr (subs, map Leaf subs)
         \<and> nested_crossproduct_scatter shortname self pse [kx, ky] jo []
             = Inr (subs, map (\<lambda>x. Nest (map (\<lambda>y. Leaf (sub x y)) ys)) xs)
         \<and> length subs = length xs * length ys
         \<and> (\<forall>i < length xs. \<forall>j < length ys.
               subs ! (i * length ys + j) = sub (xs ! i) (ys ! j))))
 \<and> (all_arrays (map shortname (k # rest)) jo
      \<and> (\<forall>j \<in> set (cartesian (map shortname (k # rest)) jo). pse j = Inr (pe j)) \<longrightarrow>
      (\<exists>subs tree.
         nested_crossproduct_scatter shortname self pse (k # rest) jo [] = Inr (subs, tree)
         \<and> flat_crossproduct_scatter shortname self pse (k # rest) jo ([], [])
             = Inr (subs, map Leaf subs)
         \<and> subs = concat (map leaves tree)
         \<and> subs = map (\<lambda>j. make_sub_job self (pe j))
                     (cartesian (map shortname (k # rest)) jo)
         \<and> tree = map (\<lambda>x. map_nest (\<lambda>j. make_sub_job self (pe j))
                             (cartesian_nest (map shortname rest)
                                (dict_set (shortname k) x jo)))
                     (port_array jo (shortname k))))
 \<and> (distinct ks \<and> (\<forall>k \<in> set ks. map_of jo k = Some (PyList (arr k))) \<longrightarrow>
      all_arrays ks jo
      \<and> length (cartesian ks jo) = prod_list (map (\<lambda>k. length (arr k)) ks))"
proof (intro conjI impI)
  assume h: "shortname kx \<noteq> shortname ky
      \<and> map_of jo (shortname kx) = Some (PyList xs)
      \<and> map_of jo (shortname ky) = Some (PyList ys)
      \<and> (\<forall>x \<in> set xs. \<forall>y \<in> set ys.
            pse (cross_input (shortname kx) (shortname ky) jo x y)
              = Inr (pe (cross_input (shortname kx) (shortname ky) jo x y)))"
  let ?sub = "\<lambda>x y. make_sub_job self (pe (cross_input (shortname kx) (shortname ky) jo x y))"
  let ?subs = "concat (map (\<lambda>x. map (?sub x) ys) xs)"
  from h have ne: "shortname kx \<noteq> shortname ky"
    and mx: "map_of jo (shortname kx) = Some (PyList xs)"
    and my: "map_of jo (shortname ky) = Some (PyList ys)" by simp_all
  note two = cartesian_two[OF ne mx my]
  have c: "cartesian (map shortname [kx, ky]) jo
             = concat (map (\<lambda>x. map (\<lambda>y. cross_input (shortname kx) (shortname ky) jo x y) ys) xs)"
    using two(1) by (simp add: cross_input_def)
  have a: "all_arrays (map shortname [kx, ky]) jo" using two(2) by simp
  have p: "\<forall>j \<in> set (cartesian (map shortname [kx, ky]) jo). pse j = Inr (pe j)"
    unfolding c using h by auto
  note g = cross_general[OF a p, where self = self]
  have s: "map (\<lambda>j. make_sub_job self (pe j)) (cartesian (map shortname [kx, ky]) jo) = ?subs"
    unfolding c by (simp add: map_concat comp_def)
  have t: "map (\<lambda>x. map_nest (\<lambda>j. make_sub_job self (pe j))
                       (cartesian_nest (map shortname [ky]) (dict_set (shortname kx) x jo)))
                  (port_array jo (shortname kx))
            = map (\<lambda>x. Nest (map (\<lambda>y. Leaf (?sub x y)) ys)) xs"
    using ne mx my
    by (simp add: port_array_def map_of_dict_set cross_input_def comp_def)
  have f: "flat_crossproduct_scatter shortname self pse [kx, ky] jo ([], [])
             = Inr (?subs, map Leaf ?subs)"
    using g(2) unfolding s .
  have n: "nested_crossproduct_scatter shortname self pse [kx, ky] jo []
             = Inr (?subs, map (\<lambda>x. Nest (map (\<lambda>y. Leaf (?sub x y)) ys)) xs)"
    using g(1) unfolding s t .
  have l: "length ?subs = length xs * length ys" by (rule length_concat_map)
  have i: "\<forall>i < length xs. \<forall>j < length ys.
             ?subs ! (i * length ys + j) = ?sub (xs ! i) (ys ! j)"
    by (simp add: nth_concat_map)
  show "\<exists>sub subs.
         sub = (\<lambda>x y. make_sub_job self
                        (pe (cross_input (shortname kx) (shortname ky) jo x y)))
         \<and> subs = concat (map (\<lambda>x. map (sub x) ys) xs)
         \<and> flat_crossproduct_scatter shortname self pse [kx, ky] jo ([], [])
             = Inr (subs, map Leaf subs)
         \<and> nested_crossproduct_scatter shortname self pse [kx, ky] jo []
             = Inr (subs, map (\<lambda>x. Nest (map (\<lambda>y. Leaf (sub x y)) ys)) xs)
         \<and> length subs = length xs * length ys
         \<and> (\<forall>i < length xs. \<forall>j < length ys.
               subs ! (i * length ys + j) = sub (xs ! i) (ys ! j))"
    using f n l i by blast
next
  assume h: "all_arrays (map shortname (k # rest)) jo
      \<and> (\<forall>j \<in> set (cartesian (map shortname (k # rest)) jo). pse j = Inr (pe j))"
  then have a: "all_arrays (map shortname (k # rest)) jo"
    and p: "\<forall>j \<in> set (cartesian (map shortname (k # rest)) jo). pse j = Inr (pe j)"
    by simp_all
  note g = cross_general[OF a p, where self = self]
  show "\<exists>subs tree.
         nested_crossproduct_scatter shortname self pse (k # rest) jo [] = Inr (subs, tree)
         \<and> flat_crossproduct_scatter shortname self pse (k # rest) jo ([], [])
             = Inr (subs, map Leaf subs)
         \<and> subs = concat (map leaves tree)
         \<and> subs = map (\<lambda>j. make_sub_job self (pe j))
                     (cartesian (map shortname (k # rest)) jo)
         \<and> tree = map (\<lambda>x. map_nest (\<lambda>j. make_sub_job self (pe j))
                             (cartesian_nest (map shortname rest)
                                (dict_set (shortname k) x jo)))
                     (port_array jo (shortname k))"
    using g by (intro exI conjI) (rule g(1), rule g(2), simp_all)
next
  assume "distinct ks \<and> (\<forall>k \<in> set ks. map_of jo k = Some (PyList (arr k)))"
  then show "all_arrays ks jo" using cartesian_arrays[of ks jo arr] by blast
next
  assume "distinct ks \<and> (\<forall>k \<in> set ks. map_of jo k = Some (PyList (arr k)))"
  then show "length (cartesian ks jo) = prod_list (map (\<lambda>k. length (arr k)) ks)"
    using cartesian_arrays[of ks jo arr] by blast
qed

theorem crossproduct_shapes_witness:
  "flat_crossproduct_scatter last_segment example_cross
      (postScatterEval last_segment example_eval example_cross) [''step/x'', ''step/y'']
      [(''x'', PyList [PyInt 1, PyInt 2]), (''y'', PyList [PyInt 10, PyInt 20, PyInt 30])]
      ([], [])
    = Inr ([example_xy 1 10, example_xy 1 20, example_xy 1 30,
            example_xy 2 10, example_xy 2 20, example_xy 2 30],
           [Leaf (example_xy 1 10), Leaf (example_xy 1 20), Leaf (example_xy 1 30),
            Leaf (example_xy 2 10), Leaf (example_xy 2 20), Leaf (example_xy 2 30)])
 \<and> nested_crossproduct_scatter last_segment example_cross
      (postScatterEval last_segment example_eval example_cross) [''step/x'', ''step/y'']
      [(''x'', PyList [PyInt 1, PyInt 2]), (''y'', PyList [PyInt 10, PyInt 20, PyInt 30])] []
    = Inr ([example_xy 1 10, example_xy 1 20, example_xy 1 30,
            example_xy 2 10, example_xy 2 20, example_xy 2 30],
           [Nest [Leaf (example_xy 1 10), Leaf (example_xy 1 20), Leaf (example_xy 1 30)],
            Nest [Leaf (example_xy 2 10), Leaf (example_xy 2 20), Leaf (example_xy 2 30)]])"
proof -
  let ?jo = "[(''x'', PyList [PyInt 1, PyInt 2]), (''y'', PyList [PyInt 10, PyInt 20, PyInt 30])]"
  let ?pse = "postScatterEval last_segment example_eval example_cross"
  have s: "last_segment ''step/x'' = ''x''" "last_segment ''step/y'' = ''y''"
    by (simp_all add: last_segment_def)
  have h: "last_segment ''step/x'' \<noteq> last_segment ''step/y''
      \<and> map_of ?jo (last_segment ''step/x'') = Some (PyList [PyInt 1, PyInt 2])
      \<and> map_of ?jo (last_segment ''step/y'') = Some (PyList [PyInt 10, PyInt 20, PyInt 30])
      \<and> (\<forall>x \<in> set [PyInt 1, PyInt 2]. \<forall>y \<in> set [PyInt 10, PyInt 20, PyInt 30].
            ?pse (cross_input (last_segment ''step/x'') (last_segment ''step/y'') ?jo x y)
              = Inr ((\<lambda>j. j)
                  (cross_input (last_segment ''step/x'') (last_segment ''step/y'') ?jo x y)))"
    unfolding s by (simp add: example_cross_plain)
  have m: "make_sub_job example_cross (cross_input ''x'' ''y'' ?jo (PyInt a) (PyInt b))
             = example_xy a b" for a b
    by (simp add: make_sub_job_def example_cross_def example_scatter_def example_xy_def
        example_sub_def cross_input_def dict_set_def)
  from crossproduct_shapes[where shortname = last_segment and kx = "''step/x''"
      and ky = "''step/y''" and jo = ?jo and pse = ?pse and pe = "\<lambda>j. j"
      and self = example_cross, THEN conjunct1, rule_format, OF h]
  show ?thesis unfolding s by (auto simp: m)
qed

text \<open>
  Claim C9, as stated: \<^verbatim>\<open>CWLScatter.run\<close> raises a validation error exactly when the
  scatterMethod is a string other than the three policies, or when more than one port is
  scattered and no scatterMethod is given. It fails for a single scattered port: the method
  is then forced to \<^verbatim>\<open>dotproduct\<close> before it is looked at, and the run below, whose
  scatterMethod is the string \<open>bogus\<close>, makes its two sub-jobs.
\<close>

theorem scatter_method_validation_counterexample:
  "st_scatterMethod (sc_step (example_scatter (One ''step/x'') (Some ''bogus'')
      [plain_port ''step/x'' None] [(''x'', PyList [PyInt 1, PyInt 2])])) = Some ''bogus''
 \<and> ''bogus'' \<notin> {''dotproduct'', ''nested_crossproduct'', ''flat_crossproduct''}
 \<and> CWLScatter_run last_segment example_eval
      (example_scatter (One ''step/x'') (Some ''bogus'')
        [plain_port ''step/x'' None] [(''x'', PyList [PyInt 1, PyInt 2])])
    = (Inr ([example_sub [(''x'', PyInt 1)], example_sub [(''x'', PyInt 2)]],
            [Leaf (example_sub [(''x'', PyInt 1)]), Leaf (example_sub [(''x'', PyInt 2)])]), [])"
  by (simp add: example_scatter_def plain_port_def example_sub_def CWLScatter_run_def
      resolve_indirect_def return_io_def bind_io_def lift_io_def scatter_resolved_def
      dotproduct_scatter_def bind_res_def dict_item_def last_segment_def upt_2
      postScatterEval_def valueFrom_dict_def rekey_def dict_set_def make_sub_job_def)

text \<open>
  Claim C9, amended. Once the job object is resolved, the run raises a validation error
  exactly when the number of scattered ports is not one and the scatterMethod is none of
  \<^verbatim>\<open>dotproduct\<close>, \<^verbatim>\<open>nested_crossproduct\<close>, \<^verbatim>\<open>flat_crossproduct\<close>: the unsupported-type
  error for any other non-empty string, the missing-method error when it is absent or
  empty. With exactly one scattered port, or with the method \<^verbatim>\<open>dotproduct\<close>, the result is
  that of the dot product, and otherwise that of the named cross product; none of these
  raises a validation error.
\<close>

theorem scatter_method_validation:
  "st_scatter (sc_step self) = Some sc \<longrightarrow>
     (is_validation (scatter_resolved shortname do_eval self cwljob) \<longleftrightarrow>
        length (aslist sc) \<noteq> 1
        \<and> st_scatterMethod (sc_step self) \<notin>
            {Some ''dotproduct'', Some ''nested_crossproduct'', Some ''flat_crossproduct''})
   \<and> (length (aslist sc) \<noteq> 1 \<and> st_scatterMethod (sc_step self) = Some m
        \<and> m \<notin> {''dotproduct'', ''nested_crossproduct'', ''flat_crossproduct'', []} \<longrightarrow>
        scatter_resolved shortname do_eval self cwljob = Inl (unsupported_scatter m))
   \<and> (length (aslist sc) \<noteq> 1 \<and> st_scatterMethod (sc_step self) \<in> {None, Some []} \<longrightarrow>
        scatter_resolved shortname do_eval self cwljob = Inl missing_scatterMethod)
   \<and> (length (aslist sc) = 1 \<longrightarrow>
        scatter_resolved shortname do_eval self cwljob =
          dotproduct_scatter shortname self (postScatterEval shortname do_eval self)
            (aslist sc) cwljob)
   \<and> (st_scatterMethod (sc_step self) = Some ''dotproduct'' \<longrightarrow>
        scatter_resolved shortname do_eval self cwljob =
          dotproduct_scatter shortname self (postScatterEval shortname do_eval self)
            (aslist sc) cwljob)
   \<and> (length (aslist sc) \<noteq> 1 \<and> st_scatterMethod (sc_step self) = Some ''nested_crossproduct''
        \<longrightarrow> scatter_resolved shortname do_eval self cwljob =
          nested_crossproduct_scatter shortname self (postScatterEval shortname do_eval self)
            (aslist sc) cwljob [])
   \<and> (length (aslist sc) \<noteq> 1 \<and> st_scatterMethod (sc_step self) = Some ''flat_crossproduct''
        \<longrightarrow> scatter_resolved shortname do_eval self cwljob =
          flat_crossproduct_scatter shortname self (postScatterEval shortname do_eval self)
            (aslist sc) cwljob ([], []))"
proof
  assume sc: "st_scatter (sc_step self) = Some sc"
  note c = scatter_resolved_cases[OF sc, of shortname do_eval cwljob]
  have d: "\<not> is_validation (dotproduct_scatter shortname self
            (postScatterEval shortname do_eval self) (aslist sc) cwljob)"
    using oo_dot[of "postScatterEval shortname do_eval self"] oo_postScatterEval
    by (simp add: other_outcome_iff)
  have n: "\<not> is_validation (nested_crossproduct_scatter shortname self
            (postScatterEval shortname do_eval self) (aslist sc) cwljob [])"
    using oo_nested[of "postScatterEval shortname do_eval self"] oo_postScatterEval
    by (simp add: other_outcome_iff)
  have f: "\<not> is_validation (flat_crossproduct_scatter shortname self
            (postScatterEval shortname do_eval self) (aslist sc) cwljob ([], []))"
    using oo_flat[of "postScatterEval shortname do_eval self"] oo_postScatterEval
    by (simp add: other_outcome_iff)
  have v: "is_validation (Inl (unsupported_scatter x) :: scatter_state res)"
    "is_validation (Inl missing_scatterMethod :: scatter_state res)" for x
    by (simp_all add: is_validation_def unsupported_scatter_def missing_scatterMethod_def)
  show "(is_validation (scatter_resolved shortname do_eval self cwljob) \<longleftrightarrow>
        length (aslist sc) \<noteq> 1
        \<and> st_scatterMethod (sc_step self) \<notin>
            {Some ''dotproduct'', Some ''nested_crossproduct'', Some ''flat_crossproduct''})
   \<and> (length (aslist sc) \<noteq> 1 \<and> st_scatterMethod (sc_step self) = Some m
        \<and> m \<notin> {''dotproduct'', ''nested_crossproduct'', ''flat_crossproduct'', []} \<longrightarrow>
        scatter_resolved shortname do_eval self cwljob = Inl (unsupported_scatter m))
   \<and> (length (aslist sc) \<noteq> 1 \<and> st_scatterMethod (sc_step self) \<in> {None, Some []} \<longrightarrow>
        scatter_resolved shortname do_eval self cwljob = Inl missing_scatterMethod)
   \<and> (length (aslist sc) = 1 \<longrightarrow>
        scatter_resolved shortname do_eval self cwljob =
          dotproduct_scatter shortname self (postScatterEval shortname do_eval self)
            (aslist sc) cwljob)
   \<and> (st_scatterMethod (sc_step self) = Some ''dotproduct'' \<longrightarrow>
        scatter_resolved shortname do_eval self cwljob =
          dotproduct_scatter shortname self (postScatterEval shortname do_eval self)
            (aslist sc) cwljob)
   \<and> (length (aslist sc) \<noteq> 1 \<and> st_scatterMethod (sc_step self) = Some ''nested_crossproduct''
        \<longrightarrow> scatter_resolved shortname do_eval self cwljob =
          nested_crossproduct_scatter shortname self (postScatterEval shortname do_eval self)
            (aslist sc) cwljob [])
   \<and> (length (aslist sc) \<noteq> 1 \<and> st_scatterMethod (sc_step self) = Some ''flat_crossproduct''
        \<longrightarrow> scatter_resolved shortname do_eval self cwljob =
          flat_crossproduct_scatter shortname self (postScatterEval shortname do_eval self)
            (aslist sc) cwljob ([], []))"
    unfolding c Let_def using d n f v
    by (auto simp: str_truthy_def split: option.splits)
qed

theorem scatter_method_validation_witness:
  "scatter_resolved last_segment example_eval
      (example_scatter (Many [''step/x'', ''step/y'']) (Some ''bogus'') [] []) []
    = Inl (unsupported_scatter ''bogus'')
 \<and> scatter_resolved last_segment example_eval
      (example_scatter (Many [''step/x'', ''step/y'']) None [] []) []
    = Inl missing_scatterMethod
 \<and> is_validation (scatter_resolved last_segment example_eval
      (example_scatter (Many []) None [] []) [])
 \<and> \<not> is_validation (scatter_resolved last_segment example_eval
      (example_scatter (One ''step/x'') (Some ''bogus'') [] []) [])
 \<and> \<not> is_validation (scatter_resolved last_segment example_eval
      (example_scatter (Many [''step/x'', ''step/y'']) (Some ''flat_crossproduct'') [] []) [])"
proof -
  have a: "scatter_resolved last_segment example_eval
      (example_scatter (Many [''step/x'', ''step/y'']) (Some ''bogus'') [] []) []
    = Inl (unsupported_scatter ''bogus'')"
    using scatter_method_validation[where sc = "Many [''step/x'', ''step/y'']"
        and self = "example_scatter (Many [''step/x'', ''step/y'']) (Some ''bogus'') [] []"
        and m = "''bogus''" and shortname = last_segment and do_eval = example_eval
        and cwljob = "[]"]
    by (auto simp: example_scatter_def)
  have b: "scatter_resolved last_segment example_eval
      (example_scatter (Many [''step/x'', ''step/y'']) None [] []) []
    = Inl missing_scatterMethod"
    using scatter_method_validation[where sc = "Many [''step/x'', ''step/y'']"
        and self = "example_scatter (Many [''step/x'', ''step/y'']) None [] []"
        and m = "''bogus''" and shortname = last_segment and do_eval = example_eval
        and cwljob = "[]"]
    by (auto simp: example_scatter_def)
  have c: "is_validation (scatter_resolved last_segment example_eval
      (example_scatter (Many []) None [] []) [])"
    using scatter_method_validation[where sc = "Many []"
        and self = "example_scatter (Many []) None [] []"
        and m = "''bogus''" and shortname = last_segment and do_eval = example_eval
        and cwljob = "[]"]
    by (auto simp: example_scatter_def)
  have d: "\<not> is_validation (scatter_resolved last_segment example_eval
      (example_scatter (One ''step/x'') (Some ''bogus'') [] []) [])"
    using scatter_method_validation[where sc = "One ''step/x''"
        and self = "example_scatter (One ''step/x'') (Some ''bogus'') [] []"
        and m = "''bogus''" and shortname = last_segment and do_eval = example_eval
        and cwljob = "[]"]
    by (auto simp: example_scatter_def)
  have e: "\<not> is_validation (scatter_resolved last_segment example_eval
      (example_scatter (Many [''step/x'', ''step/y'']) (Some ''flat_crossproduct'') [] []) [])"
    using scatter_method_validation[where sc = "Many [''step/x'', ''step/y'']"
        and self = "example_scatter (Many [''step/x'', ''step/y'']) (Some ''flat_crossproduct'') [] []"
        and m = "''bogus''" and shortname = last_segment and do_eval = example_eval
        and cwljob = "[]"]
    by (auto simp: example_scatter_def)
  show ?thesis using a b c d e by simp
qed

text \<open>
  Claim C10. \<^verbatim>\<open>DefaultWithSource.resolve\<close> with a source returns the source's resolved
  value when it is truthy and the default otherwise; the falsy values are null, False, 0,
  the empty string, the empty list and the empty mapping. An error of the source is
  passed on.
\<close>

theorem default_with_source_falsy:
  "resolve (DefaultWithSource dflt (Some source)) =
     (case resolve source of
        (Inl e, log) \<Rightarrow> (Inl e, log)
      | (Inr result, log) \<Rightarrow> (Inr (if truthy result then result else dflt), log))
 \<and> (truthy v \<longleftrightarrow> v \<notin> {PyNone, PyBool False, PyInt 0, PyStr [], PyList [], PyDict []})"
  by (cases v) (auto simp: bind_io_def return_io_def split: prod.splits sum.splits)

theorem default_with_source_falsy_witness:
  "resolve (DefaultWithSource (PyInt 7) (Some (example_source (PyInt 0)))) = (Inr (PyInt 7), [])
 \<and> resolve (DefaultWithSource (PyInt 7) (Some (example_source (PyList [])))) = (Inr (PyInt 7), [])
 \<and> resolve (DefaultWithSource (PyInt 7) (Some (example_source (PyStr [])))) = (Inr (PyInt 7), [])
 \<and> resolve (DefaultWithSource (PyInt 7) (Some (example_source (PyBool False)))) = (Inr (PyInt 7), [])
 \<and> resolve (DefaultWithSource (PyInt 7) (Some (example_source (PyInt 3)))) = (Inr (PyInt 3), [])"
  using default_with_source_falsy[of "PyInt 7" "example_source (PyInt 0)" "PyInt 0"]
    default_with_source_falsy[of "PyInt 7" "example_source (PyList [])" "PyList []"]
    default_with_source_falsy[of "PyInt 7" "example_source (PyStr [])" "PyStr []"]
    default_with_source_falsy[of "PyInt 7" "example_source (PyBool False)" "PyBool False"]
    default_with_source_falsy[of "PyInt 7" "example_source (PyInt 3)" "PyInt 3"]
  by (simp add: example_source_def example_port_def ResolveSource_resolve_def merged_value_def
      dict_get_def pick_value_def filter_skip_null_def bind_io_def lift_io_def return_io_def)

end
